theory Spec2Isabelle
  imports Complex_Main "HOL-Library.Char_ord" "HOL-Library.List_Lexorder" "HOL-Library.Monad_Syntax"
begin

section \<open>Tool-name routing (internal/transport/mcp.go)\<close>

text \<open>
  Go strings are byte sequences; \<open>string\<close> (a list of 8-bit \<open>char\<close>) models them
  byte for byte.  The conversion \<^verbatim>\<open>string(toolName[i])\<close> in \<^verbatim>\<open>splitToolName\<close> turns
  one byte into the UTF-8 encoding of the code point with that number: one byte below
  128, two bytes from 128 on.
\<close>

definition string_of_byte :: "char \<Rightarrow> string" where
  "string_of_byte c =
     (if (of_char c :: nat) < 128 then [c]
      else [char_of (192 + (of_char c :: nat) div 64), char_of (128 + (of_char c :: nat) mod 64)])"

text \<open>
  The loop of \<^verbatim>\<open>splitToolName\<close>, as a recursion over the bytes from index \<open>i\<close> on,
  with the loop variables \<open>current\<close> and \<open>parts\<close>.  The test \<^verbatim>\<open>i < len(toolName)-1\<close> is
  the existence of a next byte; a pair of underscores closes the current part and skips
  both bytes.
\<close>

fun splitLoop :: "string \<Rightarrow> string \<Rightarrow> string list \<Rightarrow> string \<times> string list" where
  "splitLoop [] current parts = (current, parts)"
| "splitLoop [c] current parts = splitLoop [] (current @ string_of_byte c) parts"
| "splitLoop (c # d # rest) current parts =
     (if c = CHR ''_'' \<and> d = CHR ''_''
      then splitLoop rest [] (parts @ [current])
      else splitLoop (d # rest) (current @ string_of_byte c) parts)"

definition splitToolName :: "string \<Rightarrow> string list" where
  "splitToolName toolName =
     (case splitLoop toolName [] [] of
        (current, parts) \<Rightarrow> if current \<noteq> [] then parts @ [current] else parts)"

text \<open>
  \<^verbatim>\<open>RouteToolUse\<close> returns \<^verbatim>\<open>(isMcp, serverName, toolName, error)\<close>; the error is
  \<^verbatim>\<open>nil\<close> on every path and is left out.  \<open>sdkMCPServers\<close> is the set of registered
  in-process server names that \<^verbatim>\<open>GetSDKMCPServer\<close> consults.
\<close>

definition RouteToolUse :: "string set \<Rightarrow> string \<Rightarrow> bool \<times> string \<times> string" where
  "RouteToolUse sdkMCPServers toolName =
     (let parts = splitToolName toolName in
      if length parts = 3 \<and> parts ! 0 = ''mcp''
      then (let serverName = parts ! 1; toolName' = parts ! 2 in
            if serverName \<in> sdkMCPServers then (True, serverName, toolName')
            else (True, serverName, toolName'))
      else (False, [], toolName))"

text \<open>A name is free of the separator when no two adjacent bytes are both underscores.\<close>

fun no_sep :: "string \<Rightarrow> bool" where
  "no_sep (c # d # rest) = (\<not> (c = CHR ''_'' \<and> d = CHR ''_'') \<and> no_sep (d # rest))"
| "no_sep _ = True"

definition ascii :: "string \<Rightarrow> bool" where
  "ascii s = list_all (\<lambda>c. (of_char c :: nat) < 128) s"


section \<open>Dynamic values (what a Go \<^verbatim>\<open>interface{}\<close> holds)\<close>

text \<open>
  The values that occur in schemas, tool arguments and JSON-RPC messages, tagged with
  their dynamic Go type: \<^verbatim>\<open>nil\<close>, \<^verbatim>\<open>bool\<close>, \<^verbatim>\<open>float64\<close>, \<^verbatim>\<open>int\<close>, \<^verbatim>\<open>string\<close>,
  \<^verbatim>\<open>[]interface{}\<close>, \<^verbatim>\<open>map[string]interface{}\<close>, \<^verbatim>\<open>[]string\<close> and \<^verbatim>\<open>map[string]string\<close>.
  A \<^verbatim>\<open>float64\<close> is modelled by the rational it denotes (finite values only; rounding is
  not modelled).  A map is an association list that is read with \<open>map_of\<close> and walked in
  list order, which is one of the orders in which Go may iterate over it.
\<close>

datatype goval =
    GNil
  | GBool bool
  | GFloat64 rat
  | GInt int
  | GString string
  | GSlice "goval list"
  | GMap "(string \<times> goval) list"
  | GStringSlice "string list"
  | GStringMap "(string \<times> string) list"

text \<open>What the verb \<^verbatim>\<open>%T\<close> prints for a value.\<close>

fun typeName :: "goval \<Rightarrow> string" where
  "typeName GNil = ''<nil>''"
| "typeName (GBool _) = ''bool''"
| "typeName (GFloat64 _) = ''float64''"
| "typeName (GInt _) = ''int''"
| "typeName (GString _) = ''string''"
| "typeName (GSlice _) = ''[]interface {}''"
| "typeName (GMap _) = ''map[string]interface {}''"
| "typeName (GStringSlice _) = ''[]string''"
| "typeName (GStringMap _) = ''map[string]string''"

text \<open>
  An error message is the text of its format string with the arguments filled in.
  String arguments and type names are filled in as text; the two arguments whose text
  depends on number formatting stay symbolic: \<open>FmtV v\<close> is \<^verbatim>\<open>%v\<close> applied to \<open>v\<close>,
  \<open>FmtJSON v\<close> is the text \<^verbatim>\<open>json.Marshal\<close> writes for \<open>v\<close>.  Wrapping an error with
  \<^verbatim>\<open>%w\<close> or \<^verbatim>\<open>%v\<close> splices its pieces in.
\<close>

datatype piece = Lit string | FmtV goval | FmtJSON goval

type_synonym message = "piece list"

text \<open>A call either returns or panics.\<close>

datatype 'a outcome = Panic | Return 'a

text \<open>
  \<^verbatim>\<open>value == e\<close> on two interface values: values of different dynamic types are unequal,
  values of the same comparable type are compared, and two values of the same slice or
  map type make the comparison panic.
\<close>

fun go_equal :: "goval \<Rightarrow> goval \<Rightarrow> bool outcome" where
  "go_equal (GSlice _) (GSlice _) = Panic"
| "go_equal (GMap _) (GMap _) = Panic"
| "go_equal (GStringSlice _) (GStringSlice _) = Panic"
| "go_equal (GStringMap _) (GStringMap _) = Panic"
| "go_equal v e = Return (v = e)"

text \<open>
  The type assertions \<^verbatim>\<open>x.(T)\<close> in their two-result form, applied to the result of a
  map lookup: an absent key gives the \<^verbatim>\<open>nil\<close> interface, on which every assertion fails.
\<close>

definition assertString :: "goval option \<Rightarrow> string option" where
  "assertString x = (case x of Some (GString s) \<Rightarrow> Some s | _ \<Rightarrow> None)"

definition assertMap :: "goval option \<Rightarrow> (string \<times> goval) list option" where
  "assertMap x = (case x of Some (GMap m) \<Rightarrow> Some m | _ \<Rightarrow> None)"

definition assertSlice :: "goval option \<Rightarrow> goval list option" where
  "assertSlice x = (case x of Some (GSlice xs) \<Rightarrow> Some xs | _ \<Rightarrow> None)"

definition assertStringSlice :: "goval option \<Rightarrow> string list option" where
  "assertStringSlice x = (case x of Some (GStringSlice ss) \<Rightarrow> Some ss | _ \<Rightarrow> None)"

definition assertFloat64 :: "goval option \<Rightarrow> rat option" where
  "assertFloat64 x = (case x of Some (GFloat64 f) \<Rightarrow> Some f | _ \<Rightarrow> None)"

definition assertBool :: "goval option \<Rightarrow> bool option" where
  "assertBool x = (case x of Some (GBool b) \<Rightarrow> Some b | _ \<Rightarrow> None)"

section \<open>Schema validation (types/options.go)\<close>

text \<open>
  \<^verbatim>\<open>float64(int64(f))\<close>: truncation toward zero inside the range of \<^verbatim>\<open>int64\<close>; outside
  it Go leaves the result to the implementation, and the model takes the value
  \<open>- 2 ^ 63\<close> that amd64 produces.
\<close>

definition float64_int64 :: "rat \<Rightarrow> rat" where
  "float64_int64 f =
     (if - (2 ^ 63) \<le> f \<and> f < 2 ^ 63
      then of_int (if 0 \<le> f then \<lfloor>f\<rfloor> else \<lceil>f\<rceil>)
      else - (2 ^ 63))"

text \<open>The loop over \<^verbatim>\<open>required\<close>: the first name that is not a key of the input.\<close>

fun checkRequired :: "string list \<Rightarrow> (string \<times> goval) list \<Rightarrow> message option" where
  "checkRequired [] input = None"
| "checkRequired (field # rest) input =
     (if map_of input field = None
      then Some [Lit ''missing required field: '', Lit field]
      else checkRequired rest input)"

text \<open>The \<^verbatim>\<open>switch propType\<close> for the types that do not recurse.\<close>

definition mustBe :: "string \<Rightarrow> string \<Rightarrow> goval \<Rightarrow> message" where
  "mustBe key what v = [Lit ''field '', Lit key, Lit '' must be '', Lit what, Lit '', got '', Lit (typeName v)]"

definition checkType :: "string \<Rightarrow> string \<Rightarrow> goval \<Rightarrow> message option" where
  "checkType propType key v =
     (if propType = ''string'' then
        (if assertString (Some v) = None then Some (mustBe key ''string'' v) else None)
      else if propType = ''number'' then
        (if assertFloat64 (Some v) = None then Some (mustBe key ''number'' v) else None)
      else if propType = ''integer'' then
        (case assertFloat64 (Some v) of
           None \<Rightarrow> Some (mustBe key ''integer'' v)
         | Some f \<Rightarrow> if f \<noteq> float64_int64 f then Some (mustBe key ''integer'' v) else None)
      else if propType = ''boolean'' then
        (if assertBool (Some v) = None then Some (mustBe key ''boolean'' v) else None)
      else if propType = ''array'' then
        (if assertSlice (Some v) = None then Some (mustBe key ''array'' v) else None)
      else None)"

text \<open>The loop over the \<^verbatim>\<open>enum\<close> values, left at the first equal one.\<close>

fun enumValid :: "goval \<Rightarrow> goval list \<Rightarrow> bool outcome" where
  "enumValid v [] = Return False"
| "enumValid v (e # es) =
     (case go_equal v e of
        Panic \<Rightarrow> Panic
      | Return eq \<Rightarrow> if eq then Return True else enumValid v es)"

definition checkEnum :: "(string \<times> goval) list \<Rightarrow> string \<Rightarrow> goval \<Rightarrow> message option outcome" where
  "checkEnum prop key v =
     (case assertSlice (map_of prop ''enum'') of
        Some enum \<Rightarrow>
          (case enumValid v enum of
             Panic \<Rightarrow> Panic
           | Return valid \<Rightarrow>
               if valid then Return None
               else Return (Some [Lit ''field '', Lit key, Lit '' must be one of '',
                                  FmtJSON (GSlice enum), Lit '', got '', FmtV v]))
      | None \<Rightarrow> Return None)"

text \<open>The schema built for a nested object: \<^verbatim>\<open>required\<close> is copied only from a \<^verbatim>\<open>[]string\<close>.\<close>

definition nestedSchema :: "(string \<times> goval) list \<Rightarrow> (string \<times> goval) list \<Rightarrow> (string \<times> goval) list" where
  "nestedSchema prop nestedProps =
     [(''type'', GString ''object''), (''properties'', GMap nestedProps)] @
     (case assertStringSlice (map_of prop ''required'') of
        Some required \<Rightarrow> [(''required'', GStringSlice required)]
      | None \<Rightarrow> [])"

text \<open>Wrapping the error of the nested call: \<^verbatim>\<open>nested validation failed for %s: %w\<close>.\<close>

definition nestedFailed :: "string \<Rightarrow> message option outcome \<Rightarrow> message option outcome" where
  "nestedFailed key r =
     (case r of
        Panic \<Rightarrow> Panic
      | Return None \<Rightarrow> Return None
      | Return (Some err) \<Rightarrow>
          Return (Some ([Lit ''nested validation failed for '', Lit key, Lit '': ''] @ err)))"

text \<open>
  \<^verbatim>\<open>validateInput\<close> returns \<^verbatim>\<open>nil\<close> (\<open>Return None\<close>) or an error.  \<open>validateEntries\<close> is
  its loop \<^verbatim>\<open>for key, value := range input\<close>; a \<^verbatim>\<open>continue\<close> is the call on the rest.
\<close>

function validateInput :: "(string \<times> goval) list \<Rightarrow> (string \<times> goval) list \<Rightarrow> message option outcome"
  and validateEntries :: "(string \<times> goval) list \<Rightarrow> (string \<times> goval) list \<Rightarrow> message option outcome"
where
  "validateInput schema input =
     (case assertString (map_of schema ''type'') of
        None \<Rightarrow> Return (Some [Lit ''invalid schema type: '', Lit []])
      | Some schemaType \<Rightarrow>
          if schemaType \<noteq> ''object''
          then Return (Some [Lit ''invalid schema type: '', Lit schemaType])
          else
            (case (case assertStringSlice (map_of schema ''required'') of
                     Some required \<Rightarrow> checkRequired required input
                   | None \<Rightarrow> None) of
               Some err \<Rightarrow> Return (Some err)
             | None \<Rightarrow>
                 (case assertMap (map_of schema ''properties'') of
                    None \<Rightarrow> Return (Some [Lit ''invalid schema properties''])
                  | Some properties \<Rightarrow> validateEntries properties input)))"
| "validateEntries properties [] = Return None"
| "validateEntries properties ((key, v) # rest) =
     (case map_of properties key of
        None \<Rightarrow> Return (Some [Lit ''unknown field: '', Lit key])
      | Some propSchema \<Rightarrow>
          (case assertMap (Some propSchema) of
             None \<Rightarrow> validateEntries properties rest
           | Some prop \<Rightarrow>
               (case assertString (map_of prop ''type'') of
                  None \<Rightarrow> validateEntries properties rest
                | Some propType \<Rightarrow>
                    (case (if propType = ''object'' then
                             (case assertMap (Some v) of
                                Some objValue \<Rightarrow>
                                  (case assertMap (map_of prop ''properties'') of
                                     Some nestedProps \<Rightarrow>
                                       nestedFailed key
                                         (validateInput (nestedSchema prop nestedProps) objValue)
                                   | None \<Rightarrow> Return None)
                              | None \<Rightarrow> Return (Some (mustBe key ''object'' v)))
                           else Return (checkType propType key v)) of
                       Panic \<Rightarrow> Panic
                     | Return (Some err) \<Rightarrow> Return (Some err)
                     | Return None \<Rightarrow>
                         (case checkEnum prop key v of
                            Panic \<Rightarrow> Panic
                          | Return (Some err) \<Rightarrow> Return (Some err)
                          | Return None \<Rightarrow> validateEntries properties rest)))))"
  by pat_completeness auto
termination
  by (relation "measure (\<lambda>x. case x of
         Inl (schema, input) \<Rightarrow> 2 * size (GMap input) + 1
       | Inr (properties, entries) \<Rightarrow> 2 * size (GMap entries))")
     (auto simp: assertMap_def split: goval.splits)

text \<open>
  The arguments that the validation rules of the server admit, stated from the rules and
  not from the code: the schema is of type \<open>object\<close>; every name in its \<open>required\<close> list
  is a key of the arguments; every key of the arguments is declared in \<open>properties\<close>;
  a value whose property declares a type has that type, an \<open>integer\<close> being a number
  that is whole (and within 64 bits), and is a member of the property's \<open>enum\<close> when
  there is one; and the value of an \<open>object\<close> property that declares \<open>properties\<close> of
  its own conforms to that property, with the property's own \<open>required\<close> list.  A
  \<open>required\<close> list is a \<^verbatim>\<open>[]string\<close> and an \<open>enum\<close> a \<^verbatim>\<open>[]interface{}\<close>, as the tool
  builders store them.
\<close>

inductive conforms :: "(string \<times> goval) list \<Rightarrow> (string \<times> goval) list \<Rightarrow> bool" where
  "map_of schema ''type'' = Some (GString ''object'') \<Longrightarrow>
   (\<forall>names field. map_of schema ''required'' = Some (GStringSlice names) \<and> field \<in> set names \<longrightarrow>
      field \<in> fst ` set input) \<Longrightarrow>
   map_of schema ''properties'' = Some (GMap properties) \<Longrightarrow>
   (\<forall>key v. (key, v) \<in> set input \<longrightarrow>
      (\<exists>propSchema. map_of properties key = Some propSchema \<and>
         (\<forall>prop propType. propSchema = GMap prop \<and> map_of prop ''type'' = Some (GString propType) \<longrightarrow>
            (propType = ''string'' \<longrightarrow> (\<exists>x. v = GString x))
          \<and> (propType = ''number'' \<longrightarrow> (\<exists>f. v = GFloat64 f))
          \<and> (propType = ''integer'' \<longrightarrow>
                (\<exists>n. v = GFloat64 (of_int n) \<and> - (2 ^ 63) \<le> n \<and> n < 2 ^ 63))
          \<and> (propType = ''boolean'' \<longrightarrow> (\<exists>b. v = GBool b))
          \<and> (propType = ''array'' \<longrightarrow> (\<exists>xs. v = GSlice xs))
          \<and> (propType = ''object'' \<longrightarrow>
                (\<exists>objValue. v = GMap objValue \<and>
                   (\<forall>nestedProps. map_of prop ''properties'' = Some (GMap nestedProps) \<longrightarrow>
                      conforms prop objValue)))
          \<and> (\<forall>enum. map_of prop ''enum'' = Some (GSlice enum) \<longrightarrow> v \<in> set enum)))) \<Longrightarrow>
   conforms schema input"

section \<open>JSON documents and the generic codec (encoding/json)\<close>

text \<open>
  A JSON document as a tree.  A number is \<open>JInt\<close> when its literal is a plain integer and
  \<open>JFloat\<close> when the literal has a fraction or an exponent.  A string and a key carry the
  bytes of the literal with its escapes resolved.  The members of an object are kept in
  document order, duplicates included.
\<close>

datatype json =
    JNull
  | JBool bool
  | JInt int
  | JFloat rat
  | JString string
  | JArray "json list"
  | JObject "(string \<times> json) list"

text \<open>
  Strings are coerced to well-formed UTF-8 in both directions: the encoder writes the
  replacement character U+FFFD for every byte at which \<^verbatim>\<open>utf8.DecodeRuneInString\<close>
  reports an invalid encoding, and the decoder does the same when it unquotes a string or a
  key.
  \<open>runeSize\<close> is the width of the encoding at the head of a byte sequence as
  \<^verbatim>\<open>DecodeRune\<close> finds it, \<open>0\<close> when there is none: the lead byte fixes the width
  (\<open>leadSize\<close>) and the range of the second byte (\<open>acceptRange\<close>, which excludes overlong
  forms, surrogates and code points above U+10FFFF), every further byte is a continuation
  byte.
\<close>

definition leadSize :: "nat \<Rightarrow> nat" where
  "leadSize b =
     (if b < 0x80 then 1
      else if 0xC2 \<le> b \<and> b \<le> 0xDF then 2
      else if 0xE0 \<le> b \<and> b \<le> 0xEF then 3
      else if 0xF0 \<le> b \<and> b \<le> 0xF4 then 4
      else 0)"

definition acceptRange :: "nat \<Rightarrow> nat \<times> nat" where
  "acceptRange b =
     (if b = 0xE0 then (0xA0, 0xBF)
      else if b = 0xED then (0x80, 0x9F)
      else if b = 0xF0 then (0x90, 0xBF)
      else if b = 0xF4 then (0x80, 0x8F)
      else (0x80, 0xBF))"

definition continuation :: "nat \<Rightarrow> bool" where
  "continuation b = (0x80 \<le> b \<and> b \<le> 0xBF)"

fun runeSize :: "nat list \<Rightarrow> nat" where
  "runeSize [] = 0"
| "runeSize (b0 # bs) =
     (let sz = leadSize b0; follow = take (sz - 1) bs in
      if sz \<le> 1 then sz
      else if length bs < sz - 1 then 0
      else if fst (acceptRange b0) \<le> hd follow \<and> hd follow \<le> snd (acceptRange b0) \<and>
              list_all continuation (tl follow)
      then sz
      else 0)"

text \<open>
  The loop that both directions share: a valid encoding is copied, any other byte is
  replaced by the encoding of U+FFFD and the scan goes on at the next byte.
\<close>

function coerceUTF8 :: "string \<Rightarrow> string" where
  "coerceUTF8 s =
     (if s = [] then []
      else if runeSize (map of_char s) = 0 then [CHR 0xEF, CHR 0xBF, CHR 0xBD] @ coerceUTF8 (tl s)
      else take (runeSize (map of_char s)) s @ coerceUTF8 (drop (runeSize (map of_char s)) s))"
  by pat_completeness auto
termination
  by (relation "measure length") (auto simp: neq_Nil_conv)

text \<open>A string is well-formed UTF-8 when the coercion leaves it as it is.\<close>

definition wellFormed :: "string \<Rightarrow> bool" where
  "wellFormed s = (coerceUTF8 s = s)"

definition marshalString :: "string \<Rightarrow> json" where
  "marshalString s = JString (coerceUTF8 s)"

text \<open>
  \<^verbatim>\<open>m[k] = v\<close> on a map.  A Go map has no order; the model keeps the maps that the decoder
  builds sorted by key, which is the order in which \<^verbatim>\<open>json.Marshal\<close> writes a map.
\<close>

fun map_store :: "string \<Rightarrow> 'a \<Rightarrow> (string \<times> 'a) list \<Rightarrow> (string \<times> 'a) list" where
  "map_store k v [] = [(k, v)]"
| "map_store k v ((k', v') # m) =
     (if k < k' then (k, v) # (k', v') # m
      else if k = k' then (k, v) # m
      else (k', v') # map_store k v m)"

definition map_of_members :: "(string \<times> 'a) list \<Rightarrow> (string \<times> 'a) list" where
  "map_of_members kvs = foldl (\<lambda>m (k, v). map_store k v m) [] kvs"

text \<open>\<^verbatim>\<open>json.Unmarshal\<close> into an \<^verbatim>\<open>interface{}\<close>: every number becomes a \<^verbatim>\<open>float64\<close>.\<close>

fun decode_any :: "json \<Rightarrow> goval"
  and decode_any_list :: "json list \<Rightarrow> goval list"
  and decode_any_members :: "(string \<times> json) list \<Rightarrow> (string \<times> goval) list"
where
  "decode_any JNull = GNil"
| "decode_any (JBool b) = GBool b"
| "decode_any (JInt n) = GFloat64 (of_int n)"
| "decode_any (JFloat f) = GFloat64 f"
| "decode_any (JString s) = GString (coerceUTF8 s)"
| "decode_any (JArray xs) = GSlice (decode_any_list xs)"
| "decode_any (JObject kvs) = GMap (map_of_members (decode_any_members kvs))"
| "decode_any_list [] = []"
| "decode_any_list (x # xs) = decode_any x # decode_any_list xs"
| "decode_any_members [] = []"
| "decode_any_members ((k, x) # kvs) = (coerceUTF8 k, decode_any x) # decode_any_members kvs"

text \<open>
  \<^verbatim>\<open>json.Marshal\<close> of a dynamic value.  A \<^verbatim>\<open>float64\<close> that is a whole number below
  \<open>10 ^ 21\<close> in size is written without fraction or exponent; the entries of a map are
  sorted by key and then written, key and value coerced to well-formed UTF-8.
\<close>

definition marshalKeys :: "(string \<times> json) list \<Rightarrow> (string \<times> json) list" where
  "marshalKeys members = map (\<lambda>(k, j). (coerceUTF8 k, j)) (sort_key fst members)"

definition marshal_float64 :: "rat \<Rightarrow> json" where
  "marshal_float64 f =
     (if f = of_int \<lfloor>f\<rfloor> \<and> \<bar>f\<bar> < 10 ^ 21 then JInt \<lfloor>f\<rfloor> else JFloat f)"

fun marshal :: "goval \<Rightarrow> json"
  and marshal_list :: "goval list \<Rightarrow> json list"
  and marshal_members :: "(string \<times> goval) list \<Rightarrow> (string \<times> json) list"
where
  "marshal GNil = JNull"
| "marshal (GBool b) = JBool b"
| "marshal (GFloat64 f) = marshal_float64 f"
| "marshal (GInt n) = JInt n"
| "marshal (GString s) = marshalString s"
| "marshal (GSlice xs) = JArray (marshal_list xs)"
| "marshal (GMap kvs) = JObject (marshalKeys (marshal_members kvs))"
| "marshal (GStringSlice ss) = JArray (map marshalString ss)"
| "marshal (GStringMap kvs) = JObject (marshalKeys (map (\<lambda>(k, s). (k, marshalString s)) kvs))"
| "marshal_list [] = []"
| "marshal_list (x # xs) = marshal x # marshal_list xs"
| "marshal_members [] = []"
| "marshal_members ((k, x) # kvs) = (k, marshal x) # marshal_members kvs"

section \<open>Content blocks and tool results (types/messages.go, types/options.go)\<close>

text \<open>
  The four block structs, fields in declaration order:
  \<open>TextBlock Type Text\<close>, \<open>ThinkingBlock Type Thinking Signature\<close>,
  \<open>ToolUseBlock Type ID Name Input\<close> (\<open>None\<close> is the \<^verbatim>\<open>nil\<close> map) and
  \<open>ToolResultBlock Type ToolUseID Content IsError\<close> (\<open>None\<close> is the \<^verbatim>\<open>nil\<close> pointer).
\<close>

datatype ContentBlock =
    TextBlock string string
  | ThinkingBlock string string string
  | ToolUseBlock string string string "(string \<times> goval) list option"
  | ToolResultBlock string string goval "bool option"

text \<open>\<open>Content = None\<close> is the \<^verbatim>\<open>nil\<close> slice.\<close>

record ToolResult =
  Content :: "ContentBlock list option"
  IsError :: bool

text \<open>
  \<^verbatim>\<open>json.Marshal\<close> of the structs, following their field tags: \<^verbatim>\<open>omitempty\<close> drops a
  \<^verbatim>\<open>nil\<close> interface, a \<^verbatim>\<open>nil\<close> pointer and the boolean \<^verbatim>\<open>false\<close>.
\<close>

fun marshalContentBlock :: "ContentBlock \<Rightarrow> json" where
  "marshalContentBlock (TextBlock ty text) =
     JObject [(''type'', marshalString ty), (''text'', marshalString text)]"
| "marshalContentBlock (ThinkingBlock ty thinking signature) =
     JObject [(''type'', marshalString ty), (''thinking'', marshalString thinking),
              (''signature'', marshalString signature)]"
| "marshalContentBlock (ToolUseBlock ty ident nm input) =
     JObject [(''type'', marshalString ty), (''id'', marshalString ident), (''name'', marshalString nm),
              (''input'', case input of None \<Rightarrow> JNull | Some m \<Rightarrow> marshal (GMap m))]"
| "marshalContentBlock (ToolResultBlock ty toolUseID content isError) =
     JObject ([(''type'', marshalString ty), (''tool_use_id'', marshalString toolUseID)] @
              (if content = GNil then [] else [(''content'', marshal content)]) @
              (case isError of None \<Rightarrow> [] | Some b \<Rightarrow> [(''is_error'', JBool b)]))"

definition marshalToolResult :: "ToolResult \<Rightarrow> json" where
  "marshalToolResult r =
     JObject ([(''content'', case Content r of
                               None \<Rightarrow> JNull
                             | Some blocks \<Rightarrow> JArray (map marshalContentBlock blocks))] @
              (if IsError r then [(''isError'', JBool True)] else []))"


section \<open>Tools (types/options.go)\<close>

text \<open>
  The struct \<^verbatim>\<open>tool\<close> that \<^verbatim>\<open>ToolBuilder.Build\<close> returns.  A handler returns a result
  (\<open>None\<close> is the \<^verbatim>\<open>nil\<close> pointer) or an error, or panics; \<open>validator = None\<close> is the
  \<^verbatim>\<open>nil\<close> function.
\<close>

record tool =
  name :: string
  description :: string
  inputSchema :: "(string \<times> goval) list"
  handler :: "(string \<times> goval) list \<Rightarrow> (message + ToolResult option) outcome"
  validator :: "((string \<times> goval) list \<Rightarrow> message option outcome) option"

definition Execute :: "tool \<Rightarrow> (string \<times> goval) list \<Rightarrow> (message + ToolResult option) outcome" where
  "Execute t input =
     (case validateInput (inputSchema t) input of
        Panic \<Rightarrow> Panic
      | Return (Some err) \<Rightarrow> Return (Inl (Lit ''input validation failed: '' # err))
      | Return None \<Rightarrow>
          (case (case validator t of None \<Rightarrow> Return None | Some check \<Rightarrow> check input) of
             Panic \<Rightarrow> Panic
           | Return (Some err) \<Rightarrow> Return (Inl (Lit ''custom validation failed: '' # err))
           | Return None \<Rightarrow> handler t input))"

section \<open>JSON-RPC responses and the in-process MCP server (internal/mcp)\<close>

definition ErrorCodeMethodNotFound :: int where "ErrorCodeMethodNotFound = - 32601"
definition ErrorCodeInvalidParams :: int where "ErrorCodeInvalidParams = - 32602"
definition ErrorCodeInternalError :: int where "ErrorCodeInternalError = - 32603"

text \<open>The struct \<^verbatim>\<open>Error\<close>; \<open>Data = GNil\<close> is the \<^verbatim>\<open>nil\<close> interface.\<close>

record Error =
  Code :: int
  Message :: message
  Data :: goval

text \<open>
  What the field \<^verbatim>\<open>Result interface{}\<close> of a \<^verbatim>\<open>Response\<close> holds here: nothing, a map, or
  the \<^verbatim>\<open>*ToolResult\<close> that \<^verbatim>\<open>Execute\<close> returned.
\<close>

datatype result_value = NoResult | MapResult goval | ToolResultPtr "ToolResult option"

record Response =
  JsonRpc :: string
  ID :: goval
  Result :: result_value
  Error :: "Error option"

definition NewSuccessResponse :: "goval \<Rightarrow> result_value \<Rightarrow> Response" where
  "NewSuccessResponse i r = \<lparr>JsonRpc = ''2.0'', ID = i, Result = r, Error = None\<rparr>"

text \<open>No caller in the server passes the variadic \<^verbatim>\<open>data\<close>, so \<^verbatim>\<open>Data\<close> stays \<^verbatim>\<open>nil\<close>.\<close>

definition NewErrorResponse :: "goval \<Rightarrow> int \<Rightarrow> message \<Rightarrow> Response" where
  "NewErrorResponse i c m =
     \<lparr>JsonRpc = ''2.0'', ID = i, Result = NoResult,
      Error = Some \<lparr>Code = c, Message = m, Data = GNil\<rparr>\<rparr>"

text \<open>
  The map that \<^verbatim>\<open>responseToMap\<close> returns, one field for each key: \<open>jsonrpc\<close> and \<open>id\<close>
  are always set, \<open>error\<close> and \<open>result\<close> are \<open>None\<close> when the key is absent; the value
  under \<open>error\<close> is a map with the keys \<open>code\<close>, \<open>message\<close> and, when set, \<open>data\<close>.
\<close>

record ErrorMap =
  err_code :: int
  err_message :: message
  err_data :: "goval option"

record ResponseMap =
  resp_jsonrpc :: string
  resp_id :: goval
  resp_error :: "ErrorMap option"
  resp_result :: "goval option"

definition marshalResult :: "result_value \<Rightarrow> json" where
  "marshalResult r =
     (case r of
        NoResult \<Rightarrow> JNull
      | MapResult v \<Rightarrow> marshal v
      | ToolResultPtr None \<Rightarrow> JNull
      | ToolResultPtr (Some tr) \<Rightarrow> marshalToolResult tr)"

text \<open>
  \<^verbatim>\<open>json.Marshal\<close> cannot fail on the values of this model, so the two fallback branches
  of \<^verbatim>\<open>responseToMap\<close> are not reached.
\<close>

definition responseToMap :: "Response \<Rightarrow> ResponseMap" where
  "responseToMap resp =
     (case Error resp of
        Some e \<Rightarrow>
          \<lparr>resp_jsonrpc = JsonRpc resp, resp_id = ID resp,
           resp_error = Some \<lparr>err_code = Code e, err_message = Message e,
                              err_data = (if Data e \<noteq> GNil then Some (Data e) else None)\<rparr>,
           resp_result = None\<rparr>
      | None \<Rightarrow>
          \<lparr>resp_jsonrpc = JsonRpc resp, resp_id = ID resp, resp_error = None,
           resp_result = (if Result resp \<noteq> NoResult
                          then Some (decode_any (marshalResult (Result resp)))
                          else None)\<rparr>)"

record SdkMCPServer =
  serverName :: string
  version :: string
  tools :: "tool list"
  toolsMap :: "string \<Rightarrow> tool option"

definition NewSdkMCPServer :: "string \<Rightarrow> string \<Rightarrow> tool list \<Rightarrow> SdkMCPServer" where
  "NewSdkMCPServer nm ver ts =
     \<lparr>serverName = nm, version = ver, tools = ts,
      toolsMap = foldl (\<lambda>m t. m(name t \<mapsto> t)) Map.empty ts\<rparr>"

text \<open>\<^verbatim>\<open>msg["id"]\<close>: the value under the key, \<^verbatim>\<open>nil\<close> when there is none.\<close>

definition msg_id :: "(string \<times> goval) list \<Rightarrow> goval" where
  "msg_id msg = (case map_of msg ''id'' of Some v \<Rightarrow> v | None \<Rightarrow> GNil)"

definition handleInitialize :: "SdkMCPServer \<Rightarrow> (string \<times> goval) list \<Rightarrow> ResponseMap" where
  "handleInitialize s msg =
     responseToMap (NewSuccessResponse (msg_id msg) (MapResult (GMap
       [(''protocolVersion'', GString ''0.1.0''),
        (''capabilities'', GMap [(''tools'', GMap [(''listChanged'', GBool False)])]),
        (''serverInfo'', GMap [(''name'', GString (serverName s)),
                                (''version'', GString (version s))])])))"

definition handleToolsList :: "SdkMCPServer \<Rightarrow> (string \<times> goval) list \<Rightarrow> ResponseMap" where
  "handleToolsList s msg =
     responseToMap (NewSuccessResponse (msg_id msg) (MapResult (GMap
       [(''tools'', GSlice (map (\<lambda>t. GMap [(''name'', GString (name t)),
                                             (''description'', GString (description t)),
                                             (''inputSchema'', GMap (inputSchema t))])
                                (tools s)))])))"

definition handleToolsCall :: "SdkMCPServer \<Rightarrow> (string \<times> goval) list \<Rightarrow> ResponseMap outcome" where
  "handleToolsCall s msg =
     (case assertMap (map_of msg ''params'') of
        None \<Rightarrow>
          Return (responseToMap (NewErrorResponse (msg_id msg) ErrorCodeInvalidParams
                    [Lit ''missing or invalid params'']))
      | Some params \<Rightarrow>
          (case assertString (map_of params ''name'') of
             None \<Rightarrow>
               Return (responseToMap (NewErrorResponse (msg_id msg) ErrorCodeInvalidParams
                         [Lit ''missing or invalid tool name'']))
           | Some nm \<Rightarrow>
               (case toolsMap s nm of
                  None \<Rightarrow>
                    Return (responseToMap (NewErrorResponse (msg_id msg) ErrorCodeMethodNotFound
                              [Lit ''tool not found: '', Lit nm]))
                | Some t \<Rightarrow>
                    (case assertMap (map_of params ''arguments'') of
                       None \<Rightarrow>
                         Return (responseToMap (NewErrorResponse (msg_id msg)
                                   ErrorCodeInvalidParams [Lit ''missing or invalid arguments'']))
                     | Some input \<Rightarrow>
                         (case Execute t input of
                            Panic \<Rightarrow> Panic
                          | Return (Inl err) \<Rightarrow>
                              Return (responseToMap (NewErrorResponse (msg_id msg)
                                        ErrorCodeInternalError
                                        (Lit ''tool execution failed: '' # err)))
                          | Return (Inr r) \<Rightarrow>
                              Return (responseToMap (NewSuccessResponse (msg_id msg)
                                                       (ToolResultPtr r))))))))"

text \<open>
  \<^verbatim>\<open>HandleMessage\<close> returns \<^verbatim>\<open>(map, error)\<close>: \<open>Inl\<close> is a non-\<^verbatim>\<open>nil\<close> error (with a
  \<^verbatim>\<open>nil\<close> map), \<open>Inr\<close> a map with a \<^verbatim>\<open>nil\<close> error.
\<close>

definition HandleMessage :: "SdkMCPServer \<Rightarrow> (string \<times> goval) list \<Rightarrow> (message + ResponseMap) outcome" where
  "HandleMessage s msg =
     (case assertString (map_of msg ''method'') of
        None \<Rightarrow> Return (Inl [Lit ''missing or invalid method field''])
      | Some method \<Rightarrow>
          if method = ''initialize'' then Return (Inr (handleInitialize s msg))
          else if method = ''tools/list'' then Return (Inr (handleToolsList s msg))
          else if method = ''tools/call'' then
            (case handleToolsCall s msg of Panic \<Rightarrow> Panic | Return r \<Rightarrow> Return (Inr r))
          else Return (Inr (responseToMap (NewErrorResponse (msg_id msg) ErrorCodeMethodNotFound
                              [Lit ''method not found: '', Lit method]))))"

section \<open>The calculator's add tool (types/options.go, tests)\<close>

text \<open>
  \<^verbatim>\<open>fmt.Sprintf("%.2f", f)\<close>: the sign, the digits of the whole part, a point and two
  decimals, the value rounded to the nearest hundredth and a tie to the even one.
\<close>

function decimal :: "nat \<Rightarrow> string" where
  "decimal n = (if n < 10 then [''0123456789'' ! n] else decimal (n div 10) @ [''0123456789'' ! (n mod 10)])"
  by pat_completeness auto
termination
  by (relation "measure id") auto

definition roundHalfEven :: "rat \<Rightarrow> int" where
  "roundHalfEven x =
     (let n = \<lfloor>x\<rfloor>; r = x - of_int n in
      if r < 1 / 2 then n else if 1 / 2 < r then n + 1 else if even n then n else n + 1)"

definition format2f :: "rat \<Rightarrow> string" where
  "format2f f =
     (let n = nat (roundHalfEven (\<bar>f\<bar> * 100)) in
      (if f < 0 then ''-'' else []) @ decimal (n div 100) @ ''.'' @
      [''0123456789'' ! (n mod 100 div 10), ''0123456789'' ! (n mod 10)])"

text \<open>
  The tool \<^verbatim>\<open>add\<close> of \<^verbatim>\<open>NewCalculatorToolkit\<close>, which \<^verbatim>\<open>TestSdkMCPFullFlow\<close> builds in
  the same way: two required number parameters, with the schema that \<^verbatim>\<open>buildJSONSchema\<close>
  produces for them.  Its handler reads both arguments with the type assertion
  \<^verbatim>\<open>.(float64)\<close>, which panics on any other value, and answers
  \<^verbatim>\<open>Sprintf("%.2f + %.2f = %.2f", a, b, a + b)\<close> as a text block through
  \<^verbatim>\<open>NewMcpToolResult\<close>; it returns no error.  The sum is the exact one, as rounding
  is not modelled.
\<close>

definition addSchema :: "(string \<times> goval) list" where
  "addSchema =
     [(''type'', GString ''object''),
      (''properties'', GMap
         [(''a'', GMap [(''type'', GString ''number''), (''description'', GString ''First number'')]),
          (''b'', GMap [(''type'', GString ''number''), (''description'', GString ''Second number'')])]),
      (''required'', GStringSlice [''a'', ''b''])]"

definition NewMcpToolResult :: "ContentBlock list \<Rightarrow> ToolResult option" where
  "NewMcpToolResult content = Some \<lparr>Content = Some content, IsError = False\<rparr>"

definition addHandler :: "(string \<times> goval) list \<Rightarrow> (message + ToolResult option) outcome" where
  "addHandler args =
     (case assertFloat64 (map_of args ''a'') of
        None \<Rightarrow> Panic
      | Some a \<Rightarrow>
          (case assertFloat64 (map_of args ''b'') of
             None \<Rightarrow> Panic
           | Some b \<Rightarrow>
               Return (Inr (NewMcpToolResult
                 [TextBlock ''text''
                    (format2f a @ '' + '' @ format2f b @ '' = '' @ format2f (a + b))]))))"

definition addTool :: tool where
  "addTool = \<lparr>name = ''add'', description = ''Add two numbers'', inputSchema = addSchema,
               handler = addHandler, validator = None\<rparr>"

text \<open>The server of \<^verbatim>\<open>TestSdkMCPFullFlow\<close>.\<close>

definition calcServer :: SdkMCPServer where
  "calcServer = NewSdkMCPServer ''calculator'' ''1.0.0'' [addTool]"

text \<open>The request \<^verbatim>\<open>tools/call\<close> of \<^verbatim>\<open>add\<close> with the given id and arguments.\<close>

definition callAdd :: "goval \<Rightarrow> goval \<Rightarrow> (string \<times> goval) list" where
  "callAdd i arguments =
     [(''jsonrpc'', GString ''2.0''), (''id'', i), (''method'', GString ''tools/call''),
      (''params'', GMap [(''name'', GString ''add''), (''arguments'', arguments)])]"

text \<open>The same schema with \<^verbatim>\<open>required\<close> as generic JSON decoding yields it, a \<^verbatim>\<open>[]interface{}\<close>.\<close>

definition addSchemaDecoded :: "(string \<times> goval) list" where
  "addSchemaDecoded =
     [(''type'', GString ''object''),
      (''properties'', GMap
         [(''a'', GMap [(''type'', GString ''number''), (''description'', GString ''First number'')]),
          (''b'', GMap [(''type'', GString ''number''), (''description'', GString ''Second number'')])]),
      (''required'', GSlice [GString ''a'', GString ''b''])]"


text \<open>
  The schema that \<^verbatim>\<open>buildJSONSchema\<close> produces for one required object parameter
  \<^verbatim>\<open>point\<close> with one required number property \<^verbatim>\<open>x\<close>.
\<close>

definition pointSchema :: "(string \<times> goval) list" where
  "pointSchema =
     [(''type'', GString ''object''),
      (''properties'', GMap
         [(''point'', GMap [(''type'', GString ''object''), (''description'', GString ''A point''),
                            (''properties'', GMap
                               [(''x'', GMap [(''type'', GString ''number''),
                                              (''description'', GString ''X'')])]),
                            (''required'', GStringSlice [''x''])])]),
      (''required'', GStringSlice [''point''])]"

text \<open>Reading a response: the error code, and a field of the result map.\<close>

definition errorCode :: "(message + ResponseMap) outcome \<Rightarrow> int option" where
  "errorCode out =
     (case out of
        Return (Inr resp) \<Rightarrow> (case resp_error resp of Some e \<Rightarrow> Some (err_code e) | None \<Rightarrow> None)
      | _ \<Rightarrow> None)"

definition resultField :: "(message + ResponseMap) outcome \<Rightarrow> string \<Rightarrow> goval option" where
  "resultField out key =
     (case out of
        Return (Inr resp) \<Rightarrow> (case assertMap (resp_result resp) of Some m \<Rightarrow> map_of m key | None \<Rightarrow> None)
      | _ \<Rightarrow> None)"

section \<open>Typed decoding (encoding/json)\<close>

text \<open>
  \<^verbatim>\<open>json.Unmarshal\<close> into a struct walks the members of the object in order.  A member is
  stored into the field whose JSON name equals its unquoted key up to case folding; members
  that match no field are skipped.  \<open>foldName\<close> folds a key the way the decoder does, as far
  as a match with an ASCII name goes: ASCII letters to upper case, and the two other
  letters that fold to ASCII, U+017F to \<open>S\<close> and U+212A to \<open>K\<close> (in UTF-8).
\<close>

definition upper :: "char \<Rightarrow> char" where
  "upper c =
     (case map_of (zip ''abcdefghijklmnopqrstuvwxyz'' ''ABCDEFGHIJKLMNOPQRSTUVWXYZ'') c of
        Some u \<Rightarrow> u
      | None \<Rightarrow> c)"

function foldName :: "string \<Rightarrow> string" where
  "foldName s =
     (if s = [] then []
      else if take 2 s = [CHR 0xC5, CHR 0xBF] then CHR ''S'' # foldName (drop 2 s)
      else if take 3 s = [CHR 0xE2, CHR 0x84, CHR 0xAA] then CHR ''K'' # foldName (drop 3 s)
      else upper (hd s) # foldName (tl s))"
  by pat_completeness auto
termination
  by (relation "measure length") (auto simp: neq_Nil_conv)

definition fieldValues :: "string \<Rightarrow> (string \<times> json) list \<Rightarrow> json list" where
  "fieldValues field members =
     map snd (filter (\<lambda>kv. foldName (coerceUTF8 (fst kv)) = foldName field) members)"

text \<open>
  The values of the members that match a field are stored one after the other, starting
  from the zero value.  A value of the wrong JSON type makes the whole \<^verbatim>\<open>Unmarshal\<close>
  return an error (\<open>None\<close>); \<^verbatim>\<open>null\<close> leaves a string, number or boolean as it is and
  sets a pointer, map, slice or interface to \<^verbatim>\<open>nil\<close>.
\<close>

definition decodeField :: "(json \<Rightarrow> 'a \<Rightarrow> 'a option) \<Rightarrow> 'a \<Rightarrow> json list \<Rightarrow> 'a option" where
  "decodeField store zero vals =
     foldl (\<lambda>acc v. case acc of None \<Rightarrow> None | Some old \<Rightarrow> store v old) (Some zero) vals"

fun storeString :: "json \<Rightarrow> string \<Rightarrow> string option" where
  "storeString (JString s) old = Some (coerceUTF8 s)"
| "storeString JNull old = Some old"
| "storeString _ old = None"

fun storeStringPtr :: "json \<Rightarrow> string option \<Rightarrow> string option option" where
  "storeStringPtr (JString s) old = Some (Some (coerceUTF8 s))"
| "storeStringPtr JNull old = Some None"
| "storeStringPtr _ old = None"

fun storeBool :: "json \<Rightarrow> bool \<Rightarrow> bool option" where
  "storeBool (JBool b) old = Some b"
| "storeBool JNull old = Some old"
| "storeBool _ old = None"

fun storeBoolPtr :: "json \<Rightarrow> bool option \<Rightarrow> bool option option" where
  "storeBoolPtr (JBool b) old = Some (Some b)"
| "storeBoolPtr JNull old = Some None"
| "storeBoolPtr _ old = None"

text \<open>An \<^verbatim>\<open>int\<close> field takes an integer literal in the range of 64 bits.\<close>

fun storeInt :: "json \<Rightarrow> int \<Rightarrow> int option" where
  "storeInt (JInt n) old = (if - (2 ^ 63) \<le> n \<and> n < 2 ^ 63 then Some n else None)"
| "storeInt JNull old = Some old"
| "storeInt _ old = None"

fun storeFloat64Ptr :: "json \<Rightarrow> rat option \<Rightarrow> rat option option" where
  "storeFloat64Ptr (JInt n) old = Some (Some (of_int n))"
| "storeFloat64Ptr (JFloat f) old = Some (Some f)"
| "storeFloat64Ptr JNull old = Some None"
| "storeFloat64Ptr _ old = None"

text \<open>A \<^verbatim>\<open>json.RawMessage\<close> keeps the value as it stands, \<^verbatim>\<open>null\<close> included.\<close>

fun storeRaw :: "json \<Rightarrow> json option \<Rightarrow> json option option" where
  "storeRaw v old = Some (Some v)"

fun storeRawSlice :: "json \<Rightarrow> json list option \<Rightarrow> json list option option" where
  "storeRawSlice (JArray xs) old = Some (Some xs)"
| "storeRawSlice JNull old = Some None"
| "storeRawSlice _ old = None"

text \<open>An object is stored into the map that is already there, member by member.\<close>

fun storeRawMap :: "json \<Rightarrow> (string \<times> json) list option \<Rightarrow> (string \<times> json) list option option" where
  "storeRawMap (JObject kvs) old =
     Some (Some (foldl (\<lambda>m (k, v). map_store (coerceUTF8 k) v m)
                   (case old of None \<Rightarrow> [] | Some m \<Rightarrow> m) kvs))"
| "storeRawMap JNull old = Some None"
| "storeRawMap _ old = None"

fun storeAnyMap :: "json \<Rightarrow> (string \<times> goval) list option \<Rightarrow> (string \<times> goval) list option option" where
  "storeAnyMap (JObject kvs) old =
     Some (Some (foldl (\<lambda>m (k, v). map_store k v m) (case old of None \<Rightarrow> [] | Some m \<Rightarrow> m)
                   (decode_any_members kvs)))"
| "storeAnyMap JNull old = Some None"
| "storeAnyMap _ old = None"

fun storeAny :: "json \<Rightarrow> goval \<Rightarrow> goval option" where
  "storeAny v old = Some (decode_any v)"

text \<open>
  The members that a struct is decoded from: those of an object; none for \<^verbatim>\<open>null\<close>, which
  leaves the struct untouched; any other value is a type error.
\<close>

fun objectMembers :: "json \<Rightarrow> (string \<times> json) list option" where
  "objectMembers (JObject members) = Some members"
| "objectMembers JNull = Some []"
| "objectMembers _ = None"

text \<open>\<^verbatim>\<open>json.Unmarshal(raw, &s)\<close> for a fresh string \<open>s\<close>, and for a fresh \<^verbatim>\<open>[]json.RawMessage\<close>.\<close>

definition unmarshalString :: "json \<Rightarrow> string option" where
  "unmarshalString raw = storeString raw []"

definition unmarshalRawSlice :: "json \<Rightarrow> json list option option" where
  "unmarshalRawSlice raw = storeRawSlice raw None"

section \<open>Message parser (types/messages.go)\<close>

text \<open>
  Modelled from the spec: the error constructors \<^verbatim>\<open>NewCLIJSONDecodeErrorWithCause\<close> and
  \<^verbatim>\<open>NewMessageParseErrorWithType\<close> are declared outside the given sources.  By the error
  taxonomy of the spec a decode error carries the raw line and the underlying cause, and a
  parse error carries the offending type discriminator; each is a constructor holding the
  arguments of the call.  \<open>JSONError\<close> is an error returned by \<^verbatim>\<open>json.Unmarshal\<close>, \<open>Errorf\<close>
  one made by \<^verbatim>\<open>fmt.Errorf\<close>.
\<close>

datatype parse_error =
    JSONError
  | Errorf string
  | MessageParseErrorWithType string string
  | CLIJSONDecodeErrorWithCause string json parse_error

definition decodeTypeCheck :: "json \<Rightarrow> string option" where
  "decodeTypeCheck data =
     (case objectMembers data of
        None \<Rightarrow> None
      | Some members \<Rightarrow> decodeField storeString [] (fieldValues ''type'' members))"

definition decodeTextBlock :: "json \<Rightarrow> ContentBlock option" where
  "decodeTextBlock data =
     (case objectMembers data of
        None \<Rightarrow> None
      | Some members \<Rightarrow>
          do {
            ty \<leftarrow> decodeField storeString [] (fieldValues ''type'' members);
            text \<leftarrow> decodeField storeString [] (fieldValues ''text'' members);
            Some (TextBlock ty text)
          })"

definition decodeThinkingBlock :: "json \<Rightarrow> ContentBlock option" where
  "decodeThinkingBlock data =
     (case objectMembers data of
        None \<Rightarrow> None
      | Some members \<Rightarrow>
          do {
            ty \<leftarrow> decodeField storeString [] (fieldValues ''type'' members);
            thinking \<leftarrow> decodeField storeString [] (fieldValues ''thinking'' members);
            signature \<leftarrow> decodeField storeString [] (fieldValues ''signature'' members);
            Some (ThinkingBlock ty thinking signature)
          })"

definition decodeToolUseBlock :: "json \<Rightarrow> ContentBlock option" where
  "decodeToolUseBlock data =
     (case objectMembers data of
        None \<Rightarrow> None
      | Some members \<Rightarrow>
          do {
            ty \<leftarrow> decodeField storeString [] (fieldValues ''type'' members);
            ident \<leftarrow> decodeField storeString [] (fieldValues ''id'' members);
            nm \<leftarrow> decodeField storeString [] (fieldValues ''name'' members);
            input \<leftarrow> decodeField storeAnyMap None (fieldValues ''input'' members);
            Some (ToolUseBlock ty ident nm input)
          })"

definition decodeToolResultBlock :: "json \<Rightarrow> ContentBlock option" where
  "decodeToolResultBlock data =
     (case objectMembers data of
        None \<Rightarrow> None
      | Some members \<Rightarrow>
          do {
            ty \<leftarrow> decodeField storeString [] (fieldValues ''type'' members);
            toolUseID \<leftarrow> decodeField storeString [] (fieldValues ''tool_use_id'' members);
            content \<leftarrow> decodeField storeAny GNil (fieldValues ''content'' members);
            isError \<leftarrow> decodeField storeBoolPtr None (fieldValues ''is_error'' members);
            Some (ToolResultBlock ty toolUseID content isError)
          })"

definition UnmarshalContentBlock :: "json \<Rightarrow> parse_error + ContentBlock" where
  "UnmarshalContentBlock data =
     (case decodeTypeCheck data of
        None \<Rightarrow>
          Inl (CLIJSONDecodeErrorWithCause ''failed to determine content block type'' data JSONError)
      | Some ty \<Rightarrow>
          if ty = ''text'' then
            (case decodeTextBlock data of
               None \<Rightarrow> Inl (CLIJSONDecodeErrorWithCause ''failed to unmarshal text block'' data JSONError)
             | Some block \<Rightarrow> Inr block)
          else if ty = ''thinking'' then
            (case decodeThinkingBlock data of
               None \<Rightarrow> Inl (CLIJSONDecodeErrorWithCause ''failed to unmarshal thinking block'' data JSONError)
             | Some block \<Rightarrow> Inr block)
          else if ty = ''tool_use'' then
            (case decodeToolUseBlock data of
               None \<Rightarrow> Inl (CLIJSONDecodeErrorWithCause ''failed to unmarshal tool_use block'' data JSONError)
             | Some block \<Rightarrow> Inr block)
          else if ty = ''tool_result'' then
            (case decodeToolResultBlock data of
               None \<Rightarrow> Inl (CLIJSONDecodeErrorWithCause ''failed to unmarshal tool_result block'' data JSONError)
             | Some block \<Rightarrow> Inr block)
          else Inl (MessageParseErrorWithType ''unknown content block type'' ty))"

text \<open>The loop over the raw blocks, left at the first block that fails.\<close>

fun unmarshalBlocks :: "json list \<Rightarrow> parse_error + ContentBlock list" where
  "unmarshalBlocks [] = Inr []"
| "unmarshalBlocks (rawBlock # rest) =
     (case UnmarshalContentBlock rawBlock of
        Inl err \<Rightarrow> Inl err
      | Inr block \<Rightarrow>
          (case unmarshalBlocks rest of
             Inl err \<Rightarrow> Inl err
           | Inr blocks \<Rightarrow> Inr (block # blocks)))"

text \<open>
  \<^verbatim>\<open>UserMessage.Content\<close> is an \<^verbatim>\<open>interface{}\<close> that holds a string or a
  \<^verbatim>\<open>[]ContentBlock\<close>; \<open>ContentBlocks None\<close> is the \<^verbatim>\<open>nil\<close> slice.
\<close>

datatype user_content = ContentString string | ContentBlocks "ContentBlock list option"

record UserMessage =
  um_Type :: string
  um_Content :: user_content
  um_ParentToolUseID :: "string option"
  um_UUID :: "string option"

text \<open>
  The auxiliary struct of \<^verbatim>\<open>UserMessage.UnmarshalJSON\<close>: its own fields \<^verbatim>\<open>Content\<close>,
  \<^verbatim>\<open>Message\<close> and \<^verbatim>\<open>UUID\<close>, and through the embedded \<^verbatim>\<open>*Alias\<close> the fields \<^verbatim>\<open>Type\<close> and
  \<^verbatim>\<open>ParentToolUseID\<close> of the message (the aliased \<^verbatim>\<open>Content\<close> and \<^verbatim>\<open>UUID\<close> are shadowed).
\<close>

record UserAux =
  ua_Content :: "json option"
  ua_Message :: "(string \<times> json) list option"
  ua_UUID :: "string option"
  ua_Type :: string
  ua_ParentToolUseID :: "string option"

definition decodeUserAux :: "json \<Rightarrow> UserAux option" where
  "decodeUserAux data =
     (case objectMembers data of
        None \<Rightarrow> None
      | Some members \<Rightarrow>
          do {
            content \<leftarrow> decodeField storeRaw None (fieldValues ''content'' members);
            message \<leftarrow> decodeField storeRawMap None (fieldValues ''message'' members);
            uuid \<leftarrow> decodeField storeStringPtr None (fieldValues ''uuid'' members);
            ty \<leftarrow> decodeField storeString [] (fieldValues ''type'' members);
            parent \<leftarrow> decodeField storeStringPtr None (fieldValues ''parent_tool_use_id'' members);
            Some \<lparr>ua_Content = content, ua_Message = message, ua_UUID = uuid, ua_Type = ty,
                  ua_ParentToolUseID = parent\<rparr>
          })"

text \<open>
  A string read from the nested message replaces the value when it is present and
  decodes as a string (\<^verbatim>\<open>null\<close> decodes as the empty string).
\<close>

definition nestedString :: "(string \<times> json) list \<Rightarrow> string \<Rightarrow> string option \<Rightarrow> string option" where
  "nestedString nested key old =
     (case map_of nested key of
        None \<Rightarrow> old
      | Some raw \<Rightarrow> (case unmarshalString raw of Some s \<Rightarrow> Some s | None \<Rightarrow> old))"

definition userContentRaw :: "UserAux \<Rightarrow> json option" where
  "userContentRaw aux =
     (let contentRaw = (case ua_Message aux of None \<Rightarrow> None | Some nested \<Rightarrow> map_of nested ''content'')
      in if contentRaw = None \<and> ua_Content aux \<noteq> None then ua_Content aux else contentRaw)"

text \<open>
  \<^verbatim>\<open>UnmarshalJSON\<close> on a fresh message, as \<^verbatim>\<open>UnmarshalMessage\<close> calls it: \<^verbatim>\<open>m.UUID\<close> is
  \<^verbatim>\<open>nil\<close> before, so after the copy from the auxiliary struct it is \<^verbatim>\<open>aux.UUID\<close>.
\<close>

definition UserMessage_UnmarshalJSON :: "json \<Rightarrow> parse_error + UserMessage" where
  "UserMessage_UnmarshalJSON data =
     (case decodeUserAux data of
        None \<Rightarrow> Inl JSONError
      | Some aux \<Rightarrow>
          (let parent = (case ua_Message aux of
                           None \<Rightarrow> ua_ParentToolUseID aux
                         | Some nested \<Rightarrow> nestedString nested ''parent_tool_use_id'' (ua_ParentToolUseID aux));
               uuid = (case ua_Message aux of
                         None \<Rightarrow> ua_UUID aux
                       | Some nested \<Rightarrow> nestedString nested ''uuid'' (ua_UUID aux))
           in case userContentRaw aux of
                None \<Rightarrow> Inl (Errorf ''missing content field'')
              | Some contentRaw \<Rightarrow>
                  (case unmarshalString contentRaw of
                     Some contentStr \<Rightarrow>
                       Inr \<lparr>um_Type = ua_Type aux, um_Content = ContentString contentStr,
                            um_ParentToolUseID = parent, um_UUID = uuid\<rparr>
                   | None \<Rightarrow>
                       (case unmarshalRawSlice contentRaw of
                          None \<Rightarrow> Inl (Errorf ''content must be string or array of content blocks'')
                        | Some contentArr \<Rightarrow>
                            (case unmarshalBlocks (case contentArr of None \<Rightarrow> [] | Some xs \<Rightarrow> xs) of
                               Inl err \<Rightarrow> Inl err
                             | Inr blocks \<Rightarrow>
                                 Inr \<lparr>um_Type = ua_Type aux, um_Content = ContentBlocks (Some blocks),
                                      um_ParentToolUseID = parent, um_UUID = uuid\<rparr>)))))"


record AssistantMessage =
  am_Type :: string
  am_Content :: "ContentBlock list"
  am_Model :: string
  am_ParentToolUseID :: "string option"
  am_Error :: "string option"

text \<open>
  The auxiliary struct of \<^verbatim>\<open>AssistantMessage.UnmarshalJSON\<close>: \<^verbatim>\<open>Content\<close> and \<^verbatim>\<open>Message\<close>,
  and through \<^verbatim>\<open>*Alias\<close> the fields \<^verbatim>\<open>Type\<close>, \<^verbatim>\<open>Model\<close>, \<^verbatim>\<open>ParentToolUseID\<close> and \<^verbatim>\<open>Error\<close>.
\<close>

record AssistantAux =
  aa_Content :: "json list option"
  aa_Message :: "(string \<times> json) list option"
  aa_Type :: string
  aa_Model :: string
  aa_ParentToolUseID :: "string option"
  aa_Error :: "string option"

definition decodeAssistantAux :: "json \<Rightarrow> AssistantAux option" where
  "decodeAssistantAux data =
     (case objectMembers data of
        None \<Rightarrow> None
      | Some members \<Rightarrow>
          do {
            content \<leftarrow> decodeField storeRawSlice None (fieldValues ''content'' members);
            message \<leftarrow> decodeField storeRawMap None (fieldValues ''message'' members);
            ty \<leftarrow> decodeField storeString [] (fieldValues ''type'' members);
            model \<leftarrow> decodeField storeString [] (fieldValues ''model'' members);
            parent \<leftarrow> decodeField storeStringPtr None (fieldValues ''parent_tool_use_id'' members);
            err \<leftarrow> decodeField storeStringPtr None (fieldValues ''error'' members);
            Some \<lparr>aa_Content = content, aa_Message = message, aa_Type = ty, aa_Model = model,
                  aa_ParentToolUseID = parent, aa_Error = err\<rparr>
          })"

text \<open>
  The raw blocks: those of the nested \<^verbatim>\<open>content\<close> when it decodes as a non-\<^verbatim>\<open>nil\<close> slice,
  else those of the top-level \<^verbatim>\<open>content\<close>, else none.
\<close>

definition assistantContentBlocks :: "AssistantAux \<Rightarrow> json list option" where
  "assistantContentBlocks aux =
     (let contentBlocks =
            (case aa_Message aux of
               None \<Rightarrow> None
             | Some nested \<Rightarrow>
                 (case map_of nested ''content'' of
                    None \<Rightarrow> None
                  | Some contentRaw \<Rightarrow>
                      (case unmarshalRawSlice contentRaw of None \<Rightarrow> None | Some nestedSlice \<Rightarrow> nestedSlice)))
      in if contentBlocks = None \<and> aa_Content aux \<noteq> None then aa_Content aux else contentBlocks)"

definition AssistantMessage_UnmarshalJSON :: "json \<Rightarrow> parse_error + AssistantMessage" where
  "AssistantMessage_UnmarshalJSON data =
     (case decodeAssistantAux data of
        None \<Rightarrow> Inl JSONError
      | Some aux \<Rightarrow>
          (let model = (case aa_Message aux of
                          None \<Rightarrow> aa_Model aux
                        | Some nested \<Rightarrow>
                            (case map_of nested ''model'' of
                               None \<Rightarrow> aa_Model aux
                             | Some modelRaw \<Rightarrow>
                                 (case unmarshalString modelRaw of
                                    Some s \<Rightarrow> s
                                  | None \<Rightarrow> aa_Model aux)));
               err = (case aa_Message aux of
                        None \<Rightarrow> aa_Error aux
                      | Some nested \<Rightarrow>
                          (case map_of nested ''error'' of
                             None \<Rightarrow> aa_Error aux
                           | Some errRaw \<Rightarrow>
                               (case unmarshalString errRaw of
                                  Some errCode \<Rightarrow> if errCode \<noteq> [] then Some errCode else aa_Error aux
                                | None \<Rightarrow> aa_Error aux)))
           in case unmarshalBlocks (case assistantContentBlocks aux of None \<Rightarrow> [] | Some xs \<Rightarrow> xs) of
                Inl e \<Rightarrow> Inl e
              | Inr blocks \<Rightarrow>
                  Inr \<lparr>am_Type = aa_Type aux, am_Content = blocks, am_Model = model,
                       am_ParentToolUseID = aa_ParentToolUseID aux, am_Error = err\<rparr>))"

record SystemMessage =
  sm_Type :: string
  sm_Subtype :: string
  sm_Data :: "(string \<times> goval) list option"
  sm_Response :: "(string \<times> goval) list option"
  sm_Request :: "(string \<times> goval) list option"
  sm_RequestID :: string

definition decodeSystemMessage :: "json \<Rightarrow> SystemMessage option" where
  "decodeSystemMessage data =
     (case objectMembers data of
        None \<Rightarrow> None
      | Some members \<Rightarrow>
          do {
            ty \<leftarrow> decodeField storeString [] (fieldValues ''type'' members);
            subtype \<leftarrow> decodeField storeString [] (fieldValues ''subtype'' members);
            dat \<leftarrow> decodeField storeAnyMap None (fieldValues ''data'' members);
            response \<leftarrow> decodeField storeAnyMap None (fieldValues ''response'' members);
            request \<leftarrow> decodeField storeAnyMap None (fieldValues ''request'' members);
            requestID \<leftarrow> decodeField storeString [] (fieldValues ''request_id'' members);
            Some \<lparr>sm_Type = ty, sm_Subtype = subtype, sm_Data = dat, sm_Response = response,
                  sm_Request = request, sm_RequestID = requestID\<rparr>
          })"

record ResultMessage =
  rm_Type :: string
  rm_Subtype :: string
  rm_DurationMs :: int
  rm_DurationAPIMs :: int
  rm_IsError :: bool
  rm_NumTurns :: int
  rm_SessionID :: string
  rm_TotalCostUSD :: "rat option"
  rm_Usage :: "(string \<times> goval) list option"
  rm_Result :: "string option"
  rm_StructuredOutput :: goval

definition decodeResultMessage :: "json \<Rightarrow> ResultMessage option" where
  "decodeResultMessage data =
     (case objectMembers data of
        None \<Rightarrow> None
      | Some members \<Rightarrow>
          do {
            ty \<leftarrow> decodeField storeString [] (fieldValues ''type'' members);
            subtype \<leftarrow> decodeField storeString [] (fieldValues ''subtype'' members);
            durationMs \<leftarrow> decodeField storeInt 0 (fieldValues ''duration_ms'' members);
            durationAPIMs \<leftarrow> decodeField storeInt 0 (fieldValues ''duration_api_ms'' members);
            isError \<leftarrow> decodeField storeBool False (fieldValues ''is_error'' members);
            numTurns \<leftarrow> decodeField storeInt 0 (fieldValues ''num_turns'' members);
            sessionID \<leftarrow> decodeField storeString [] (fieldValues ''session_id'' members);
            totalCostUSD \<leftarrow> decodeField storeFloat64Ptr None (fieldValues ''total_cost_usd'' members);
            usage \<leftarrow> decodeField storeAnyMap None (fieldValues ''usage'' members);
            result \<leftarrow> decodeField storeStringPtr None (fieldValues ''result'' members);
            structuredOutput \<leftarrow> decodeField storeAny GNil (fieldValues ''structured_output'' members);
            Some \<lparr>rm_Type = ty, rm_Subtype = subtype, rm_DurationMs = durationMs,
                  rm_DurationAPIMs = durationAPIMs, rm_IsError = isError, rm_NumTurns = numTurns,
                  rm_SessionID = sessionID, rm_TotalCostUSD = totalCostUSD, rm_Usage = usage,
                  rm_Result = result, rm_StructuredOutput = structuredOutput\<rparr>
          })"

record StreamEvent =
  se_Type :: string
  se_UUID :: string
  se_SessionID :: string
  se_Event :: "(string \<times> goval) list option"
  se_ParentToolUseID :: "string option"

definition decodeStreamEvent :: "json \<Rightarrow> StreamEvent option" where
  "decodeStreamEvent data =
     (case objectMembers data of
        None \<Rightarrow> None
      | Some members \<Rightarrow>
          do {
            ty \<leftarrow> decodeField storeString [] (fieldValues ''type'' members);
            uuid \<leftarrow> decodeField storeString [] (fieldValues ''uuid'' members);
            sessionID \<leftarrow> decodeField storeString [] (fieldValues ''session_id'' members);
            event \<leftarrow> decodeField storeAnyMap None (fieldValues ''event'' members);
            parent \<leftarrow> decodeField storeStringPtr None (fieldValues ''parent_tool_use_id'' members);
            Some \<lparr>se_Type = ty, se_UUID = uuid, se_SessionID = sessionID, se_Event = event,
                  se_ParentToolUseID = parent\<rparr>
          })"

text \<open>The messages that \<^verbatim>\<open>UnmarshalMessage\<close> returns, by their Go type.\<close>

datatype Message =
    UserMsg UserMessage
  | AssistantMsg AssistantMessage
  | SystemMsg SystemMessage
  | ResultMsg ResultMessage
  | StreamMsg StreamEvent

definition UnmarshalMessage :: "json \<Rightarrow> parse_error + Message" where
  "UnmarshalMessage data =
     (case decodeTypeCheck data of
        None \<Rightarrow> Inl (CLIJSONDecodeErrorWithCause ''failed to determine message type'' data JSONError)
      | Some ty \<Rightarrow>
          if ty = ''user'' then
            (case UserMessage_UnmarshalJSON data of
               Inl err \<Rightarrow> Inl (CLIJSONDecodeErrorWithCause ''failed to unmarshal user message'' data err)
             | Inr msg \<Rightarrow> Inr (UserMsg msg))
          else if ty = ''assistant'' then
            (case AssistantMessage_UnmarshalJSON data of
               Inl err \<Rightarrow> Inl (CLIJSONDecodeErrorWithCause ''failed to unmarshal assistant message'' data err)
             | Inr msg \<Rightarrow> Inr (AssistantMsg msg))
          else if ty = ''system'' \<or> ty = ''control_request'' \<or> ty = ''control_response'' then
            (case decodeSystemMessage data of
               None \<Rightarrow> Inl (CLIJSONDecodeErrorWithCause ''failed to unmarshal system message'' data JSONError)
             | Some msg \<Rightarrow> Inr (SystemMsg msg))
          else if ty = ''result'' then
            (case decodeResultMessage data of
               None \<Rightarrow> Inl (CLIJSONDecodeErrorWithCause ''failed to unmarshal result message'' data JSONError)
             | Some msg \<Rightarrow> Inr (ResultMsg msg))
          else if ty = ''stream_event'' then
            (case decodeStreamEvent data of
               None \<Rightarrow> Inl (CLIJSONDecodeErrorWithCause ''failed to unmarshal stream event'' data JSONError)
             | Some msg \<Rightarrow> Inr (StreamMsg msg))
          else Inl (MessageParseErrorWithType ''unknown message type'' ty))"

text \<open>The message of a successful parse.\<close>

definition parsed :: "parse_error + Message \<Rightarrow> Message option" where
  "parsed r = (case r of Inl _ \<Rightarrow> None | Inr m \<Rightarrow> Some m)"

section \<open>Encoding messages (json.Marshal on the message structs)\<close>

text \<open>
  The messages have no encoder of their own besides \<^verbatim>\<open>AssistantMessage.MarshalJSON\<close>, which
  marshals the aliased struct; every message is written by \<^verbatim>\<open>json.Marshal\<close> from its field
  tags, in field order and in the flat form.  \<^verbatim>\<open>omitempty\<close> drops an empty string, a
  \<^verbatim>\<open>nil\<close> pointer, a \<^verbatim>\<open>nil\<close> interface and a map that is \<^verbatim>\<open>nil\<close> or empty.  A
  \<^verbatim>\<open>nil\<close> slice is written as \<^verbatim>\<open>null\<close>.  The list of blocks of an assistant message
  stands for its slice, \<^verbatim>\<open>nil\<close> or not: the decoder returns an empty slice for \<^verbatim>\<open>null\<close>
  as for \<^verbatim>\<open>[]\<close>.
\<close>

definition omitemptyString :: "string \<Rightarrow> string \<Rightarrow> (string \<times> json) list" where
  "omitemptyString key s = (if s = [] then [] else [(key, marshalString s)])"

definition omitemptyStringPtr :: "string \<Rightarrow> string option \<Rightarrow> (string \<times> json) list" where
  "omitemptyStringPtr key p = (case p of None \<Rightarrow> [] | Some s \<Rightarrow> [(key, marshalString s)])"

definition omitemptyMap :: "string \<Rightarrow> (string \<times> goval) list option \<Rightarrow> (string \<times> json) list" where
  "omitemptyMap key m =
     (case m of
        None \<Rightarrow> []
      | Some kvs \<Rightarrow> if kvs = [] then [] else [(key, marshal (GMap kvs))])"

definition marshalUserMessage :: "UserMessage \<Rightarrow> json" where
  "marshalUserMessage m =
     JObject ([(''type'', marshalString (um_Type m)),
               (''content'', case um_Content m of
                               ContentString s \<Rightarrow> marshalString s
                             | ContentBlocks None \<Rightarrow> JNull
                             | ContentBlocks (Some blocks) \<Rightarrow> JArray (map marshalContentBlock blocks))] @
              omitemptyStringPtr ''parent_tool_use_id'' (um_ParentToolUseID m) @
              omitemptyStringPtr ''uuid'' (um_UUID m))"

definition AssistantMessage_MarshalJSON :: "AssistantMessage \<Rightarrow> json" where
  "AssistantMessage_MarshalJSON a =
     JObject ([(''type'', marshalString (am_Type a)),
               (''content'', JArray (map marshalContentBlock (am_Content a))),
               (''model'', marshalString (am_Model a))] @
              omitemptyStringPtr ''parent_tool_use_id'' (am_ParentToolUseID a) @
              omitemptyStringPtr ''error'' (am_Error a))"

definition marshalSystemMessage :: "SystemMessage \<Rightarrow> json" where
  "marshalSystemMessage m =
     JObject ([(''type'', marshalString (sm_Type m))] @
              omitemptyString ''subtype'' (sm_Subtype m) @
              omitemptyMap ''data'' (sm_Data m) @
              omitemptyMap ''response'' (sm_Response m) @
              omitemptyMap ''request'' (sm_Request m) @
              omitemptyString ''request_id'' (sm_RequestID m))"

definition marshalResultMessage :: "ResultMessage \<Rightarrow> json" where
  "marshalResultMessage m =
     JObject ([(''type'', marshalString (rm_Type m)),
               (''subtype'', marshalString (rm_Subtype m)),
               (''duration_ms'', JInt (rm_DurationMs m)),
               (''duration_api_ms'', JInt (rm_DurationAPIMs m)),
               (''is_error'', JBool (rm_IsError m)),
               (''num_turns'', JInt (rm_NumTurns m)),
               (''session_id'', marshalString (rm_SessionID m))] @
              (case rm_TotalCostUSD m of None \<Rightarrow> [] | Some f \<Rightarrow> [(''total_cost_usd'', marshal_float64 f)]) @
              omitemptyMap ''usage'' (rm_Usage m) @
              omitemptyStringPtr ''result'' (rm_Result m) @
              (if rm_StructuredOutput m = GNil then []
               else [(''structured_output'', marshal (rm_StructuredOutput m))]))"

definition marshalStreamEvent :: "StreamEvent \<Rightarrow> json" where
  "marshalStreamEvent m =
     JObject ([(''type'', marshalString (se_Type m)),
               (''uuid'', marshalString (se_UUID m)),
               (''session_id'', marshalString (se_SessionID m)),
               (''event'', case se_Event m of None \<Rightarrow> JNull | Some kvs \<Rightarrow> marshal (GMap kvs))] @
              omitemptyStringPtr ''parent_tool_use_id'' (se_ParentToolUseID m))"

fun MarshalMessage :: "Message \<Rightarrow> json" where
  "MarshalMessage (UserMsg m) = marshalUserMessage m"
| "MarshalMessage (AssistantMsg a) = AssistantMessage_MarshalJSON a"
| "MarshalMessage (SystemMsg m) = marshalSystemMessage m"
| "MarshalMessage (ResultMsg m) = marshalResultMessage m"
| "MarshalMessage (StreamMsg m) = marshalStreamEvent m"

section \<open>Message values of the data model\<close>

text \<open>
  The dynamic values that generic decoding produces: \<^verbatim>\<open>nil\<close>, booleans, \<^verbatim>\<open>float64\<close>,
  strings of well-formed UTF-8, slices and maps of such values, a map being kept in the
  order of its keys, which are well-formed too.
\<close>

fun decoded_value :: "goval \<Rightarrow> bool"
  and decoded_values :: "goval list \<Rightarrow> bool"
  and decoded_members :: "(string \<times> goval) list \<Rightarrow> bool"
where
  "decoded_value GNil = True"
| "decoded_value (GBool b) = True"
| "decoded_value (GFloat64 f) = True"
| "decoded_value (GInt n) = False"
| "decoded_value (GString s) = wellFormed s"
| "decoded_value (GSlice xs) = decoded_values xs"
| "decoded_value (GMap kvs) = (sorted_wrt (<) (map fst kvs) \<and> decoded_members kvs)"
| "decoded_value (GStringSlice ss) = False"
| "decoded_value (GStringMap kvs) = False"
| "decoded_values [] = True"
| "decoded_values (x # xs) = (decoded_value x \<and> decoded_values xs)"
| "decoded_members [] = True"
| "decoded_members ((k, x) # kvs) = (wellFormed k \<and> decoded_value x \<and> decoded_members kvs)"

definition decoded_map :: "(string \<times> goval) list option \<Rightarrow> bool" where
  "decoded_map m = (case m of None \<Rightarrow> True | Some kvs \<Rightarrow> decoded_value (GMap kvs))"

text \<open>
  A block of the data model carries the discriminant of its variant; its strings are
  well-formed UTF-8.
\<close>

fun block_value :: "ContentBlock \<Rightarrow> bool" where
  "block_value (TextBlock ty text) = (ty = ''text'' \<and> wellFormed text)"
| "block_value (ThinkingBlock ty thinking signature) =
     (ty = ''thinking'' \<and> wellFormed thinking \<and> wellFormed signature)"
| "block_value (ToolUseBlock ty ident nm input) =
     (ty = ''tool_use'' \<and> wellFormed ident \<and> wellFormed nm \<and> decoded_map input)"
| "block_value (ToolResultBlock ty toolUseID content isError) =
     (ty = ''tool_result'' \<and> wellFormed toolUseID \<and> decoded_value content)"

definition int64_value :: "int \<Rightarrow> bool" where
  "int64_value n = (- (2 ^ 63) \<le> n \<and> n < 2 ^ 63)"

definition wellFormedPtr :: "string option \<Rightarrow> bool" where
  "wellFormedPtr p = (case p of None \<Rightarrow> True | Some s \<Rightarrow> wellFormed s)"

text \<open>
  A message of the data model: the discriminant of its variant, strings of well-formed
  UTF-8, blocks and dynamic values as above, integers in the range of \<^verbatim>\<open>int\<close>.  The
  content of a user message is a string or a list of blocks, the \<^verbatim>\<open>nil\<close> list included.
\<close>

fun message_value :: "Message \<Rightarrow> bool" where
  "message_value (UserMsg m) =
     (um_Type m = ''user'' \<and> wellFormedPtr (um_ParentToolUseID m) \<and> wellFormedPtr (um_UUID m) \<and>
      (case um_Content m of
         ContentString s \<Rightarrow> wellFormed s
       | ContentBlocks None \<Rightarrow> True
       | ContentBlocks (Some blocks) \<Rightarrow> list_all block_value blocks))"
| "message_value (AssistantMsg a) =
     (am_Type a = ''assistant'' \<and> list_all block_value (am_Content a) \<and> wellFormed (am_Model a) \<and>
      wellFormedPtr (am_ParentToolUseID a) \<and> wellFormedPtr (am_Error a))"
| "message_value (SystemMsg m) =
     ((sm_Type m = ''system'' \<or> sm_Type m = ''control_request'' \<or> sm_Type m = ''control_response'') \<and>
      wellFormed (sm_Subtype m) \<and> wellFormed (sm_RequestID m) \<and>
      decoded_map (sm_Data m) \<and> decoded_map (sm_Response m) \<and> decoded_map (sm_Request m))"
| "message_value (ResultMsg m) =
     (rm_Type m = ''result'' \<and> wellFormed (rm_Subtype m) \<and> wellFormed (rm_SessionID m) \<and>
      wellFormedPtr (rm_Result m) \<and>
      int64_value (rm_DurationMs m) \<and> int64_value (rm_DurationAPIMs m) \<and>
      int64_value (rm_NumTurns m) \<and> decoded_map (rm_Usage m) \<and> decoded_value (rm_StructuredOutput m))"
| "message_value (StreamMsg m) =
     (se_Type m = ''stream_event'' \<and> wellFormed (se_UUID m) \<and> wellFormed (se_SessionID m) \<and>
      wellFormedPtr (se_ParentToolUseID m) \<and> decoded_map (se_Event m))"

text \<open>
  What is read back from the encoding of a message: an empty map in a field tagged
  \<^verbatim>\<open>omitempty\<close> has become the \<^verbatim>\<open>nil\<close> map, and the \<^verbatim>\<open>nil\<close> list of blocks of a user
  message, written as \<^verbatim>\<open>null\<close>, has become the empty string.
\<close>

definition dropEmptyMap :: "(string \<times> goval) list option \<Rightarrow> (string \<times> goval) list option" where
  "dropEmptyMap m = (if m = Some [] then None else m)"

fun readBack :: "Message \<Rightarrow> Message" where
  "readBack (UserMsg m) =
     UserMsg (if um_Content m = ContentBlocks None then m\<lparr>um_Content := ContentString []\<rparr> else m)"
| "readBack (SystemMsg m) =
     SystemMsg (m\<lparr>sm_Data := dropEmptyMap (sm_Data m), sm_Response := dropEmptyMap (sm_Response m),
               sm_Request := dropEmptyMap (sm_Request m)\<rparr>)"
| "readBack (ResultMsg m) = ResultMsg (m\<lparr>rm_Usage := dropEmptyMap (rm_Usage m)\<rparr>)"
| "readBack m = m"

text \<open>A result line with an empty \<^verbatim>\<open>usage\<close> object.\<close>

definition resultEmptyUsage :: json where
  "resultEmptyUsage = JObject [(''type'', JString ''result''), (''subtype'', JString ''success''),
                               (''usage'', JObject [])]"

section \<open>Example lines for the concrete statements\<close>

text \<open>An assistant line in the nested form whose only block has the unknown type \<^verbatim>\<open>video\<close>.\<close>

definition videoBlock :: json where
  "videoBlock = JObject [(''type'', JString ''video''), (''url'', JString ''...'')]"

definition videoLine :: json where
  "videoLine = JObject [(''type'', JString ''assistant''),
                        (''message'', JObject [(''content'', JArray [videoBlock]), (''model'', JString ''m'')])]"

text \<open>
  A user line whose only block is a \<^verbatim>\<open>tool_result\<close> that holds the \<^verbatim>\<open>video\<close> block in
  its content.
\<close>

definition videoInToolResult :: json where
  "videoInToolResult = JObject
     [(''type'', JString ''user''),
      (''message'', JObject
         [(''content'', JArray [JObject [(''type'', JString ''tool_result''),
                                         (''tool_use_id'', JString ''t1''),
                                         (''content'', JArray [videoBlock])]])])]"

text \<open>A user line that gives every field in both forms.\<close>

definition userBothForms :: json where
  "userBothForms = JObject
     [(''type'', JString ''user''), (''uuid'', JString ''flat-u''),
      (''parent_tool_use_id'', JString ''flat-p''), (''content'', JString ''flat''),
      (''message'', JObject
         [(''content'', JArray [JObject [(''type'', JString ''text''), (''text'', JString ''x'')]]),
          (''uuid'', JString ''nested-u''), (''parent_tool_use_id'', JString ''nested-p'')])]"

text \<open>An assistant line with \<^verbatim>\<open>parent_tool_use_id\<close> at top level and in the nested message.\<close>

definition assistantTwoParents :: json where
  "assistantTwoParents = JObject
     [(''type'', JString ''assistant''), (''parent_tool_use_id'', JString ''A''),
      (''message'', JObject [(''content'', JArray []), (''parent_tool_use_id'', JString ''B''),
                             (''model'', JString ''m'')])]"

text \<open>The same for a user line.\<close>

definition userTwoParents :: json where
  "userTwoParents = JObject
     [(''type'', JString ''user''), (''parent_tool_use_id'', JString ''A''),
      (''message'', JObject [(''content'', JArray []), (''parent_tool_use_id'', JString ''B'')])]"

text \<open>
  A user message whose content is the \<^verbatim>\<open>nil\<close> list of blocks, and one whose content is
  the one-byte string \<^verbatim>\<open>"\xff"\<close>.
\<close>

definition userNilContent :: Message where
  "userNilContent = UserMsg \<lparr>um_Type = ''user'', um_Content = ContentBlocks None,
                             um_ParentToolUseID = None, um_UUID = None\<rparr>"

definition userInvalidText :: Message where
  "userInvalidText = UserMsg \<lparr>um_Type = ''user'', um_Content = ContentString [CHR 0xFF],
                              um_ParentToolUseID = None, um_UUID = None\<rparr>"

text \<open>A result message whose structured output is the Go \<^verbatim>\<open>int\<close> 1.\<close>

definition resultIntOutput :: Message where
  "resultIntOutput =
     ResultMsg \<lparr>rm_Type = ''result'', rm_Subtype = ''success'', rm_DurationMs = 0,
                rm_DurationAPIMs = 0, rm_IsError = False, rm_NumTurns = 0, rm_SessionID = [],
                rm_TotalCostUSD = None, rm_Usage = None, rm_Result = None,
                rm_StructuredOutput = GInt 1\<rparr>"

text \<open>A user line and an assistant line in the nested form, without content.\<close>

definition userNoContent :: json where
  "userNoContent = JObject [(''type'', JString ''user''), (''message'', JObject [(''role'', JString ''user'')])]"

definition assistantNoContent :: json where
  "assistantNoContent =
     JObject [(''type'', JString ''assistant''), (''message'', JObject [(''model'', JString ''m'')])]"

section \<open>Properties\<close>

declare validateInput.simps [simp del]
declare decimal.simps [simp del]

subsection \<open>Well-formed UTF-8\<close>

declare coerceUTF8.simps [simp del]

lemma runeSize_le: "runeSize bs \<le> length bs"
  by (cases bs) (auto simp: Let_def)

lemma runeSize_prefix:
  assumes "runeSize bs = n" and "0 < n"
  shows "runeSize (take n bs @ t) = n"
proof -
  from assms obtain b0 r where bs: "bs = b0 # r" by (cases bs) auto
  from assms have n: "n = leadSize b0"
    by (auto simp: bs Let_def split: if_splits)
  show ?thesis
  proof (cases "leadSize b0 \<le> 1")
    case True
    with assms n have "leadSize b0 = 1" by simp
    with n show ?thesis by (simp add: bs)
  next
    case False
    with assms have len: "leadSize b0 - 1 \<le> length r"
      by (auto simp: bs Let_def split: if_splits)
    from False obtain k where k: "leadSize b0 = Suc k" by (cases "leadSize b0") auto
    from len k have t: "take k (take k r @ t) = take k r" by simp
    from assms False show ?thesis
      unfolding n bs using len by (simp add: k t Let_def split: if_splits)
  qed
qed

lemma coerceUTF8_Nil [simp]: "coerceUTF8 [] = []"
  by (simp add: coerceUTF8.simps)

lemma coerceUTF8_rune:
  assumes "runeSize (map of_char s) = n" and "0 < n"
  shows "coerceUTF8 (take n s @ t) = take n s @ coerceUTF8 t"
proof -
  from assms runeSize_le [of "map of_char s"] have len: "n \<le> length s" by simp
  from runeSize_prefix [OF assms, of "map of_char t"]
  have r: "runeSize (map of_char (take n s) @ map of_char t) = n" by (simp add: take_map)
  from len assms(2) have ne: "take n s @ t \<noteq> []" by (cases s) auto
  show ?thesis
    using len assms(2) ne by (subst coerceUTF8.simps) (simp add: r)
qed

lemma coerceUTF8_replacement:
  "coerceUTF8 (CHR 0xEF # CHR 0xBF # CHR 0xBD # t) = CHR 0xEF # CHR 0xBF # CHR 0xBD # coerceUTF8 t"
  by (subst coerceUTF8.simps) (simp add: leadSize_def acceptRange_def continuation_def Let_def)

lemma coerceUTF8_idem: "coerceUTF8 (coerceUTF8 s) = coerceUTF8 s"
proof (induction s rule: coerceUTF8.induct)
  case (1 s)
  show ?case
  proof (cases "s = []")
    case True
    then show ?thesis by simp
  next
    case ne: False
    show ?thesis
    proof (cases "runeSize (map of_char s) = 0")
      case True
      with ne 1(1) have "coerceUTF8 (coerceUTF8 (tl s)) = coerceUTF8 (tl s)" by simp
      with ne True show ?thesis
        by (subst (2) coerceUTF8.simps, subst (2) coerceUTF8.simps)
           (simp add: coerceUTF8_replacement)
    next
      case False
      with ne 1(2) have ih: "coerceUTF8 (coerceUTF8 (drop (runeSize (map of_char s)) s)) =
          coerceUTF8 (drop (runeSize (map of_char s)) s)" by simp
      have "coerceUTF8 s = take (runeSize (map of_char s)) s @ coerceUTF8 (drop (runeSize (map of_char s)) s)"
        using ne False by (subst coerceUTF8.simps) simp
      moreover have "coerceUTF8 (take (runeSize (map of_char s)) s @ coerceUTF8 (drop (runeSize (map of_char s)) s)) =
          take (runeSize (map of_char s)) s @ coerceUTF8 (coerceUTF8 (drop (runeSize (map of_char s)) s))"
        using False by (intro coerceUTF8_rune) simp_all
      ultimately show ?thesis using ih by simp
    qed
  qed
qed

lemma coerceUTF8_Cons [code]:
  "coerceUTF8 (c # s) =
     (if (of_char c :: nat) < 128 then c # coerceUTF8 s
      else if runeSize (map of_char (c # s)) = 0
      then CHR 0xEF # CHR 0xBF # CHR 0xBD # coerceUTF8 s
      else take (runeSize (map of_char (c # s))) (c # s) @
           coerceUTF8 (drop (runeSize (map of_char (c # s))) (c # s)))"
  by (subst coerceUTF8.simps) (simp add: leadSize_def)

declare coerceUTF8_Nil [code]

lemma wellFormed_coerce [simp]: "wellFormed (coerceUTF8 s)"
  by (simp add: wellFormed_def coerceUTF8_idem)

lemma coerceUTF8_ascii: "list_all (\<lambda>c. (of_char c :: nat) < 128) s \<Longrightarrow> coerceUTF8 s = s"
proof (induction s)
  case Nil
  then show ?case by simp
next
  case (Cons c s)
  then have "runeSize (map of_char (c # s)) = 1" by (simp add: leadSize_def)
  with Cons show ?case by (subst coerceUTF8.simps) simp
qed

subsection \<open>Schema validation\<close>

lemma checkRequired_names_field:
  "checkRequired required input = Some err \<Longrightarrow>
   \<exists>field \<in> set required. map_of input field = None \<and> err = [Lit ''missing required field: '', Lit field]"
  by (induction required) (auto split: if_splits)

lemma checkRequired_None:
  "checkRequired required input = None \<longleftrightarrow> (\<forall>field \<in> set required. map_of input field \<noteq> None)"
  by (induction required) auto

lemma checkType_names_field:
  "checkType propType key v = Some err \<Longrightarrow> Lit key \<in> set err"
  by (auto simp: checkType_def mustBe_def split: if_splits option.splits)

lemma checkEnum_names_field:
  "checkEnum prop key v = Return (Some err) \<Longrightarrow> Lit key \<in> set err"
  by (auto simp: checkEnum_def split: option.splits outcome.splits if_splits)

lemma nestedFailed_names_field:
  "nestedFailed key r = Return (Some err) \<Longrightarrow> Lit key \<in> set err"
  by (auto simp: nestedFailed_def split: option.splits outcome.splits)

lemma validateEntries_names_field:
  "validateEntries properties entries = Return (Some err) \<Longrightarrow>
   \<exists>key \<in> fst ` set entries. Lit key \<in> set err"
proof (induction entries)
  case Nil
  then show ?case by simp
next
  case (Cons e entries)
  obtain key v where e: "e = (key, v)" by (cases e)
  show ?case
    using Cons unfolding e
    by (auto split: option.splits outcome.splits if_splits simp: mustBe_def
             dest: checkType_names_field checkEnum_names_field nestedFailed_names_field)
qed


lemma validateInput_error_cases:
  assumes "validateInput schema input = Return (Some err)"
  shows "(\<exists>ty. err = [Lit ''invalid schema type: '', Lit ty])
       \<or> err = [Lit ''invalid schema properties'']
       \<or> (\<exists>names field. assertStringSlice (map_of schema ''required'') = Some names \<and> field \<in> set names
             \<and> map_of input field = None \<and> err = [Lit ''missing required field: '', Lit field])
       \<or> (\<exists>key \<in> fst ` set input. Lit key \<in> set err)"
proof (cases "assertString (map_of schema ''type'')")
  case None
  with assms show ?thesis by (auto simp add: validateInput.simps)
next
  case (Some schemaType)
  show ?thesis
  proof (cases "schemaType = ''object''")
    case False
    with assms Some show ?thesis by (auto simp add: validateInput.simps)
  next
    case True
    show ?thesis
    proof (cases "case assertStringSlice (map_of schema ''required'') of
                    Some required \<Rightarrow> checkRequired required input | None \<Rightarrow> None")
      case (Some e)
      then obtain names where n: "assertStringSlice (map_of schema ''required'') = Some names"
        and c: "checkRequired names input = Some e"
        by (auto split: option.splits)
      from assms \<open>assertString (map_of schema ''type'') = Some schemaType\<close> True Some
      have "err = e" by (simp add: validateInput.simps)
      with checkRequired_names_field [OF c] n show ?thesis by blast
    next
      case None
      show ?thesis
      proof (cases "assertMap (map_of schema ''properties'')")
        case None
        with assms \<open>assertString (map_of schema ''type'') = Some schemaType\<close> True
          \<open>(case assertStringSlice (map_of schema ''required'') of
              Some required \<Rightarrow> checkRequired required input | None \<Rightarrow> None) = None\<close>
        show ?thesis by (auto simp add: validateInput.simps)
      next
        case (Some properties)
        with assms \<open>assertString (map_of schema ''type'') = Some schemaType\<close> True
          \<open>(case assertStringSlice (map_of schema ''required'') of
              Some required \<Rightarrow> checkRequired required input | None \<Rightarrow> None) = None\<close>
        have "validateEntries properties input = Return (Some err)"
          by (simp add: validateInput.simps)
        from validateEntries_names_field [OF this] show ?thesis by blast
      qed
    qed
  qed
qed

lemma validateInput_accepts:
  assumes "validateInput schema input = Return None"
  shows "assertString (map_of schema ''type'') = Some ''object''
       \<and> (\<forall>names. assertStringSlice (map_of schema ''required'') = Some names \<longrightarrow>
             (\<forall>field \<in> set names. map_of input field \<noteq> None))
       \<and> (\<exists>properties. assertMap (map_of schema ''properties'') = Some properties
             \<and> validateEntries properties input = Return None)"
  using assms
  by (simp add: validateInput.simps checkRequired_None split: option.splits if_splits)


subsection \<open>The in-process MCP server\<close>

lemma assert_simps [simp]:
  "assertString (Some (GString x)) = Some x"
  "assertMap (Some (GMap m)) = Some m"
  "assertSlice (Some (GSlice xs)) = Some xs"
  "assertStringSlice (Some (GStringSlice ss)) = Some ss"
  "assertFloat64 (Some (GFloat64 f)) = Some f"
  "assertBool (Some (GBool b)) = Some b"
  "assertString None = None" "assertMap None = None" "assertSlice None = None"
  "assertStringSlice None = None" "assertFloat64 None = None" "assertBool None = None"
  by (simp_all add: assertString_def assertMap_def assertSlice_def assertStringSlice_def
        assertFloat64_def assertBool_def)

lemma assertString_Some_iff: "assertString x = Some s \<longleftrightarrow> x = Some (GString s)"
  by (auto simp: assertString_def split: option.splits goval.splits)

lemma assertMap_Some_iff: "assertMap x = Some m \<longleftrightarrow> x = Some (GMap m)"
  by (auto simp: assertMap_def split: option.splits goval.splits)

lemma assertStringSlice_Some_iff: "assertStringSlice x = Some ss \<longleftrightarrow> x = Some (GStringSlice ss)"
  by (auto simp: assertStringSlice_def split: option.splits goval.splits)

lemma assertString_None_iff: "assertString x = None \<longleftrightarrow> (\<forall>s. x \<noteq> Some (GString s))"
  by (auto simp: assertString_def split: option.splits goval.splits)

lemma assertMap_None_iff: "assertMap x = None \<longleftrightarrow> (\<forall>m. x \<noteq> Some (GMap m))"
  by (auto simp: assertMap_def split: option.splits goval.splits)

lemma assertStringSlice_None_iff: "assertStringSlice x = None \<longleftrightarrow> (\<forall>ss. x \<noteq> Some (GStringSlice ss))"
  by (auto simp: assertStringSlice_def split: option.splits goval.splits)

lemma errorResponse_map:
  "responseToMap (NewErrorResponse i c m) =
     \<lparr>resp_jsonrpc = ''2.0'', resp_id = i,
      resp_error = Some \<lparr>err_code = c, err_message = m, err_data = None\<rparr>,
      resp_result = None\<rparr>"
  by (simp add: responseToMap_def NewErrorResponse_def)

lemma HandleMessage_tools_call:
  "map_of msg ''method'' = Some (GString ''tools/call'') \<Longrightarrow>
   HandleMessage s msg = (case handleToolsCall s msg of Panic \<Rightarrow> Panic | Return r \<Rightarrow> Return (Inr r))"
  by (simp add: HandleMessage_def)

lemma handleToolsCall_execute:
  assumes "map_of msg ''params'' = Some (GMap params)"
    and "map_of params ''name'' = Some (GString nm)"
    and "toolsMap s nm = Some t"
    and "map_of params ''arguments'' = Some (GMap input)"
  shows "handleToolsCall s msg =
     (case Execute t input of
        Panic \<Rightarrow> Panic
      | Return (Inl err) \<Rightarrow>
          Return (responseToMap (NewErrorResponse (msg_id msg) ErrorCodeInternalError
                    (Lit ''tool execution failed: '' # err)))
      | Return (Inr r) \<Rightarrow>
          Return (responseToMap (NewSuccessResponse (msg_id msg) (ToolResultPtr r))))"
  using assms by (simp add: handleToolsCall_def)

text \<open>
  C9.  \<^verbatim>\<open>HandleMessage\<close> returns a non-\<^verbatim>\<open>nil\<close> Go error exactly when the message has no
  string under \<^verbatim>\<open>method\<close>; with a string there it returns a response map and a \<^verbatim>\<open>nil\<close>
  Go error, unless the tool panics.  Each failure gives a response map that carries a
  JSON-RPC error: an unrecognized method (-32601), missing or invalid params (-32602), a
  missing or invalid tool name (-32602), an unknown tool name (-32601), missing or invalid
  arguments (-32602) and an error returned by the tool's \<^verbatim>\<open>Execute\<close> (-32603).
\<close>

theorem HandleMessage_go_error_iff:
  "((\<exists>e. HandleMessage s msg = Return (Inl e)) \<longleftrightarrow>
      (\<forall>method. map_of msg ''method'' \<noteq> Some (GString method)))
   \<and> (map_of msg ''method'' = Some (GString method) \<longrightarrow>
        HandleMessage s msg = Panic \<or> (\<exists>resp. HandleMessage s msg = Return (Inr resp)))
   \<and> (map_of msg ''method'' = Some (GString method) \<and> method \<noteq> ''initialize'' \<and>
        method \<noteq> ''tools/list'' \<and> method \<noteq> ''tools/call'' \<longrightarrow>
        HandleMessage s msg = Return (Inr
          \<lparr>resp_jsonrpc = ''2.0'', resp_id = msg_id msg,
           resp_error = Some \<lparr>err_code = - 32601,
                              err_message = [Lit ''method not found: '', Lit method],
                              err_data = None\<rparr>,
           resp_result = None\<rparr>))
   \<and> (map_of msg ''method'' = Some (GString ''tools/call'') \<and>
        (\<forall>params. map_of msg ''params'' \<noteq> Some (GMap params)) \<longrightarrow>
        HandleMessage s msg = Return (Inr
          \<lparr>resp_jsonrpc = ''2.0'', resp_id = msg_id msg,
           resp_error = Some \<lparr>err_code = - 32602,
                              err_message = [Lit ''missing or invalid params''],
                              err_data = None\<rparr>,
           resp_result = None\<rparr>))
   \<and> (map_of msg ''method'' = Some (GString ''tools/call'') \<and>
        map_of msg ''params'' = Some (GMap params) \<and>
        (\<forall>nm. map_of params ''name'' \<noteq> Some (GString nm)) \<longrightarrow>
        HandleMessage s msg = Return (Inr
          \<lparr>resp_jsonrpc = ''2.0'', resp_id = msg_id msg,
           resp_error = Some \<lparr>err_code = - 32602,
                              err_message = [Lit ''missing or invalid tool name''],
                              err_data = None\<rparr>,
           resp_result = None\<rparr>))
   \<and> (map_of msg ''method'' = Some (GString ''tools/call'') \<and>
        map_of msg ''params'' = Some (GMap params) \<and>
        map_of params ''name'' = Some (GString nm) \<and> toolsMap s nm = None \<longrightarrow>
        HandleMessage s msg = Return (Inr
          \<lparr>resp_jsonrpc = ''2.0'', resp_id = msg_id msg,
           resp_error = Some \<lparr>err_code = - 32601,
                              err_message = [Lit ''tool not found: '', Lit nm],
                              err_data = None\<rparr>,
           resp_result = None\<rparr>))
   \<and> (map_of msg ''method'' = Some (GString ''tools/call'') \<and>
        map_of msg ''params'' = Some (GMap params) \<and>
        map_of params ''name'' = Some (GString nm) \<and> toolsMap s nm = Some t \<and>
        (\<forall>input. map_of params ''arguments'' \<noteq> Some (GMap input)) \<longrightarrow>
        HandleMessage s msg = Return (Inr
          \<lparr>resp_jsonrpc = ''2.0'', resp_id = msg_id msg,
           resp_error = Some \<lparr>err_code = - 32602,
                              err_message = [Lit ''missing or invalid arguments''],
                              err_data = None\<rparr>,
           resp_result = None\<rparr>))
   \<and> (map_of msg ''method'' = Some (GString ''tools/call'') \<and>
        map_of msg ''params'' = Some (GMap params) \<and>
        map_of params ''name'' = Some (GString nm) \<and> toolsMap s nm = Some t \<and>
        map_of params ''arguments'' = Some (GMap input) \<and>
        Execute t input = Return (Inl err) \<longrightarrow>
        HandleMessage s msg = Return (Inr
          \<lparr>resp_jsonrpc = ''2.0'', resp_id = msg_id msg,
           resp_error = Some \<lparr>err_code = - 32603,
                              err_message = Lit ''tool execution failed: '' # err,
                              err_data = None\<rparr>,
           resp_result = None\<rparr>))"
proof (intro conjI impI)
  show "(\<exists>e. HandleMessage s msg = Return (Inl e)) \<longleftrightarrow>
        (\<forall>method. map_of msg ''method'' \<noteq> Some (GString method))"
    by (auto simp: HandleMessage_def assertString_None_iff assertString_Some_iff
             split: option.splits outcome.splits)
next
  assume "map_of msg ''method'' = Some (GString method)"
  then show "HandleMessage s msg = Panic \<or> (\<exists>resp. HandleMessage s msg = Return (Inr resp))"
    by (simp add: HandleMessage_def split: outcome.splits)
next
  assume "map_of msg ''method'' = Some (GString method) \<and> method \<noteq> ''initialize'' \<and>
        method \<noteq> ''tools/list'' \<and> method \<noteq> ''tools/call''"
  then show "HandleMessage s msg = Return (Inr
          \<lparr>resp_jsonrpc = ''2.0'', resp_id = msg_id msg,
           resp_error = Some \<lparr>err_code = - 32601,
                              err_message = [Lit ''method not found: '', Lit method],
                              err_data = None\<rparr>,
           resp_result = None\<rparr>)"
    by (simp add: HandleMessage_def errorResponse_map ErrorCodeMethodNotFound_def)
next
  assume "map_of msg ''method'' = Some (GString ''tools/call'') \<and>
        (\<forall>params. map_of msg ''params'' \<noteq> Some (GMap params))"
  then have m: "map_of msg ''method'' = Some (GString ''tools/call'')"
    and "assertMap (map_of msg ''params'') = None"
    by (simp_all add: assertMap_None_iff)
  then show "HandleMessage s msg = Return (Inr
          \<lparr>resp_jsonrpc = ''2.0'', resp_id = msg_id msg,
           resp_error = Some \<lparr>err_code = - 32602,
                              err_message = [Lit ''missing or invalid params''],
                              err_data = None\<rparr>,
           resp_result = None\<rparr>)"
    by (simp add: HandleMessage_tools_call handleToolsCall_def errorResponse_map
          ErrorCodeInvalidParams_def)
next
  assume "map_of msg ''method'' = Some (GString ''tools/call'') \<and>
        map_of msg ''params'' = Some (GMap params) \<and>
        (\<forall>nm. map_of params ''name'' \<noteq> Some (GString nm))"
  then have "map_of msg ''method'' = Some (GString ''tools/call'')"
    and "map_of msg ''params'' = Some (GMap params)"
    and "assertString (map_of params ''name'') = None"
    by (simp_all add: assertString_None_iff)
  then show "HandleMessage s msg = Return (Inr
          \<lparr>resp_jsonrpc = ''2.0'', resp_id = msg_id msg,
           resp_error = Some \<lparr>err_code = - 32602,
                              err_message = [Lit ''missing or invalid tool name''],
                              err_data = None\<rparr>,
           resp_result = None\<rparr>)"
    by (simp add: HandleMessage_tools_call handleToolsCall_def errorResponse_map
          ErrorCodeInvalidParams_def)
next
  assume "map_of msg ''method'' = Some (GString ''tools/call'') \<and>
        map_of msg ''params'' = Some (GMap params) \<and>
        map_of params ''name'' = Some (GString nm) \<and> toolsMap s nm = Some t \<and>
        (\<forall>input. map_of params ''arguments'' \<noteq> Some (GMap input))"
  then have "map_of msg ''method'' = Some (GString ''tools/call'')"
    and "map_of msg ''params'' = Some (GMap params)"
    and "map_of params ''name'' = Some (GString nm)" and "toolsMap s nm = Some t"
    and "assertMap (map_of params ''arguments'') = None"
    by (simp_all add: assertMap_None_iff)
  then show "HandleMessage s msg = Return (Inr
          \<lparr>resp_jsonrpc = ''2.0'', resp_id = msg_id msg,
           resp_error = Some \<lparr>err_code = - 32602,
                              err_message = [Lit ''missing or invalid arguments''],
                              err_data = None\<rparr>,
           resp_result = None\<rparr>)"
    by (simp add: HandleMessage_tools_call handleToolsCall_def errorResponse_map
          ErrorCodeInvalidParams_def)
next
  assume "map_of msg ''method'' = Some (GString ''tools/call'') \<and>
        map_of msg ''params'' = Some (GMap params) \<and>
        map_of params ''name'' = Some (GString nm) \<and> toolsMap s nm = None"
  then show "HandleMessage s msg = Return (Inr
          \<lparr>resp_jsonrpc = ''2.0'', resp_id = msg_id msg,
           resp_error = Some \<lparr>err_code = - 32601,
                              err_message = [Lit ''tool not found: '', Lit nm],
                              err_data = None\<rparr>,
           resp_result = None\<rparr>)"
    by (simp add: HandleMessage_tools_call handleToolsCall_def errorResponse_map
          ErrorCodeMethodNotFound_def)
next
  assume "map_of msg ''method'' = Some (GString ''tools/call'') \<and>
        map_of msg ''params'' = Some (GMap params) \<and>
        map_of params ''name'' = Some (GString nm) \<and> toolsMap s nm = Some t \<and>
        map_of params ''arguments'' = Some (GMap input) \<and>
        Execute t input = Return (Inl err)"
  then show "HandleMessage s msg = Return (Inr
          \<lparr>resp_jsonrpc = ''2.0'', resp_id = msg_id msg,
           resp_error = Some \<lparr>err_code = - 32603,
                              err_message = Lit ''tool execution failed: '' # err,
                              err_data = None\<rparr>,
           resp_result = None\<rparr>)"
    by (simp add: HandleMessage_tools_call handleToolsCall_execute errorResponse_map
          ErrorCodeInternalError_def)
qed


lemma decode_any_list_map: "decode_any_list (map f xs) = map (\<lambda>x. decode_any (f x)) xs"
  by (induction xs) simp_all

lemma decoded_tool_result:
  "decode_any (marshalToolResult r) =
     GMap ((''content'', case Content r of
                          None \<Rightarrow> GNil
                        | Some blocks \<Rightarrow> GSlice (map (\<lambda>b. decode_any (marshalContentBlock b)) blocks)) #
           (if IsError r then [(''isError'', GBool True)] else []))"
  by (simp add: marshalToolResult_def map_of_members_def decode_any_list_map less_char_def
           coerceUTF8_ascii split: option.splits)

lemma decoded_block_is_map: "\<exists>m. decode_any (marshalContentBlock b) = GMap m"
  by (cases b) simp_all

text \<open>
  C4, as amended.  When \<^verbatim>\<open>Execute\<close> returns a tool result without an error, the response
  echoes the request id and carries no error; its result is a map whose \<^verbatim>\<open>content\<close> holds
  the blocks re-serialized as plain maps, and the key \<^verbatim>\<open>isError\<close> is present only when the
  tool result has \<^verbatim>\<open>IsError\<close> set, as \<^verbatim>\<open>true\<close>: the tag \<^verbatim>\<open>omitempty\<close> drops a \<^verbatim>\<open>false\<close>.
  For the calculator's \<^verbatim>\<open>add\<close> called with 2.5 and 3.5 the content is the one text block
  \<^verbatim>\<open>2.50 + 3.50 = 6.00\<close>.
\<close>

theorem tools_call_success_response:
  assumes "map_of msg ''method'' = Some (GString ''tools/call'')"
    and "map_of msg ''params'' = Some (GMap params)"
    and "map_of params ''name'' = Some (GString nm)"
    and "toolsMap s nm = Some t"
    and "map_of params ''arguments'' = Some (GMap input)"
    and "Execute t input = Return (Inr (Some r))"
  shows "HandleMessage s msg = Return (Inr
           \<lparr>resp_jsonrpc = ''2.0'', resp_id = msg_id msg, resp_error = None,
            resp_result = Some (GMap
              ((''content'', case Content r of
                              None \<Rightarrow> GNil
                            | Some blocks \<Rightarrow>
                                GSlice (map (\<lambda>b. decode_any (marshalContentBlock b)) blocks)) #
               (if IsError r then [(''isError'', GBool True)] else [])))\<rparr>)
         \<and> (\<forall>b. \<exists>m. decode_any (marshalContentBlock b) = GMap m)"
  using assms
  by (simp add: HandleMessage_tools_call handleToolsCall_execute responseToMap_def
        NewSuccessResponse_def marshalResult_def decoded_tool_result decoded_block_is_map)

lemma toolsMap_calc: "toolsMap calcServer ''add'' = Some addTool"
  by (simp add: calcServer_def NewSdkMCPServer_def addTool_def)

lemma toolsMap_calc_other: "nm \<noteq> ''add'' \<Longrightarrow> toolsMap calcServer nm = None"
  by (simp add: calcServer_def NewSdkMCPServer_def addTool_def)

lemma validate_add_ok:
  "validateInput addSchema [(''a'', GFloat64 (5 / 2)), (''b'', GFloat64 (7 / 2))] = Return None"
  by (simp add: validateInput.simps addSchema_def checkType_def checkEnum_def)

lemma validate_add_empty:
  "validateInput addSchema [] = Return (Some [Lit ''missing required field: '', Lit ''a''])"
  by (simp add: validateInput.simps addSchema_def)

lemma format2f_examples:
  "format2f (5 / 2) = ''2.50''"
  "format2f (7 / 2) = ''3.50''"
  "format2f 6 = ''6.00''"
  by code_simp+

lemma execute_add:
  "Execute addTool [(''a'', GFloat64 (5 / 2)), (''b'', GFloat64 (7 / 2))] =
     Return (Inr (Some \<lparr>Content = Some [TextBlock ''text'' ''2.50 + 3.50 = 6.00''],
                         IsError = False\<rparr>))"
proof -
  have "(5 / 2 :: rat) + 7 / 2 = 6" by simp
  then show ?thesis
    by (simp add: Execute_def addTool_def validate_add_ok addHandler_def NewMcpToolResult_def
          format2f_examples)
qed

lemma call_add_fields:
  "map_of (callAdd i arguments) ''method'' = Some (GString ''tools/call'')"
  "map_of (callAdd i arguments) ''params'' = Some (GMap [(''name'', GString ''add''), (''arguments'', arguments)])"
  "msg_id (callAdd i arguments) = i"
  by (simp_all add: callAdd_def msg_id_def)

theorem tools_call_success_response_witness:
  "HandleMessage calcServer
     (callAdd (GFloat64 7) (GMap [(''a'', GFloat64 (5 / 2)), (''b'', GFloat64 (7 / 2))])) =
   Return (Inr
     \<lparr>resp_jsonrpc = ''2.0'', resp_id = GFloat64 7, resp_error = None,
      resp_result = Some (GMap
        [(''content'', GSlice [GMap [(''text'', GString ''2.50 + 3.50 = 6.00''),
                                     (''type'', GString ''text'')]])])\<rparr>)"
  using tools_call_success_response [of "callAdd (GFloat64 7) (GMap [(''a'', GFloat64 (5 / 2)), (''b'', GFloat64 (7 / 2))])"
      "[(''name'', GString ''add''), (''arguments'', GMap [(''a'', GFloat64 (5 / 2)), (''b'', GFloat64 (7 / 2))])]"
      "''add''" calcServer addTool "[(''a'', GFloat64 (5 / 2)), (''b'', GFloat64 (7 / 2))]"
      "\<lparr>Content = Some [TextBlock ''text'' ''2.50 + 3.50 = 6.00''], IsError = False\<rparr>"]
  by (simp add: call_add_fields toolsMap_calc execute_add map_of_members_def less_char_def
        marshalString_def coerceUTF8_ascii)

lemma validateEntries_step:
  assumes "validateEntries properties ((key, v) # rest) = Return None"
  shows "validateEntries properties rest = Return None"
    and "\<exists>propSchema. map_of properties key = Some propSchema \<and>
     (\<forall>prop propType. propSchema = GMap prop \<longrightarrow> map_of prop ''type'' = Some (GString propType) \<longrightarrow>
        checkType propType key v = None \<and> checkEnum prop key v = Return None \<and>
        (propType = ''object'' \<longrightarrow>
           (\<exists>objValue. v = GMap objValue \<and>
              (\<forall>nestedProps. map_of prop ''properties'' = Some (GMap nestedProps) \<longrightarrow>
                 validateInput (nestedSchema prop nestedProps) objValue = Return None))))"
proof -
  from assms obtain propSchema where ps: "map_of properties key = Some propSchema"
    by (auto split: option.splits)
  show "validateEntries properties rest = Return None"
    using assms ps by (auto split: option.splits outcome.splits if_splits)
  have "checkType propType key v = None \<and> checkEnum pr key v = Return None \<and>
        (propType = ''object'' \<longrightarrow>
           (\<exists>objValue. v = GMap objValue \<and>
              (\<forall>nestedProps. map_of pr ''properties'' = Some (GMap nestedProps) \<longrightarrow>
                 validateInput (nestedSchema pr nestedProps) objValue = Return None)))"
    if p: "propSchema = GMap pr" and ty: "map_of pr ''type'' = Some (GString propType)"
    for pr propType
  proof (cases "propType = ''object''")
    case False
    with assms ps p ty show ?thesis
      by (auto split: option.splits outcome.splits if_splits)
  next
    case True
    with assms ps p ty obtain objValue where ov: "assertMap (Some v) = Some objValue"
      by (auto split: option.splits outcome.splits if_splits)
    then have v: "v = GMap objValue" by (simp add: assertMap_Some_iff)
    have c: "checkType propType key v = None" using True by (simp add: checkType_def)
    have e: "checkEnum pr key v = Return None"
      using assms ps p ty True ov by (auto split: option.splits outcome.splits if_splits)
    have n: "validateInput (nestedSchema pr nestedProps) objValue = Return None"
      if "map_of pr ''properties'' = Some (GMap nestedProps)" for nestedProps
      using assms ps p ty True ov that
      by (auto simp: nestedFailed_def split: option.splits outcome.splits if_splits)
    from v c e n show ?thesis by blast
  qed
  with ps show "\<exists>propSchema. map_of properties key = Some propSchema \<and>
     (\<forall>prop propType. propSchema = GMap prop \<longrightarrow> map_of prop ''type'' = Some (GString propType) \<longrightarrow>
        checkType propType key v = None \<and> checkEnum prop key v = Return None \<and>
        (propType = ''object'' \<longrightarrow>
           (\<exists>objValue. v = GMap objValue \<and>
              (\<forall>nestedProps. map_of prop ''properties'' = Some (GMap nestedProps) \<longrightarrow>
                 validateInput (nestedSchema prop nestedProps) objValue = Return None))))"
    by blast
qed


lemma validateEntries_accepts:
  "validateEntries properties entries = Return None \<Longrightarrow> (key, v) \<in> set entries \<Longrightarrow>
   \<exists>propSchema. map_of properties key = Some propSchema \<and>
     (\<forall>prop propType. propSchema = GMap prop \<longrightarrow> map_of prop ''type'' = Some (GString propType) \<longrightarrow>
        checkType propType key v = None \<and> checkEnum prop key v = Return None \<and>
        (propType = ''object'' \<longrightarrow>
           (\<exists>objValue. v = GMap objValue \<and>
              (\<forall>nestedProps. map_of prop ''properties'' = Some (GMap nestedProps) \<longrightarrow>
                 validateInput (nestedSchema prop nestedProps) objValue = Return None))))"
proof (induction entries)
  case Nil
  then show ?case by simp
next
  case (Cons e entries)
  obtain key' v' where e: "e = (key', v')" by (cases e)
  from Cons.prems(2) consider "(key, v) = (key', v')" | "(key, v) \<in> set entries"
    unfolding e by auto
  then show ?case
  proof cases
    case 1
    with validateEntries_step(2) [of properties key v entries] Cons.prems(1) e
    show ?thesis by simp
  next
    case 2
    from validateEntries_step(1) [of properties key' v' entries] Cons.prems(1) e
    have "validateEntries properties entries = Return None" by simp
    from Cons.IH [OF this 2] show ?thesis .
  qed
qed

lemma go_equal_True: "go_equal v e = Return True \<Longrightarrow> v = e"
  by (cases "(v, e)" rule: go_equal.cases) simp_all

lemma enumValid_True: "enumValid v enum = Return True \<Longrightarrow> v \<in> set enum"
  by (induction enum) (auto split: outcome.splits if_splits dest: go_equal_True)

lemma checkEnum_accepts:
  "checkEnum prop key v = Return None \<Longrightarrow> map_of prop ''enum'' = Some (GSlice enum) \<Longrightarrow> v \<in> set enum"
  by (auto simp: checkEnum_def split: outcome.splits if_splits dest: enumValid_True)

lemma checkType_accepts:
  assumes "checkType propType key v = None"
  shows "(propType = ''string'' \<longrightarrow> (\<exists>x. v = GString x))
       \<and> (propType = ''number'' \<longrightarrow> (\<exists>f. v = GFloat64 f))
       \<and> (propType = ''integer'' \<longrightarrow> (\<exists>f. v = GFloat64 f \<and> f = float64_int64 f))
       \<and> (propType = ''boolean'' \<longrightarrow> (\<exists>b. v = GBool b))
       \<and> (propType = ''array'' \<longrightarrow> (\<exists>xs. v = GSlice xs))"
  using assms
  by (cases v) (auto simp: checkType_def assertString_def assertFloat64_def assertBool_def
                  assertSlice_def split: if_splits)


lemma entry_conforms:
  assumes e: "validateEntries properties input = Return None" and kv: "(key, v) \<in> set input"
  shows "\<exists>propSchema. map_of properties key = Some propSchema \<and>
                 (\<forall>prop propType. propSchema = GMap prop \<and>
                      map_of prop ''type'' = Some (GString propType) \<longrightarrow>
                    (propType = ''string'' \<longrightarrow> (\<exists>x. v = GString x))
                  \<and> (propType = ''number'' \<longrightarrow> (\<exists>f. v = GFloat64 f))
                  \<and> (propType = ''integer'' \<longrightarrow> (\<exists>f. v = GFloat64 f \<and> f = float64_int64 f))
                  \<and> (propType = ''boolean'' \<longrightarrow> (\<exists>b. v = GBool b))
                  \<and> (propType = ''array'' \<longrightarrow> (\<exists>xs. v = GSlice xs))
                  \<and> (propType = ''object'' \<longrightarrow>
                       (\<exists>objValue. v = GMap objValue \<and>
                          (\<forall>nestedProps. map_of prop ''properties'' = Some (GMap nestedProps) \<longrightarrow>
                             validateInput (nestedSchema prop nestedProps) objValue = Return None)))
                  \<and> (\<forall>enum. map_of prop ''enum'' = Some (GSlice enum) \<longrightarrow> v \<in> set enum))"
proof -
  from validateEntries_accepts [OF e kv] obtain propSchema
    where ps: "map_of properties key = Some propSchema"
      and all: "\<And>pr propType. propSchema = GMap pr \<Longrightarrow>
            map_of pr ''type'' = Some (GString propType) \<Longrightarrow>
            checkType propType key v = None \<and> checkEnum pr key v = Return None \<and>
            (propType = ''object'' \<longrightarrow>
               (\<exists>objValue. v = GMap objValue \<and>
                  (\<forall>nestedProps. map_of pr ''properties'' = Some (GMap nestedProps) \<longrightarrow>
                     validateInput (nestedSchema pr nestedProps) objValue = Return None)))"
    by blast
  have inner: "\<forall>pr propType. propSchema = GMap pr \<and>
                      map_of pr ''type'' = Some (GString propType) \<longrightarrow>
        (propType = ''string'' \<longrightarrow> (\<exists>x. v = GString x))
      \<and> (propType = ''number'' \<longrightarrow> (\<exists>f. v = GFloat64 f))
      \<and> (propType = ''integer'' \<longrightarrow> (\<exists>f. v = GFloat64 f \<and> f = float64_int64 f))
      \<and> (propType = ''boolean'' \<longrightarrow> (\<exists>b. v = GBool b))
      \<and> (propType = ''array'' \<longrightarrow> (\<exists>xs. v = GSlice xs))
      \<and> (propType = ''object'' \<longrightarrow>
           (\<exists>objValue. v = GMap objValue \<and>
              (\<forall>nestedProps. map_of pr ''properties'' = Some (GMap nestedProps) \<longrightarrow>
                 validateInput (nestedSchema pr nestedProps) objValue = Return None)))
      \<and> (\<forall>enum. map_of pr ''enum'' = Some (GSlice enum) \<longrightarrow> v \<in> set enum)"
  proof (intro allI impI)
    fix pr propType
    assume "propSchema = GMap pr \<and> map_of pr ''type'' = Some (GString propType)"
    then have 1: "propSchema = GMap pr" and 2: "map_of pr ''type'' = Some (GString propType)"
      by simp_all
    from all [OF 1 2] have c: "checkType propType key v = None"
      and en: "checkEnum pr key v = Return None"
      and ob: "propType = ''object'' \<longrightarrow>
               (\<exists>objValue. v = GMap objValue \<and>
                  (\<forall>nestedProps. map_of pr ''properties'' = Some (GMap nestedProps) \<longrightarrow>
                     validateInput (nestedSchema pr nestedProps) objValue = Return None))"
      by simp_all
    have enum: "\<forall>enum. map_of pr ''enum'' = Some (GSlice enum) \<longrightarrow> v \<in> set enum"
      using checkEnum_accepts [OF en] by simp
    from checkType_accepts [OF c] ob enum
    show "(propType = ''string'' \<longrightarrow> (\<exists>x. v = GString x))
      \<and> (propType = ''number'' \<longrightarrow> (\<exists>f. v = GFloat64 f))
      \<and> (propType = ''integer'' \<longrightarrow> (\<exists>f. v = GFloat64 f \<and> f = float64_int64 f))
      \<and> (propType = ''boolean'' \<longrightarrow> (\<exists>b. v = GBool b))
      \<and> (propType = ''array'' \<longrightarrow> (\<exists>xs. v = GSlice xs))
      \<and> (propType = ''object'' \<longrightarrow>
           (\<exists>objValue. v = GMap objValue \<and>
              (\<forall>nestedProps. map_of pr ''properties'' = Some (GMap nestedProps) \<longrightarrow>
                 validateInput (nestedSchema pr nestedProps) objValue = Return None)))
      \<and> (\<forall>enum. map_of pr ''enum'' = Some (GSlice enum) \<longrightarrow> v \<in> set enum)"
      by simp
  qed
  show ?thesis
    by (rule exI [of _ propSchema]) (rule conjI [OF ps inner])
qed

lemma float64_int64_fixed:
  "f = float64_int64 f \<longleftrightarrow> (\<exists>n. f = of_int n \<and> - (2 ^ 63) \<le> n \<and> n < 2 ^ 63)"
proof
  assume a: "f = float64_int64 f"
  show "\<exists>n. f = of_int n \<and> - (2 ^ 63) \<le> n \<and> n < 2 ^ 63"
  proof (cases "- (2 ^ 63) \<le> f \<and> f < 2 ^ 63")
    case True
    with a obtain n :: int where n: "f = of_int n"
      by (auto simp: float64_int64_def split: if_splits)
    from True have "(of_int (- (2 ^ 63)) :: rat) \<le> of_int n" and "(of_int n :: rat) < of_int (2 ^ 63)"
      by (simp_all add: n)
    then have "- (2 ^ 63) \<le> n \<and> n < 2 ^ 63"
      unfolding of_int_le_iff of_int_less_iff by simp
    with n show ?thesis by blast
  next
    case False
    have "float64_int64 f = - (2 ^ 63)"
      unfolding float64_int64_def by (rule if_not_P) (rule False)
    with a have "f = - (2 ^ 63)" by simp
    with False show ?thesis by simp
  qed
next
  assume "\<exists>n. f = of_int n \<and> - (2 ^ 63) \<le> n \<and> n < 2 ^ 63"
  then obtain n :: int where n: "f = of_int n" and r: "- (2 ^ 63) \<le> n" "n < 2 ^ 63" by blast
  from r have "(of_int (- (2 ^ 63)) :: rat) \<le> of_int n" and "(of_int n :: rat) < of_int (2 ^ 63)"
    unfolding of_int_le_iff of_int_less_iff by simp_all
  then have "- (2 ^ 63) \<le> f \<and> f < 2 ^ 63" by (simp add: n)
  then have "float64_int64 f = of_int (if 0 \<le> f then \<lfloor>f\<rfloor> else \<lceil>f\<rceil>)"
    unfolding float64_int64_def by (rule if_P)
  then show "f = float64_int64 f"
    by (simp add: n)
qed

lemma size_entry: "(key, v) \<in> set input \<Longrightarrow> size v < size (GMap input)"
  by (induction input) auto

lemma validateInput_nestedSchema:
  "map_of prop ''type'' = Some (GString ''object'') \<Longrightarrow>
   map_of prop ''properties'' = Some (GMap nestedProps) \<Longrightarrow>
   validateInput (nestedSchema prop nestedProps) objValue = validateInput prop objValue"
  by (simp add: validateInput.simps nestedSchema_def split: option.splits)


lemma validateInput_conforms:
  "validateInput schema input = Return None \<Longrightarrow> conforms schema input"
proof (induction "size (GMap input)" arbitrary: schema input rule: less_induct)
  case less
  from validateInput_accepts [OF less.prems]
  have ty: "map_of schema ''type'' = Some (GString ''object'')"
    and rq: "\<forall>names. map_of schema ''required'' = Some (GStringSlice names) \<longrightarrow>
               (\<forall>field \<in> set names. map_of input field \<noteq> None)"
    and "\<exists>properties. map_of schema ''properties'' = Some (GMap properties) \<and>
           validateEntries properties input = Return None"
    by (simp_all add: assertString_Some_iff assertStringSlice_Some_iff assertMap_Some_iff)
  then obtain properties where p: "map_of schema ''properties'' = Some (GMap properties)"
    and e: "validateEntries properties input = Return None"
    by blast
  show ?case
  proof (rule conforms.intros [OF ty _ p])
    show "\<forall>names field. map_of schema ''required'' = Some (GStringSlice names) \<and> field \<in> set names \<longrightarrow>
            field \<in> fst ` set input"
      using rq by (auto simp: map_of_eq_None_iff)
    show "\<forall>key v. (key, v) \<in> set input \<longrightarrow>
      (\<exists>propSchema. map_of properties key = Some propSchema \<and>
         (\<forall>prop propType. propSchema = GMap prop \<and> map_of prop ''type'' = Some (GString propType) \<longrightarrow>
            (propType = ''string'' \<longrightarrow> (\<exists>x. v = GString x))
          \<and> (propType = ''number'' \<longrightarrow> (\<exists>f. v = GFloat64 f))
          \<and> (propType = ''integer'' \<longrightarrow>
                (\<exists>n. v = GFloat64 (of_int n) \<and> - (2 ^ 63) \<le> n \<and> n < 2 ^ 63))
          \<and> (propType = ''boolean'' \<longrightarrow> (\<exists>b. v = GBool b))
          \<and> (propType = ''array'' \<longrightarrow> (\<exists>xs. v = GSlice xs))
          \<and> (propType = ''object'' \<longrightarrow>
                (\<exists>objValue. v = GMap objValue \<and>
                   (\<forall>nestedProps. map_of prop ''properties'' = Some (GMap nestedProps) \<longrightarrow>
                      conforms prop objValue)))
          \<and> (\<forall>enum. map_of prop ''enum'' = Some (GSlice enum) \<longrightarrow> v \<in> set enum)))"
    proof (intro allI impI)
      fix key v
      assume kv: "(key, v) \<in> set input"
      from entry_conforms [OF e kv]
      show "\<exists>propSchema. map_of properties key = Some propSchema \<and>
         (\<forall>prop propType. propSchema = GMap prop \<and> map_of prop ''type'' = Some (GString propType) \<longrightarrow>
            (propType = ''string'' \<longrightarrow> (\<exists>x. v = GString x))
          \<and> (propType = ''number'' \<longrightarrow> (\<exists>f. v = GFloat64 f))
          \<and> (propType = ''integer'' \<longrightarrow>
                (\<exists>n. v = GFloat64 (of_int n) \<and> - (2 ^ 63) \<le> n \<and> n < 2 ^ 63))
          \<and> (propType = ''boolean'' \<longrightarrow> (\<exists>b. v = GBool b))
          \<and> (propType = ''array'' \<longrightarrow> (\<exists>xs. v = GSlice xs))
          \<and> (propType = ''object'' \<longrightarrow>
                (\<exists>objValue. v = GMap objValue \<and>
                   (\<forall>nestedProps. map_of prop ''properties'' = Some (GMap nestedProps) \<longrightarrow>
                      conforms prop objValue)))
          \<and> (\<forall>enum. map_of prop ''enum'' = Some (GSlice enum) \<longrightarrow> v \<in> set enum))"
      proof (elim exE conjE)
        fix propSchema
        assume ps: "map_of properties key = Some propSchema"
          and all: "\<forall>prop propType. propSchema = GMap prop \<and>
                      map_of prop ''type'' = Some (GString propType) \<longrightarrow>
                    (propType = ''string'' \<longrightarrow> (\<exists>x. v = GString x))
                  \<and> (propType = ''number'' \<longrightarrow> (\<exists>f. v = GFloat64 f))
                  \<and> (propType = ''integer'' \<longrightarrow> (\<exists>f. v = GFloat64 f \<and> f = float64_int64 f))
                  \<and> (propType = ''boolean'' \<longrightarrow> (\<exists>b. v = GBool b))
                  \<and> (propType = ''array'' \<longrightarrow> (\<exists>xs. v = GSlice xs))
                  \<and> (propType = ''object'' \<longrightarrow>
                       (\<exists>objValue. v = GMap objValue \<and>
                          (\<forall>nestedProps. map_of prop ''properties'' = Some (GMap nestedProps) \<longrightarrow>
                             validateInput (nestedSchema prop nestedProps) objValue = Return None)))
                  \<and> (\<forall>enum. map_of prop ''enum'' = Some (GSlice enum) \<longrightarrow> v \<in> set enum)"
        have inner: "\<forall>pr propType. propSchema = GMap pr \<and> map_of pr ''type'' = Some (GString propType) \<longrightarrow>
              (propType = ''string'' \<longrightarrow> (\<exists>x. v = GString x))
            \<and> (propType = ''number'' \<longrightarrow> (\<exists>f. v = GFloat64 f))
            \<and> (propType = ''integer'' \<longrightarrow>
                  (\<exists>n. v = GFloat64 (of_int n) \<and> - (2 ^ 63) \<le> n \<and> n < 2 ^ 63))
            \<and> (propType = ''boolean'' \<longrightarrow> (\<exists>b. v = GBool b))
            \<and> (propType = ''array'' \<longrightarrow> (\<exists>xs. v = GSlice xs))
            \<and> (propType = ''object'' \<longrightarrow>
                  (\<exists>objValue. v = GMap objValue \<and>
                     (\<forall>nestedProps. map_of pr ''properties'' = Some (GMap nestedProps) \<longrightarrow>
                        conforms pr objValue)))
            \<and> (\<forall>enum. map_of pr ''enum'' = Some (GSlice enum) \<longrightarrow> v \<in> set enum)"
        proof (intro allI impI)
          fix pr propType
          assume 12: "propSchema = GMap pr \<and> map_of pr ''type'' = Some (GString propType)"
          then have 2: "map_of pr ''type'' = Some (GString propType)" by simp
          note weak = all [rule_format, OF 12]
          from weak have w1: "propType = ''string'' \<longrightarrow> (\<exists>x. v = GString x)"
            and w2: "propType = ''number'' \<longrightarrow> (\<exists>f. v = GFloat64 f)"
            and w3: "propType = ''integer'' \<longrightarrow> (\<exists>f. v = GFloat64 f \<and> f = float64_int64 f)"
            and w4: "propType = ''boolean'' \<longrightarrow> (\<exists>b. v = GBool b)"
            and w5: "propType = ''array'' \<longrightarrow> (\<exists>xs. v = GSlice xs)"
            and w6: "propType = ''object'' \<longrightarrow>
                       (\<exists>objValue. v = GMap objValue \<and>
                          (\<forall>nestedProps. map_of pr ''properties'' = Some (GMap nestedProps) \<longrightarrow>
                             validateInput (nestedSchema pr nestedProps) objValue = Return None))"
            and w7: "\<forall>enum. map_of pr ''enum'' = Some (GSlice enum) \<longrightarrow> v \<in> set enum"
            by simp_all
          have int: "propType = ''integer'' \<longrightarrow>
                  (\<exists>n. v = GFloat64 (of_int n) \<and> - (2 ^ 63) \<le> n \<and> n < 2 ^ 63)"
          proof
            assume "propType = ''integer''"
            with w3 obtain f where f: "v = GFloat64 f" "f = float64_int64 f" by blast
            from f(2) obtain n where "f = of_int n" "- (2 ^ 63) \<le> n" "n < 2 ^ 63"
              unfolding float64_int64_fixed by blast
            with f(1) show "\<exists>n. v = GFloat64 (of_int n) \<and> - (2 ^ 63) \<le> n \<and> n < 2 ^ 63" by blast
          qed
          have obj: "propType = ''object'' \<longrightarrow>
                  (\<exists>objValue. v = GMap objValue \<and>
                     (\<forall>nestedProps. map_of pr ''properties'' = Some (GMap nestedProps) \<longrightarrow>
                        conforms pr objValue))"
          proof
            assume o: "propType = ''object''"
            with w6 obtain objValue where v: "v = GMap objValue"
              and nested: "\<And>nestedProps. map_of pr ''properties'' = Some (GMap nestedProps) \<Longrightarrow>
                             validateInput (nestedSchema pr nestedProps) objValue = Return None"
              by blast
            have "conforms pr objValue" if np: "map_of pr ''properties'' = Some (GMap nestedProps)"
              for nestedProps
            proof -
              from validateInput_nestedSchema [of pr nestedProps objValue] 2 o np nested [OF np]
              have vi: "validateInput pr objValue = Return None" by simp
              from size_entry [OF kv] v have "size (GMap objValue) < size (GMap input)" by simp
              from less.hyps [OF this vi] show ?thesis .
            qed
            with v show "\<exists>objValue. v = GMap objValue \<and>
                     (\<forall>nestedProps. map_of pr ''properties'' = Some (GMap nestedProps) \<longrightarrow>
                        conforms pr objValue)"
              by blast
          qed
          from w1 w2 int w4 w5 obj w7
          show "(propType = ''string'' \<longrightarrow> (\<exists>x. v = GString x))
            \<and> (propType = ''number'' \<longrightarrow> (\<exists>f. v = GFloat64 f))
            \<and> (propType = ''integer'' \<longrightarrow>
                  (\<exists>n. v = GFloat64 (of_int n) \<and> - (2 ^ 63) \<le> n \<and> n < 2 ^ 63))
            \<and> (propType = ''boolean'' \<longrightarrow> (\<exists>b. v = GBool b))
            \<and> (propType = ''array'' \<longrightarrow> (\<exists>xs. v = GSlice xs))
            \<and> (propType = ''object'' \<longrightarrow>
                  (\<exists>objValue. v = GMap objValue \<and>
                     (\<forall>nestedProps. map_of pr ''properties'' = Some (GMap nestedProps) \<longrightarrow>
                        conforms pr objValue)))
            \<and> (\<forall>enum. map_of pr ''enum'' = Some (GSlice enum) \<longrightarrow> v \<in> set enum)"
            by (intro conjI)
        qed
        show ?thesis
          by (rule exI [of _ propSchema]) (rule conjI [OF ps inner])
      qed
    qed
  qed
qed

lemma go_equal_refl: "go_equal v v \<noteq> Return False"
  by (cases v) simp_all

lemma enumValid_member: "v \<in> set enum \<Longrightarrow> enumValid v enum \<noteq> Return False"
proof (induction enum)
  case Nil
  then show ?case by simp
next
  case (Cons e es)
  show ?case
  proof (cases "go_equal v e")
    case Panic
    then show ?thesis by simp
  next
    case (Return eq)
    show ?thesis
    proof (cases eq)
      case True
      with Return show ?thesis by simp
    next
      case False
      with Return go_equal_refl [of v] have "v \<noteq> e" by auto
      with Cons.prems have "v \<in> set es" by simp
      from Cons.IH [OF this] Return False show ?thesis by simp
    qed
  qed
qed

lemma checkEnum_passes:
  assumes "\<forall>enum. map_of prop ''enum'' = Some (GSlice enum) \<longrightarrow> v \<in> set enum"
  shows "checkEnum prop key v = Panic \<or> checkEnum prop key v = Return None"
proof (cases "assertSlice (map_of prop ''enum'')")
  case None
  then show ?thesis by (simp add: checkEnum_def)
next
  case (Some enum)
  then have "map_of prop ''enum'' = Some (GSlice enum)"
    by (auto simp: assertSlice_def split: option.splits goval.splits)
  with assms have "v \<in> set enum" by blast
  from enumValid_member [OF this] Some show ?thesis
    by (cases "enumValid v enum") (auto simp: checkEnum_def)
qed

lemma checkType_passes:
  assumes "propType = ''string'' \<longrightarrow> (\<exists>x. v = GString x)"
    and "propType = ''number'' \<longrightarrow> (\<exists>f. v = GFloat64 f)"
    and "propType = ''integer'' \<longrightarrow> (\<exists>n. v = GFloat64 (of_int n) \<and> - (2 ^ 63) \<le> n \<and> n < 2 ^ 63)"
    and "propType = ''boolean'' \<longrightarrow> (\<exists>b. v = GBool b)"
    and "propType = ''array'' \<longrightarrow> (\<exists>xs. v = GSlice xs)"
  shows "checkType propType key v = None"
proof -
  consider (str) "propType = ''string''" | (num) "propType = ''number''"
    | (int) "propType = ''integer''" | (bool) "propType = ''boolean''"
    | (arr) "propType = ''array''"
    | (other) "propType \<noteq> ''string''" "propType \<noteq> ''number''" "propType \<noteq> ''integer''"
        "propType \<noteq> ''boolean''" "propType \<noteq> ''array''"
    by blast
  then show ?thesis
  proof cases
    case str
    with assms(1) obtain x where "v = GString x" by blast
    with str show ?thesis by (simp add: checkType_def)
  next
    case num
    with assms(2) obtain f where "v = GFloat64 f" by blast
    with num show ?thesis by (simp add: checkType_def)
  next
    case int
    with assms(3) obtain n :: int where v: "v = GFloat64 (of_int n)"
      and r: "- (2 ^ 63) \<le> n" "n < 2 ^ 63" by blast
    from r have "(of_int n :: rat) = float64_int64 (of_int n)"
      unfolding float64_int64_fixed by blast
    with int v show ?thesis by (simp add: checkType_def)
  next
    case bool
    with assms(4) obtain b where "v = GBool b" by blast
    with bool show ?thesis by (simp add: checkType_def)
  next
    case arr
    with assms(5) obtain xs where "v = GSlice xs" by blast
    with arr show ?thesis by (simp add: checkType_def)
  next
    case other
    then show ?thesis by (simp add: checkType_def)
  qed
qed

lemma validateEntries_not_rejected:
  assumes "\<forall>key v. (key, v) \<in> set entries \<longrightarrow>
      (\<exists>propSchema. map_of properties key = Some propSchema \<and>
         (\<forall>prop propType. propSchema = GMap prop \<and> map_of prop ''type'' = Some (GString propType) \<longrightarrow>
            (propType = ''string'' \<longrightarrow> (\<exists>x. v = GString x))
          \<and> (propType = ''number'' \<longrightarrow> (\<exists>f. v = GFloat64 f))
          \<and> (propType = ''integer'' \<longrightarrow>
                (\<exists>n. v = GFloat64 (of_int n) \<and> - (2 ^ 63) \<le> n \<and> n < 2 ^ 63))
          \<and> (propType = ''boolean'' \<longrightarrow> (\<exists>b. v = GBool b))
          \<and> (propType = ''array'' \<longrightarrow> (\<exists>xs. v = GSlice xs))
          \<and> (propType = ''object'' \<longrightarrow>
                (\<exists>objValue. v = GMap objValue \<and>
                   (\<forall>nestedProps. map_of prop ''properties'' = Some (GMap nestedProps) \<longrightarrow>
                      (\<forall>e. validateInput prop objValue \<noteq> Return (Some e)))))
          \<and> (\<forall>enum. map_of prop ''enum'' = Some (GSlice enum) \<longrightarrow> v \<in> set enum)))"
  shows "validateEntries properties entries \<noteq> Return (Some err)"
  using assms
proof (induction entries)
  case Nil
  then show ?case by simp
next
  case (Cons entry entries)
  obtain key v where entry: "entry = (key, v)" by (cases entry)
  from Cons.prems have rest: "validateEntries properties entries \<noteq> Return (Some err)"
    by (intro Cons.IH) simp
  have mem: "(key, v) \<in> set (entry # entries)" by (simp add: entry)
  from Cons.prems [rule_format, OF mem]
  show ?case
  proof (elim exE conjE)
    fix propSchema
    assume ps: "map_of properties key = Some propSchema"
      and all: "\<forall>prop propType. propSchema = GMap prop \<and> map_of prop ''type'' = Some (GString propType) \<longrightarrow>
            (propType = ''string'' \<longrightarrow> (\<exists>x. v = GString x))
          \<and> (propType = ''number'' \<longrightarrow> (\<exists>f. v = GFloat64 f))
          \<and> (propType = ''integer'' \<longrightarrow>
                (\<exists>n. v = GFloat64 (of_int n) \<and> - (2 ^ 63) \<le> n \<and> n < 2 ^ 63))
          \<and> (propType = ''boolean'' \<longrightarrow> (\<exists>b. v = GBool b))
          \<and> (propType = ''array'' \<longrightarrow> (\<exists>xs. v = GSlice xs))
          \<and> (propType = ''object'' \<longrightarrow>
                (\<exists>objValue. v = GMap objValue \<and>
                   (\<forall>nestedProps. map_of prop ''properties'' = Some (GMap nestedProps) \<longrightarrow>
                      (\<forall>e. validateInput prop objValue \<noteq> Return (Some e)))))
          \<and> (\<forall>enum. map_of prop ''enum'' = Some (GSlice enum) \<longrightarrow> v \<in> set enum)"
    show ?thesis
    proof (cases "assertMap (Some propSchema)")
      case None
      with ps rest show ?thesis by (simp add: entry)
    next
      case (Some pr)
      then have p: "propSchema = GMap pr" by (simp add: assertMap_Some_iff)
      show ?thesis
      proof (cases "assertString (map_of pr ''type'')")
        case None
        with ps p rest show ?thesis by (simp add: entry)
      next
        case (Some propType)
        then have t: "map_of pr ''type'' = Some (GString propType)"
          by (simp add: assertString_Some_iff)
        note ok = all [rule_format, OF conjI [OF p t]]
        from ok have w1: "propType = ''string'' \<longrightarrow> (\<exists>x. v = GString x)"
          and w2: "propType = ''number'' \<longrightarrow> (\<exists>f. v = GFloat64 f)"
          and w3: "propType = ''integer'' \<longrightarrow>
                (\<exists>n. v = GFloat64 (of_int n) \<and> - (2 ^ 63) \<le> n \<and> n < 2 ^ 63)"
          and w4: "propType = ''boolean'' \<longrightarrow> (\<exists>b. v = GBool b)"
          and w5: "propType = ''array'' \<longrightarrow> (\<exists>xs. v = GSlice xs)"
          and w6: "propType = ''object'' \<longrightarrow>
                (\<exists>objValue. v = GMap objValue \<and>
                   (\<forall>nestedProps. map_of pr ''properties'' = Some (GMap nestedProps) \<longrightarrow>
                      (\<forall>e. validateInput pr objValue \<noteq> Return (Some e))))"
          and w7: "\<forall>enum. map_of pr ''enum'' = Some (GSlice enum) \<longrightarrow> v \<in> set enum"
          by simp_all
        note en = checkEnum_passes [OF w7, of key]
        have ty: "(if propType = ''object'' then
                     (case assertMap (Some v) of
                        Some objValue \<Rightarrow>
                          (case assertMap (map_of pr ''properties'') of
                             Some nestedProps \<Rightarrow>
                               nestedFailed key
                                 (validateInput (nestedSchema pr nestedProps) objValue)
                           | None \<Rightarrow> Return None)
                      | None \<Rightarrow> Return (Some (mustBe key ''object'' v)))
                   else Return (checkType propType key v)) \<noteq> Return (Some e)" for e
        proof (cases "propType = ''object''")
          case False
          with checkType_passes [OF w1 w2 w3 w4 w5, of key] show ?thesis by simp
        next
          case True
          with w6 obtain objValue where v: "v = GMap objValue"
            and nested: "\<And>nestedProps e. map_of pr ''properties'' = Some (GMap nestedProps) \<Longrightarrow>
                           validateInput pr objValue \<noteq> Return (Some e)"
            by blast
          show ?thesis
          proof (cases "assertMap (map_of pr ''properties'')")
            case None
            with True v show ?thesis by simp
          next
            case (Some nestedProps)
            then have np: "map_of pr ''properties'' = Some (GMap nestedProps)"
              by (simp add: assertMap_Some_iff)
            from validateInput_nestedSchema [of pr nestedProps objValue] t True np
            have "validateInput (nestedSchema pr nestedProps) objValue = validateInput pr objValue"
              by simp
            with nested [OF np]
            have "nestedFailed key (validateInput (nestedSchema pr nestedProps) objValue) \<noteq>
                    Return (Some e)"
              by (auto simp: nestedFailed_def split: outcome.splits option.splits)
            with True v Some show ?thesis by simp
          qed
        qed
        define T where "T =
                  (if propType = ''object'' then
                     (case assertMap (Some v) of
                        Some objValue \<Rightarrow>
                          (case assertMap (map_of pr ''properties'') of
                             Some nestedProps \<Rightarrow>
                               nestedFailed key
                                 (validateInput (nestedSchema pr nestedProps) objValue)
                           | None \<Rightarrow> Return None)
                      | None \<Rightarrow> Return (Some (mustBe key ''object'' v)))
                   else Return (checkType propType key v))"
        have step: "validateEntries properties (entry # entries) =
            (case T of
               Panic \<Rightarrow> Panic
             | Return (Some err) \<Rightarrow> Return (Some err)
             | Return None \<Rightarrow>
                 (case checkEnum pr key v of
                    Panic \<Rightarrow> Panic
                  | Return (Some err) \<Rightarrow> Return (Some err)
                  | Return None \<Rightarrow> validateEntries properties entries))"
          unfolding T_def entry using ps p t by simp
        from ty have tyT: "T = Panic \<or> T = Return None"
          unfolding T_def [symmetric] by (cases T) auto
        from tyT en rest show ?thesis
          unfolding step by auto
      qed
    qed
  qed
qed

lemma conforms_not_rejected:
  "conforms schema input \<Longrightarrow> validateInput schema input \<noteq> Return (Some err)"
proof (induction arbitrary: err rule: conforms.induct)
  case (1 schema input properties)
  from 1(2) have "\<forall>names. map_of schema ''required'' = Some (GStringSlice names) \<longrightarrow>
                    checkRequired names input = None"
    by (auto simp: checkRequired_None map_of_eq_None_iff)
  then have rq: "(case assertStringSlice (map_of schema ''required'') of
                    Some required \<Rightarrow> checkRequired required input | None \<Rightarrow> None) = None"
    by (auto simp: assertStringSlice_Some_iff split: option.splits)
  have "validateEntries properties input \<noteq> Return (Some err)"
  proof (rule validateEntries_not_rejected)
    from 1(4)
    show "\<forall>key v. (key, v) \<in> set input \<longrightarrow>
      (\<exists>propSchema. map_of properties key = Some propSchema \<and>
         (\<forall>prop propType. propSchema = GMap prop \<and> map_of prop ''type'' = Some (GString propType) \<longrightarrow>
            (propType = ''string'' \<longrightarrow> (\<exists>x. v = GString x))
          \<and> (propType = ''number'' \<longrightarrow> (\<exists>f. v = GFloat64 f))
          \<and> (propType = ''integer'' \<longrightarrow>
                (\<exists>n. v = GFloat64 (of_int n) \<and> - (2 ^ 63) \<le> n \<and> n < 2 ^ 63))
          \<and> (propType = ''boolean'' \<longrightarrow> (\<exists>b. v = GBool b))
          \<and> (propType = ''array'' \<longrightarrow> (\<exists>xs. v = GSlice xs))
          \<and> (propType = ''object'' \<longrightarrow>
                (\<exists>objValue. v = GMap objValue \<and>
                   (\<forall>nestedProps. map_of prop ''properties'' = Some (GMap nestedProps) \<longrightarrow>
                      (\<forall>e. validateInput prop objValue \<noteq> Return (Some e)))))
          \<and> (\<forall>enum. map_of prop ''enum'' = Some (GSlice enum) \<longrightarrow> v \<in> set enum)))"
      by (elim all_forward imp_forward ex_forward conj_forward) simp_all
  qed
  with 1(1,3) rq show ?case
    by (simp add: validateInput.simps)
qed

lemma Execute_validation_error:
  "validateInput (inputSchema t) input = Return (Some err) \<Longrightarrow>
   Execute t input = Return (Inl (Lit ''input validation failed: '' # err))"
  by (simp add: Execute_def)

text \<open>
  C1, as amended.  For a \<^verbatim>\<open>tools/call\<close> of a registered tool the arguments are validated
  before the handler is invoked.  Arguments that are not a map are answered with code
  -32602.  When \<^verbatim>\<open>validateInput\<close> rejects the arguments, the response is a JSON-RPC error
  with code -32603 (not -32602), whatever the handler is, and its message is
  \<^verbatim>\<open>tool execution failed: input validation failed: \<close> followed by the validator's
  message, which reports a malformed schema or names the offending field (a missing name
  of the \<^verbatim>\<open>required\<close> list, or a key of the arguments).  The arguments that
  \<^verbatim>\<open>validateInput\<close> accepts conform to the schema: every required name is present, every
  key is declared, every value has the declared type (an integer is a whole number) and is
  a member of its enum, and an object value conforms in turn to its property, with that
  property's own required list.  Conforming arguments are never rejected, and with no
  custom validator they reach the handler.
\<close>

theorem tools_call_validation:
  assumes "map_of msg ''method'' = Some (GString ''tools/call'')"
    and "map_of msg ''params'' = Some (GMap params)"
    and "map_of params ''name'' = Some (GString nm)"
    and "toolsMap s nm = Some t"
  shows
   "((\<forall>input. map_of params ''arguments'' \<noteq> Some (GMap input)) \<longrightarrow>
       HandleMessage s msg = Return (Inr
         \<lparr>resp_jsonrpc = ''2.0'', resp_id = msg_id msg,
          resp_error = Some \<lparr>err_code = - 32602,
                             err_message = [Lit ''missing or invalid arguments''],
                             err_data = None\<rparr>,
          resp_result = None\<rparr>))
    \<and> (map_of params ''arguments'' = Some (GMap input) \<and>
        validateInput (inputSchema t) input = Return (Some err) \<longrightarrow>
       HandleMessage s msg = Return (Inr
         \<lparr>resp_jsonrpc = ''2.0'', resp_id = msg_id msg,
          resp_error = Some \<lparr>err_code = - 32603,
                             err_message = [Lit ''tool execution failed: '',
                                            Lit ''input validation failed: ''] @ err,
                             err_data = None\<rparr>,
          resp_result = None\<rparr>)
       \<and> ((\<exists>ty. err = [Lit ''invalid schema type: '', Lit ty])
          \<or> err = [Lit ''invalid schema properties'']
          \<or> (\<exists>names field. map_of (inputSchema t) ''required'' = Some (GStringSlice names) \<and>
                field \<in> set names \<and> map_of input field = None \<and>
                err = [Lit ''missing required field: '', Lit field])
          \<or> (\<exists>key \<in> fst ` set input. Lit key \<in> set err)))
    \<and> (validateInput schema args = Return None \<longrightarrow> conforms schema args)
    \<and> (conforms schema args \<longrightarrow>
         validateInput schema args = Return None \<or> validateInput schema args = Panic)
    \<and> (validateInput (inputSchema t) input = Return None \<and> validator t = None \<longrightarrow>
         Execute t input = handler t input)"
proof (intro conjI impI)
  assume "\<forall>input. map_of params ''arguments'' \<noteq> Some (GMap input)"
  then have "assertMap (map_of params ''arguments'') = None"
    by (simp add: assertMap_None_iff)
  with assms show "HandleMessage s msg = Return (Inr
         \<lparr>resp_jsonrpc = ''2.0'', resp_id = msg_id msg,
          resp_error = Some \<lparr>err_code = - 32602,
                             err_message = [Lit ''missing or invalid arguments''],
                             err_data = None\<rparr>,
          resp_result = None\<rparr>)"
    by (simp add: HandleMessage_tools_call handleToolsCall_def errorResponse_map
          ErrorCodeInvalidParams_def)
next
  assume a: "map_of params ''arguments'' = Some (GMap input) \<and>
        validateInput (inputSchema t) input = Return (Some err)"
  with assms show "HandleMessage s msg = Return (Inr
         \<lparr>resp_jsonrpc = ''2.0'', resp_id = msg_id msg,
          resp_error = Some \<lparr>err_code = - 32603,
                             err_message = [Lit ''tool execution failed: '',
                                            Lit ''input validation failed: ''] @ err,
                             err_data = None\<rparr>,
          resp_result = None\<rparr>)"
    by (simp add: HandleMessage_tools_call handleToolsCall_execute Execute_validation_error
          errorResponse_map ErrorCodeInternalError_def)
  from a validateInput_error_cases [of "inputSchema t" input err]
  show "(\<exists>ty. err = [Lit ''invalid schema type: '', Lit ty])
          \<or> err = [Lit ''invalid schema properties'']
          \<or> (\<exists>names field. map_of (inputSchema t) ''required'' = Some (GStringSlice names) \<and>
                field \<in> set names \<and> map_of input field = None \<and>
                err = [Lit ''missing required field: '', Lit field])
          \<or> (\<exists>key \<in> fst ` set input. Lit key \<in> set err)"
    by (simp add: assertStringSlice_Some_iff)
next
  assume "validateInput schema args = Return None"
  then show "conforms schema args" by (rule validateInput_conforms)
next
  assume c: "conforms schema args"
  show "validateInput schema args = Return None \<or> validateInput schema args = Panic"
  proof (cases "validateInput schema args")
    case Panic
    then show ?thesis by simp
  next
    case (Return r)
    with conforms_not_rejected [OF c] show ?thesis by (cases r) auto
  qed
next
  assume "validateInput (inputSchema t) input = Return None \<and> validator t = None"
  then show "Execute t input = handler t input"
    by (simp add: Execute_def)
qed

subsection \<open>The required list\<close>

lemma map_of_filter_other:
  "map_of (filter (\<lambda>kv. fst kv \<noteq> k) xs) k' = (if k' = k then None else map_of xs k')"
  by (induction xs) auto

lemma validate_decoded_empty:
  "validateInput addSchemaDecoded [] = Return None"
  by (simp add: validateInput.simps addSchemaDecoded_def assertStringSlice_def)

text \<open>
  C8.  When \<^verbatim>\<open>required\<close> holds anything other than a \<^verbatim>\<open>[]string\<close>, \<^verbatim>\<open>validateInput\<close>
  gives the same result as on the schema without that entry, so an input that lacks the
  names still validates when its own keys pass the remaining checks, and a nested schema
  gets no \<^verbatim>\<open>required\<close> list either.  With a \<^verbatim>\<open>[]string\<close>, a missing name is reported.
\<close>

theorem required_only_from_string_slice:
  "(map_of schema ''required'' = Some r \<and> (\<forall>names. r \<noteq> GStringSlice names) \<longrightarrow>
      validateInput schema input =
      validateInput (filter (\<lambda>kv. fst kv \<noteq> ''required'') schema) input
      \<and> (\<forall>nestedProps. map_of (nestedSchema schema nestedProps) ''required'' = None))
   \<and> (map_of schema ''type'' = Some (GString ''object'') \<and>
      map_of schema ''required'' = Some (GStringSlice names) \<and>
      field \<in> set names \<and> map_of input field = None \<longrightarrow>
      (\<exists>missing \<in> set names. map_of input missing = None \<and>
         validateInput schema input =
         Return (Some [Lit ''missing required field: '', Lit missing])))"
proof (intro conjI impI allI)
  assume a: "map_of schema ''required'' = Some r \<and> (\<forall>names. r \<noteq> GStringSlice names)"
  then have n: "assertStringSlice (map_of schema ''required'') = None"
    by (simp add: assertStringSlice_None_iff)
  show "validateInput schema input =
      validateInput (filter (\<lambda>kv. fst kv \<noteq> ''required'') schema) input"
    by (simp add: validateInput.simps map_of_filter_other n split: option.splits)
  show "map_of (nestedSchema schema nestedProps) ''required'' = None" for nestedProps
    by (simp add: nestedSchema_def n)
next
  assume a: "map_of schema ''type'' = Some (GString ''object'') \<and>
      map_of schema ''required'' = Some (GStringSlice names) \<and>
      field \<in> set names \<and> map_of input field = None"
  then have "checkRequired names input \<noteq> None"
    by (auto simp: checkRequired_None)
  then obtain e where e: "checkRequired names input = Some e" by auto
  from checkRequired_names_field [OF e] obtain missing where
    "missing \<in> set names" "map_of input missing = None"
    "e = [Lit ''missing required field: '', Lit missing]" by blast
  moreover have "validateInput schema input = Return (Some e)"
    using a e by (simp add: validateInput.simps)
  ultimately show "\<exists>missing \<in> set names. map_of input missing = None \<and>
         validateInput schema input =
         Return (Some [Lit ''missing required field: '', Lit missing])"
    by blast
qed

theorem required_only_from_string_slice_witness:
  "map_of addSchemaDecoded ''required'' = Some (GSlice [GString ''a'', GString ''b''])
   \<and> validateInput addSchemaDecoded [] = Return None
   \<and> map_of addSchema ''required'' = Some (GStringSlice [''a'', ''b''])
   \<and> validateInput addSchema [] = Return (Some [Lit ''missing required field: '', Lit ''a''])"
  using required_only_from_string_slice [of addSchemaDecoded "GSlice [GString ''a'', GString ''b'']" "[]"
          "[''a'', ''b'']" "''a''"]
    required_only_from_string_slice [of addSchema "GNil" "[]" "[''a'', ''b'']" "''a''"]
  by (simp add: validate_decoded_empty validate_add_empty) (simp add: addSchemaDecoded_def addSchema_def)

subsection \<open>Tool-name routing\<close>

lemma splitLoop_plain:
  "no_sep xs \<Longrightarrow> snd (splitLoop xs cur parts) = parts"
  by (induction xs cur parts rule: splitLoop.induct) auto

lemma splitLoop_ascii:
  "no_sep xs \<Longrightarrow> ascii xs \<Longrightarrow> splitLoop xs cur parts = (cur @ xs, parts)"
  by (induction xs cur parts rule: splitLoop.induct) (auto simp: ascii_def string_of_byte_def)

lemma splitLoop_sep:
  "no_sep xs \<Longrightarrow> ascii xs \<Longrightarrow> (xs = [] \<or> last xs \<noteq> CHR ''_'') \<Longrightarrow>
   splitLoop (xs @ CHR ''_'' # CHR ''_'' # rest) cur parts = splitLoop rest [] (parts @ [cur @ xs])"
  by (induction xs cur parts rule: splitLoop.induct) (auto simp: ascii_def string_of_byte_def)

text \<open>
  C5, as amended.  For ASCII names \<open>s\<close> and \<open>t\<close> without a double underscore, \<open>s\<close> not
  ending in an underscore and \<open>t\<close> not empty, \<^verbatim>\<open>RouteToolUse\<close> maps
  \<^verbatim>\<open>mcp__<s>__<t>\<close> to \<open>(true, s, t)\<close>; a name without a double underscore is routed as
  a plain tool, unchanged.
\<close>

theorem route_round_trip:
  "(ascii s \<and> ascii t \<and> no_sep s \<and> no_sep t \<and> (s = [] \<or> last s \<noteq> CHR ''_'') \<and> t \<noteq> [] \<longrightarrow>
      RouteToolUse servers (''mcp__'' @ s @ ''__'' @ t) = (True, s, t))
   \<and> (no_sep n \<longrightarrow> RouteToolUse servers n = (False, [], n))"
proof (intro conjI impI)
  assume a: "ascii s \<and> ascii t \<and> no_sep s \<and> no_sep t \<and> (s = [] \<or> last s \<noteq> CHR ''_'') \<and> t \<noteq> []"
  have 1: "splitLoop (''mcp__'' @ s @ ''__'' @ t) [] [] = splitLoop (s @ ''__'' @ t) [] [''mcp'']"
    using splitLoop_sep [of "''mcp''" "s @ ''__'' @ t" "[]" "[]"] by (simp add: ascii_def)
  have 2: "splitLoop (s @ ''__'' @ t) [] [''mcp''] = splitLoop t [] [''mcp'', s]"
    using splitLoop_sep [of s t "[]" "[''mcp'']"] a by simp
  have 3: "splitLoop t [] [''mcp'', s] = (t, [''mcp'', s])"
    using splitLoop_ascii [of t "[]" "[''mcp'', s]"] a by simp
  from a have "splitToolName (''mcp__'' @ s @ ''__'' @ t) = [''mcp'', s, t]"
    unfolding splitToolName_def 1 2 3 by simp
  then show "RouteToolUse servers (''mcp__'' @ s @ ''__'' @ t) = (True, s, t)"
    by (simp add: RouteToolUse_def)
next
  assume "no_sep n"
  from splitLoop_plain [OF this, of "[]" "[]"]
  have "length (splitToolName n) \<le> 1"
    by (cases "splitLoop n [] []") (simp add: splitToolName_def)
  then show "RouteToolUse servers n = (False, [], n)"
    by (simp add: RouteToolUse_def Let_def)
qed

theorem route_round_trip_witness:
  "RouteToolUse {''s''} ''mcp__s__t'' = (True, ''s'', ''t'') \<and> RouteToolUse {''s''} ''t'' = (False, [], ''t'')"
  using route_round_trip [of "''s''" "''t''" "{''s''}" "''t''"]
  by (simp add: ascii_def)

theorem route_nested_separator_counterexample:
  "RouteToolUse {''s''} (''mcp__'' @ ''s'' @ ''__'' @ ''a__b'') = (False, [], ''mcp__s__a__b'')"
  by (simp add: RouteToolUse_def splitToolName_def string_of_byte_def)


subsection \<open>The calculator server\<close>

text \<open>Calls of the calculator server.\<close>

lemma handle_call_add_empty:
  "HandleMessage calcServer (callAdd (GFloat64 7) (GMap [])) = Return (Inr
     \<lparr>resp_jsonrpc = ''2.0'', resp_id = GFloat64 7,
      resp_error = Some \<lparr>err_code = - 32603,
                         err_message = [Lit ''tool execution failed: '',
                                        Lit ''input validation failed: '',
                                        Lit ''missing required field: '', Lit ''a''],
                         err_data = None\<rparr>,
      resp_result = None\<rparr>)"
  by (simp add: HandleMessage_tools_call handleToolsCall_execute call_add_fields toolsMap_calc
        Execute_def addTool_def validate_add_empty errorResponse_map ErrorCodeInternalError_def)

lemma validate_add_wrong_type:
  "validateInput addSchema [(''a'', GString ''x''), (''b'', GFloat64 1)] =
     Return (Some [Lit ''field '', Lit ''a'', Lit '' must be '', Lit ''number'', Lit '', got '',
                   Lit ''string''])"
  by (simp add: validateInput.simps addSchema_def checkType_def mustBe_def assertFloat64_def)

lemma validate_point:
  "validateInput pointSchema [(''point'', GMap [])] =
     Return (Some [Lit ''nested validation failed for '', Lit ''point'', Lit '': '',
                   Lit ''missing required field: '', Lit ''x''])"
  "validateInput pointSchema [(''point'', GMap [(''x'', GFloat64 1)])] = Return None"
  by (simp_all add: validateInput.simps pointSchema_def nestedSchema_def nestedFailed_def
        checkType_def checkEnum_def)

theorem tools_call_validation_witness:
  "HandleMessage calcServer (callAdd (GFloat64 7) (GMap [(''a'', GString ''x''), (''b'', GFloat64 1)])) =
     Return (Inr
       \<lparr>resp_jsonrpc = ''2.0'', resp_id = GFloat64 7,
        resp_error = Some \<lparr>err_code = - 32603,
                           err_message = [Lit ''tool execution failed: '',
                                          Lit ''input validation failed: '',
                                          Lit ''field '', Lit ''a'', Lit '' must be '',
                                          Lit ''number'', Lit '', got '', Lit ''string''],
                           err_data = None\<rparr>,
        resp_result = None\<rparr>)
   \<and> HandleMessage calcServer (callAdd (GFloat64 7) (GString ''x'')) =
     Return (Inr
       \<lparr>resp_jsonrpc = ''2.0'', resp_id = GFloat64 7,
        resp_error = Some \<lparr>err_code = - 32602,
                           err_message = [Lit ''missing or invalid arguments''],
                           err_data = None\<rparr>,
        resp_result = None\<rparr>)
   \<and> conforms addSchema [(''a'', GFloat64 (5 / 2)), (''b'', GFloat64 (7 / 2))]
   \<and> Execute addTool [(''a'', GFloat64 (5 / 2)), (''b'', GFloat64 (7 / 2))] =
       addHandler [(''a'', GFloat64 (5 / 2)), (''b'', GFloat64 (7 / 2))]
   \<and> \<not> conforms addSchema []
   \<and> conforms pointSchema [(''point'', GMap [(''x'', GFloat64 1)])]
   \<and> \<not> conforms pointSchema [(''point'', GMap [])]
   \<and> validateInput pointSchema [(''point'', GMap [])] =
       Return (Some [Lit ''nested validation failed for '', Lit ''point'', Lit '': '',
                     Lit ''missing required field: '', Lit ''x''])"
  using tools_call_validation [of "callAdd (GFloat64 7) (GMap [(''a'', GString ''x''), (''b'', GFloat64 1)])"
            "[(''name'', GString ''add''), (''arguments'', GMap [(''a'', GString ''x''), (''b'', GFloat64 1)])]"
            "''add''" calcServer addTool "[(''a'', GString ''x''), (''b'', GFloat64 1)]"
            "[Lit ''field '', Lit ''a'', Lit '' must be '', Lit ''number'', Lit '', got '', Lit ''string'']"
            addSchema "[]"]
        tools_call_validation [of "callAdd (GFloat64 7) (GString ''x'')"
            "[(''name'', GString ''add''), (''arguments'', GString ''x'')]"
            "''add''" calcServer addTool "[(''a'', GFloat64 (5 / 2)), (''b'', GFloat64 (7 / 2))]" "[]"
            addSchema "[(''a'', GFloat64 (5 / 2)), (''b'', GFloat64 (7 / 2))]"]
        tools_call_validation [of "callAdd (GFloat64 7) (GString ''x'')"
            "[(''name'', GString ''add''), (''arguments'', GString ''x'')]"
            "''add''" calcServer addTool "[]" "[]"
            pointSchema "[(''point'', GMap [(''x'', GFloat64 1)])]"]
        tools_call_validation [of "callAdd (GFloat64 7) (GString ''x'')"
            "[(''name'', GString ''add''), (''arguments'', GString ''x'')]"
            "''add''" calcServer addTool "[]" "[]"
            pointSchema "[(''point'', GMap [])]"]
  by (simp add: call_add_fields toolsMap_calc validate_add_wrong_type validate_add_ok
        validate_add_empty validate_point addTool_def)

theorem validation_failure_code_counterexample:
  "errorCode (HandleMessage calcServer (callAdd (GFloat64 7) (GMap []))) = Some (- 32603)"
  by (simp add: handle_call_add_empty errorCode_def)

theorem tools_call_isError_counterexample:
  "resultField (HandleMessage calcServer
      (callAdd (GFloat64 7) (GMap [(''a'', GFloat64 (5 / 2)), (''b'', GFloat64 (7 / 2))]))) ''isError'' = None
   \<and> resultField (HandleMessage calcServer
      (callAdd (GFloat64 7) (GMap [(''a'', GFloat64 (5 / 2)), (''b'', GFloat64 (7 / 2))]))) ''content'' =
     Some (GSlice [GMap [(''text'', GString ''2.50 + 3.50 = 6.00''), (''type'', GString ''text'')]])"
  by (simp add: HandleMessage_tools_call handleToolsCall_execute call_add_fields toolsMap_calc
        execute_add responseToMap_def NewSuccessResponse_def marshalResult_def decoded_tool_result
        resultField_def map_of_members_def less_char_def marshalString_def coerceUTF8_ascii)

theorem HandleMessage_go_error_iff_witness:
  "HandleMessage calcServer [(''id'', GFloat64 1)] = Return (Inl [Lit ''missing or invalid method field''])
   \<and> HandleMessage calcServer [(''id'', GFloat64 1), (''method'', GString ''ping'')] =
       Return (Inr \<lparr>resp_jsonrpc = ''2.0'', resp_id = GFloat64 1,
                     resp_error = Some \<lparr>err_code = - 32601,
                                        err_message = [Lit ''method not found: '', Lit ''ping''],
                                        err_data = None\<rparr>,
                     resp_result = None\<rparr>)
   \<and> HandleMessage calcServer [(''id'', GFloat64 1), (''method'', GString ''tools/call'')] =
       Return (Inr \<lparr>resp_jsonrpc = ''2.0'', resp_id = GFloat64 1,
                     resp_error = Some \<lparr>err_code = - 32602,
                                        err_message = [Lit ''missing or invalid params''],
                                        err_data = None\<rparr>,
                     resp_result = None\<rparr>)
   \<and> HandleMessage calcServer (callAdd (GFloat64 1) (GMap [])) =
       Return (Inr \<lparr>resp_jsonrpc = ''2.0'', resp_id = GFloat64 1,
                     resp_error = Some \<lparr>err_code = - 32603,
                                        err_message = [Lit ''tool execution failed: '',
                                                       Lit ''input validation failed: '',
                                                       Lit ''missing required field: '', Lit ''a''],
                                        err_data = None\<rparr>,
                     resp_result = None\<rparr>)
   \<and> HandleMessage calcServer
         [(''id'', GFloat64 1), (''method'', GString ''tools/call''),
          (''params'', GMap [(''name'', GFloat64 5)])] =
       Return (Inr \<lparr>resp_jsonrpc = ''2.0'', resp_id = GFloat64 1,
                     resp_error = Some \<lparr>err_code = - 32602,
                                        err_message = [Lit ''missing or invalid tool name''],
                                        err_data = None\<rparr>,
                     resp_result = None\<rparr>)
   \<and> HandleMessage calcServer (callAdd (GFloat64 1) (GSlice [])) =
       Return (Inr \<lparr>resp_jsonrpc = ''2.0'', resp_id = GFloat64 1,
                     resp_error = Some \<lparr>err_code = - 32602,
                                        err_message = [Lit ''missing or invalid arguments''],
                                        err_data = None\<rparr>,
                     resp_result = None\<rparr>)
   \<and> HandleMessage calcServer
         [(''id'', GFloat64 1), (''method'', GString ''tools/call''),
          (''params'', GMap [(''name'', GString ''sub''), (''arguments'', GMap [])])] =
       Return (Inr \<lparr>resp_jsonrpc = ''2.0'', resp_id = GFloat64 1,
                     resp_error = Some \<lparr>err_code = - 32601,
                                        err_message = [Lit ''tool not found: '', Lit ''sub''],
                                        err_data = None\<rparr>,
                     resp_result = None\<rparr>)"
  using HandleMessage_go_error_iff [of calcServer "[(''id'', GFloat64 1)]" "''ping''"]
        HandleMessage_go_error_iff [of calcServer "[(''id'', GFloat64 1), (''method'', GString ''ping'')]" "''ping''"]
        HandleMessage_go_error_iff [of calcServer "[(''id'', GFloat64 1), (''method'', GString ''tools/call'')]"
            "''tools/call''"]
        HandleMessage_go_error_iff [of calcServer "callAdd (GFloat64 1) (GMap [])" "''tools/call''"
            "[(''name'', GString ''add''), (''arguments'', GMap [])]" "''add''" addTool "[]"
            "[Lit ''input validation failed: '', Lit ''missing required field: '', Lit ''a'']"]
        HandleMessage_go_error_iff [of calcServer
            "[(''id'', GFloat64 1), (''method'', GString ''tools/call''),
              (''params'', GMap [(''name'', GFloat64 5)])]" "''tools/call''"
            "[(''name'', GFloat64 5)]"]
        HandleMessage_go_error_iff [of calcServer "callAdd (GFloat64 1) (GSlice [])" "''tools/call''"
            "[(''name'', GString ''add''), (''arguments'', GSlice [])]" "''add''" addTool]
        HandleMessage_go_error_iff [of calcServer
            "[(''id'', GFloat64 1), (''method'', GString ''tools/call''),
              (''params'', GMap [(''name'', GString ''sub''), (''arguments'', GMap [])])]" "''tools/call''"
            "[(''name'', GString ''sub''), (''arguments'', GMap [])]" "''sub''"]
  by (simp add: call_add_fields toolsMap_calc toolsMap_calc_other Execute_def addTool_def
        validate_add_empty)
     (simp add: HandleMessage_def msg_id_def)


subsection \<open>Content blocks and system messages\<close>

declare foldName.simps [simp del]

lemma decodeField_Nil [simp]: "decodeField store zero [] = Some zero"
  by (simp add: decodeField_def)

lemma decodeField_snoc:
  "decodeField store zero (vals @ [v]) =
     (case decodeField store zero vals of None \<Rightarrow> None | Some old \<Rightarrow> store v old)"
  by (simp add: decodeField_def)

lemma fieldValues_Nil [simp]: "fieldValues field [] = []"
  by (simp add: fieldValues_def)

lemma fieldValues_snoc:
  "fieldValues field (members @ [(k, v)]) =
     fieldValues field members @ (if foldName (coerceUTF8 k) = foldName field then [v] else [])"
  by (simp add: fieldValues_def)

lemma foldName_fields:
  "foldName ''type'' = ''TYPE''"
  "foldName ''subtype'' = ''SUBTYPE''"
  "foldName ''data'' = ''DATA''"
  "foldName ''response'' = ''RESPONSE''"
  "foldName ''request'' = ''REQUEST''"
  "foldName ''request_id'' = ''REQUEST_ID''"
  "foldName (coerceUTF8 ''type'') = ''TYPE''"
  "foldName (coerceUTF8 ''subtype'') = ''SUBTYPE''"
  "foldName (coerceUTF8 ''data'') = ''DATA''"
  "foldName (coerceUTF8 ''response'') = ''RESPONSE''"
  "foldName (coerceUTF8 ''request'') = ''REQUEST''"
  "foldName (coerceUTF8 ''request_id'') = ''REQUEST_ID''"
  by code_simp+

lemma unmarshalBlocks_all:
  "unmarshalBlocks raws = Inr blocks \<Longrightarrow> b \<in> set raws \<Longrightarrow> \<exists>block. UnmarshalContentBlock b = Inr block"
  by (induction raws arbitrary: blocks) (auto split: sum.splits)

lemma unknown_block_type:
  "decodeTypeCheck b = Some ty \<Longrightarrow> ty \<notin> {''text'', ''thinking'', ''tool_use'', ''tool_result''} \<Longrightarrow>
   UnmarshalContentBlock b = Inl (MessageParseErrorWithType ''unknown content block type'' ty)"
  by (simp add: UnmarshalContentBlock_def)

lemma assistant_blocks_fail:
  assumes "decodeTypeCheck l = Some ''assistant''" and "decodeAssistantAux l = Some aux"
    and "assistantContentBlocks aux = Some raws" and "b \<in> set raws"
    and "UnmarshalContentBlock b = Inl e"
  shows "\<exists>err. UnmarshalMessage l =
           Inl (CLIJSONDecodeErrorWithCause ''failed to unmarshal assistant message'' l err)"
proof (cases "unmarshalBlocks raws")
  case (Inl err)
  with assms show ?thesis
    by (simp add: UnmarshalMessage_def AssistantMessage_UnmarshalJSON_def Let_def)
next
  case (Inr blocks)
  from unmarshalBlocks_all [OF this assms(4)] assms(5) show ?thesis by simp
qed

lemma user_blocks_fail:
  assumes "decodeTypeCheck l = Some ''user''" and "decodeUserAux l = Some aux"
    and "userContentRaw aux = Some (JArray raws)" and "b \<in> set raws"
    and "UnmarshalContentBlock b = Inl e"
  shows "\<exists>err. UnmarshalMessage l =
           Inl (CLIJSONDecodeErrorWithCause ''failed to unmarshal user message'' l err)"
proof (cases "unmarshalBlocks raws")
  case (Inl err)
  with assms show ?thesis
    by (simp add: UnmarshalMessage_def UserMessage_UnmarshalJSON_def Let_def unmarshalString_def
          unmarshalRawSlice_def)
next
  case (Inr blocks)
  from unmarshalBlocks_all [OF this assms(4)] assms(5) show ?thesis by simp
qed

lemma system_subtype_override:
  assumes "UnmarshalMessage (JObject members) = Inr (SystemMsg m)"
  shows "UnmarshalMessage (JObject (members @ [(''subtype'', JString s)])) =
           Inr (SystemMsg (m\<lparr>sm_Subtype := coerceUTF8 s\<rparr>))"
proof -
  from assms obtain ty where ty: "decodeTypeCheck (JObject members) = Some ty"
    and sys: "ty = ''system'' \<or> ty = ''control_request'' \<or> ty = ''control_response''"
    and dec: "decodeSystemMessage (JObject members) = Some m"
    by (auto simp: UnmarshalMessage_def split: option.splits if_splits sum.splits)
  have ty': "decodeTypeCheck (JObject (members @ [(''subtype'', JString s)])) = Some ty"
    using ty by (simp add: decodeTypeCheck_def fieldValues_snoc foldName_fields)
  have dec': "decodeSystemMessage (JObject (members @ [(''subtype'', JString s)])) =
                Some (m\<lparr>sm_Subtype := coerceUTF8 s\<rparr>)"
    using dec
    by (auto simp: decodeSystemMessage_def fieldValues_snoc foldName_fields decodeField_snoc
             split: Option.bind_splits)
  from sys ty' dec' show ?thesis
    by (auto simp: UnmarshalMessage_def)
qed

lemma system_any_subtype:
  "UnmarshalMessage (JObject [(''type'', JString ''system''), (''subtype'', JString s)]) =
     Inr (SystemMsg \<lparr>sm_Type = ''system'', sm_Subtype = coerceUTF8 s, sm_Data = None,
                   sm_Response = None, sm_Request = None, sm_RequestID = []\<rparr>)"
  by (simp add: UnmarshalMessage_def decodeTypeCheck_def decodeSystemMessage_def fieldValues_def
        foldName_fields decodeField_def coerceUTF8_ascii)


text \<open>
  C3, as amended.  A content block of a message's content array whose \<^verbatim>\<open>type\<close> is a string
  other than \<^verbatim>\<open>text\<close>, \<^verbatim>\<open>thinking\<close>, \<^verbatim>\<open>tool_use\<close> and \<^verbatim>\<open>tool_result\<close> is rejected with
  the parse error \<^verbatim>\<open>unknown content block type\<close>, and so is every user or assistant line
  whose content array holds it; a block is returned only for one of the four types.  (The
  content of a \<^verbatim>\<open>tool_result\<close> block is decoded as a generic value, so the blocks in it
  are not checked.)  A system message parses with any subtype: the minimal line does for
  every string, and a system line that parses still parses, with that subtype, when a
  \<^verbatim>\<open>subtype\<close> member is added.
\<close>

theorem unknown_block_rejected_unknown_subtype_accepted:
  "(decodeTypeCheck b = Some ty \<and> ty \<notin> {''text'', ''thinking'', ''tool_use'', ''tool_result''} \<longrightarrow>
      UnmarshalContentBlock b = Inl (MessageParseErrorWithType ''unknown content block type'' ty)
      \<and> (decodeTypeCheck l = Some ''assistant'' \<and> decodeAssistantAux l = Some aaux \<and>
           assistantContentBlocks aaux = Some raws \<and> b \<in> set raws \<longrightarrow>
           (\<exists>err. UnmarshalMessage l =
              Inl (CLIJSONDecodeErrorWithCause ''failed to unmarshal assistant message'' l err)))
      \<and> (decodeTypeCheck l = Some ''user'' \<and> decodeUserAux l = Some uaux \<and>
           userContentRaw uaux = Some (JArray raws) \<and> b \<in> set raws \<longrightarrow>
           (\<exists>err. UnmarshalMessage l =
              Inl (CLIJSONDecodeErrorWithCause ''failed to unmarshal user message'' l err))))
   \<and> (UnmarshalContentBlock b = Inr block \<longrightarrow>
        decodeTypeCheck b \<in> Some ` {''text'', ''thinking'', ''tool_use'', ''tool_result''})
   \<and> UnmarshalMessage (JObject [(''type'', JString ''system''), (''subtype'', JString s)]) =
        Inr (SystemMsg \<lparr>sm_Type = ''system'', sm_Subtype = coerceUTF8 s, sm_Data = None,
                      sm_Response = None, sm_Request = None, sm_RequestID = []\<rparr>)
   \<and> (UnmarshalMessage (JObject members) = Inr (SystemMsg m) \<longrightarrow>
        UnmarshalMessage (JObject (members @ [(''subtype'', JString s)])) =
          Inr (SystemMsg (m\<lparr>sm_Subtype := coerceUTF8 s\<rparr>)))"
proof (intro conjI impI)
  assume a: "decodeTypeCheck b = Some ty \<and> ty \<notin> {''text'', ''thinking'', ''tool_use'', ''tool_result''}"
  then show u: "UnmarshalContentBlock b =
      Inl (MessageParseErrorWithType ''unknown content block type'' ty)"
    using unknown_block_type by blast
  {
    assume "decodeTypeCheck l = Some ''assistant'' \<and> decodeAssistantAux l = Some aaux \<and>
           assistantContentBlocks aaux = Some raws \<and> b \<in> set raws"
    with u assistant_blocks_fail [of l aaux raws b]
    show "\<exists>err. UnmarshalMessage l =
              Inl (CLIJSONDecodeErrorWithCause ''failed to unmarshal assistant message'' l err)"
      by blast
  }
  {
    assume "decodeTypeCheck l = Some ''user'' \<and> decodeUserAux l = Some uaux \<and>
           userContentRaw uaux = Some (JArray raws) \<and> b \<in> set raws"
    with u user_blocks_fail [of l uaux raws b]
    show "\<exists>err. UnmarshalMessage l =
              Inl (CLIJSONDecodeErrorWithCause ''failed to unmarshal user message'' l err)"
      by blast
  }
next
  assume "UnmarshalContentBlock b = Inr block"
  then show "decodeTypeCheck b \<in> Some ` {''text'', ''thinking'', ''tool_use'', ''tool_result''}"
    by (auto simp: UnmarshalContentBlock_def split: option.splits if_splits)
next
  show "UnmarshalMessage (JObject [(''type'', JString ''system''), (''subtype'', JString s)]) =
        Inr (SystemMsg \<lparr>sm_Type = ''system'', sm_Subtype = coerceUTF8 s, sm_Data = None,
                      sm_Response = None, sm_Request = None, sm_RequestID = []\<rparr>)"
    by (rule system_any_subtype)
next
  assume "UnmarshalMessage (JObject members) = Inr (SystemMsg m)"
  then show "UnmarshalMessage (JObject (members @ [(''subtype'', JString s)])) =
          Inr (SystemMsg (m\<lparr>sm_Subtype := coerceUTF8 s\<rparr>))"
    by (rule system_subtype_override)
qed

lemma video_facts:
  "decodeTypeCheck videoBlock = Some ''video''"
  "decodeTypeCheck videoLine = Some ''assistant''"
  "decodeAssistantAux videoLine =
     Some \<lparr>aa_Content = None,
           aa_Message = Some [(''content'', JArray [videoBlock]), (''model'', JString ''m'')],
           aa_Type = ''assistant'', aa_Model = [], aa_ParentToolUseID = None, aa_Error = None\<rparr>"
  "assistantContentBlocks
     \<lparr>aa_Content = None,
      aa_Message = Some [(''content'', JArray [videoBlock]), (''model'', JString ''m'')],
      aa_Type = ''assistant'', aa_Model = [], aa_ParentToolUseID = None, aa_Error = None\<rparr> =
     Some [videoBlock]"
  by code_simp+

theorem unknown_block_rejected_unknown_subtype_accepted_witness:
  "UnmarshalContentBlock videoBlock = Inl (MessageParseErrorWithType ''unknown content block type'' ''video'')
   \<and> (\<exists>err. UnmarshalMessage videoLine =
         Inl (CLIJSONDecodeErrorWithCause ''failed to unmarshal assistant message'' videoLine err))
   \<and> UnmarshalMessage (JObject ([(''type'', JString ''system''), (''subtype'', JString ''init'')] @
                                  [(''subtype'', JString ''brand_new'')])) =
       Inr (SystemMsg \<lparr>sm_Type = ''system'', sm_Subtype = ''brand_new'', sm_Data = None,
                     sm_Response = None, sm_Request = None, sm_RequestID = []\<rparr>)"
  using unknown_block_rejected_unknown_subtype_accepted
          [where b = videoBlock and ty = "''video''" and l = videoLine
             and aaux = "\<lparr>aa_Content = None,
                    aa_Message = Some [(''content'', JArray [videoBlock]), (''model'', JString ''m'')],
                    aa_Type = ''assistant'', aa_Model = [], aa_ParentToolUseID = None,
                    aa_Error = None\<rparr>"
             and raws = "[videoBlock]" and s = "''init''"
             and members = "[(''type'', JString ''system''), (''subtype'', JString ''init'')]"
             and m = "\<lparr>sm_Type = ''system'', sm_Subtype = ''init'', sm_Data = None,
                      sm_Response = None, sm_Request = None, sm_RequestID = []\<rparr>"]
        unknown_block_rejected_unknown_subtype_accepted
          [where b = videoBlock and ty = "''video''" and l = videoLine and raws = "[]"
             and s = "''brand_new''"
             and members = "[(''type'', JString ''system''), (''subtype'', JString ''init'')]"
             and m = "\<lparr>sm_Type = ''system'', sm_Subtype = ''init'', sm_Data = None,
                      sm_Response = None, sm_Request = None, sm_RequestID = []\<rparr>"]
  by (simp add: video_facts coerceUTF8_ascii)

theorem nested_unknown_block_counterexample:
  "UnmarshalMessage videoInToolResult =
     Inr (UserMsg \<lparr>um_Type = ''user'',
                   um_Content = ContentBlocks (Some
                     [ToolResultBlock ''tool_result'' ''t1''
                        (GSlice [GMap [(''type'', GString ''video''), (''url'', GString ''...'')]])
                        None]),
                   um_ParentToolUseID = None, um_UUID = None\<rparr>)"
  by code_simp

subsection \<open>Flat and nested forms\<close>

lemma user_parsed:
  "UnmarshalMessage l = Inr (UserMsg m) \<Longrightarrow> UserMessage_UnmarshalJSON l = Inr m"
  by (auto simp: UnmarshalMessage_def split: option.splits if_splits sum.splits)

lemma assistant_parsed:
  "UnmarshalMessage l = Inr (AssistantMsg a) \<Longrightarrow> AssistantMessage_UnmarshalJSON l = Inr a"
  by (auto simp: UnmarshalMessage_def split: option.splits if_splits sum.splits)

lemma user_fields:
  assumes "UserMessage_UnmarshalJSON l = Inr m" and "decodeUserAux l = Some aux"
  shows "um_Type m = ua_Type aux"
    and "um_ParentToolUseID m =
           (case ua_Message aux of
              None \<Rightarrow> ua_ParentToolUseID aux
            | Some nested \<Rightarrow> nestedString nested ''parent_tool_use_id'' (ua_ParentToolUseID aux))"
    and "um_UUID m =
           (case ua_Message aux of
              None \<Rightarrow> ua_UUID aux
            | Some nested \<Rightarrow> nestedString nested ''uuid'' (ua_UUID aux))"
    and "\<exists>c. userContentRaw aux = Some c \<and>
           (case unmarshalString c of
              Some s \<Rightarrow> um_Content m = ContentString s
            | None \<Rightarrow> (\<exists>raws blocks. c = JArray raws \<and> unmarshalBlocks raws = Inr blocks \<and>
                          um_Content m = ContentBlocks (Some blocks)))"
proof -
  from assms obtain c where c: "userContentRaw aux = Some c"
    by (auto simp: UserMessage_UnmarshalJSON_def Let_def split: option.splits)
  show "um_Type m = ua_Type aux"
    using assms c
    by (auto simp: UserMessage_UnmarshalJSON_def Let_def split: option.splits sum.splits)
  show "um_ParentToolUseID m =
           (case ua_Message aux of
              None \<Rightarrow> ua_ParentToolUseID aux
            | Some nested \<Rightarrow> nestedString nested ''parent_tool_use_id'' (ua_ParentToolUseID aux))"
    using assms c
    by (auto simp: UserMessage_UnmarshalJSON_def Let_def split: option.splits sum.splits)
  show "um_UUID m =
           (case ua_Message aux of
              None \<Rightarrow> ua_UUID aux
            | Some nested \<Rightarrow> nestedString nested ''uuid'' (ua_UUID aux))"
    using assms c
    by (auto simp: UserMessage_UnmarshalJSON_def Let_def split: option.splits sum.splits)
  have "case unmarshalString c of
              Some s \<Rightarrow> um_Content m = ContentString s
            | None \<Rightarrow> (\<exists>raws blocks. c = JArray raws \<and> unmarshalBlocks raws = Inr blocks \<and>
                          um_Content m = ContentBlocks (Some blocks))"
  proof (cases "unmarshalString c")
    case (Some s)
    with assms c show ?thesis
      by (auto simp: UserMessage_UnmarshalJSON_def Let_def)
  next
    case None
    then have nn: "c \<noteq> JNull" by (auto simp: unmarshalString_def)
    from assms c None obtain arr where arr: "unmarshalRawSlice c = Some arr"
      by (auto simp: UserMessage_UnmarshalJSON_def Let_def split: option.splits)
    with nn obtain raws where r: "c = JArray raws" "arr = Some raws"
      by (cases c) (auto simp: unmarshalRawSlice_def)
    with assms c None arr show ?thesis
      by (auto simp: UserMessage_UnmarshalJSON_def Let_def split: sum.splits)
  qed
  with c show "\<exists>c. userContentRaw aux = Some c \<and>
           (case unmarshalString c of
              Some s \<Rightarrow> um_Content m = ContentString s
            | None \<Rightarrow> (\<exists>raws blocks. c = JArray raws \<and> unmarshalBlocks raws = Inr blocks \<and>
                          um_Content m = ContentBlocks (Some blocks)))"
    by blast
qed

lemma assistant_fields:
  assumes "AssistantMessage_UnmarshalJSON l = Inr a" and "decodeAssistantAux l = Some aux"
  shows "am_Type a = aa_Type aux"
    and "am_ParentToolUseID a = aa_ParentToolUseID aux"
    and "unmarshalBlocks (case assistantContentBlocks aux of None \<Rightarrow> [] | Some xs \<Rightarrow> xs) =
           Inr (am_Content a)"
    and "am_Model a =
           (case aa_Message aux of
              None \<Rightarrow> aa_Model aux
            | Some nested \<Rightarrow>
                (case map_of nested ''model'' of
                   None \<Rightarrow> aa_Model aux
                 | Some modelRaw \<Rightarrow>
                     (case unmarshalString modelRaw of Some s \<Rightarrow> s | None \<Rightarrow> aa_Model aux)))"
    and "am_Error a =
           (case aa_Message aux of
              None \<Rightarrow> aa_Error aux
            | Some nested \<Rightarrow>
                (case map_of nested ''error'' of
                   None \<Rightarrow> aa_Error aux
                 | Some errRaw \<Rightarrow>
                     (case unmarshalString errRaw of
                        Some errCode \<Rightarrow> if errCode \<noteq> [] then Some errCode else aa_Error aux
                      | None \<Rightarrow> aa_Error aux)))"
  using assms
  by (auto simp: AssistantMessage_UnmarshalJSON_def Let_def split: sum.splits)


lemma unmarshalString_simps [simp]:
  "unmarshalString (JString s) = Some (coerceUTF8 s)"
  "unmarshalString JNull = Some []"
  "unmarshalString (JArray raws) = None"
  by (simp_all add: unmarshalString_def)

lemma unmarshalRawSlice_simps [simp]:
  "unmarshalRawSlice (JArray raws) = Some (Some raws)"
  "unmarshalRawSlice JNull = Some None"
  by (simp_all add: unmarshalRawSlice_def)

lemma foldName_fields2:
  "foldName ''content'' = ''CONTENT''"
  "foldName ''message'' = ''MESSAGE''"
  "foldName ''uuid'' = ''UUID''"
  "foldName ''parent_tool_use_id'' = ''PARENT_TOOL_USE_ID''"
  "foldName ''model'' = ''MODEL''"
  "foldName ''error'' = ''ERROR''"
  "foldName (coerceUTF8 ''content'') = ''CONTENT''"
  "foldName (coerceUTF8 ''message'') = ''MESSAGE''"
  "foldName (coerceUTF8 ''uuid'') = ''UUID''"
  "foldName (coerceUTF8 ''parent_tool_use_id'') = ''PARENT_TOOL_USE_ID''"
  "foldName (coerceUTF8 ''model'') = ''MODEL''"
  "foldName (coerceUTF8 ''error'') = ''ERROR''"
  by code_simp+

lemma user_flat_nested_same:
  "parsed (UnmarshalMessage (JObject [(''type'', JString ''user''), (''content'', c),
                                      (''parent_tool_use_id'', JString p), (''uuid'', JString u)])) =
   parsed (UnmarshalMessage (JObject [(''type'', JString ''user''),
             (''message'', JObject [(''content'', c), (''parent_tool_use_id'', JString p),
                                    (''uuid'', JString u)])]))"
  by (simp add: parsed_def UnmarshalMessage_def decodeTypeCheck_def UserMessage_UnmarshalJSON_def
        decodeUserAux_def fieldValues_def foldName_fields foldName_fields2 decodeField_def
        userContentRaw_def nestedString_def Let_def less_char_def coerceUTF8_ascii
        split: option.splits sum.splits)

lemma assistant_flat_nested_same:
  "parsed (UnmarshalMessage (JObject [(''type'', JString ''assistant''), (''content'', JArray raws),
                                      (''model'', JString md)])) =
   parsed (UnmarshalMessage (JObject [(''type'', JString ''assistant''),
             (''message'', JObject [(''content'', JArray raws), (''model'', JString md)])]))"
  by (simp add: parsed_def UnmarshalMessage_def decodeTypeCheck_def AssistantMessage_UnmarshalJSON_def
        decodeAssistantAux_def fieldValues_def foldName_fields foldName_fields2 decodeField_def
        assistantContentBlocks_def Let_def less_char_def coerceUTF8_ascii
        split: option.splits sum.splits)

text \<open>
  The fields that both decoders read from the nested message: of a user line \<^verbatim>\<open>content\<close>,
  \<^verbatim>\<open>parent_tool_use_id\<close> and \<^verbatim>\<open>uuid\<close>, of an assistant line \<^verbatim>\<open>content\<close>, \<^verbatim>\<open>model\<close> and
  \<^verbatim>\<open>error\<close>.  A nested value of the expected JSON type (for the error a non-empty string)
  wins over the flat one, and the flat value is used when the nested message lacks the
  field; both forms give the same result for the same fields.  The content of a user
  message is a string when the raw content is a string, and otherwise the list of blocks of
  an array.
\<close>

lemma nested_fields_win:
  "(UnmarshalMessage l = Inr (UserMsg m) \<and> decodeUserAux l = Some uaux \<longrightarrow>
      (ua_Message uaux = Some nested \<longrightarrow>
          (map_of nested ''content'' = Some c \<longrightarrow> userContentRaw uaux = Some c)
        \<and> (map_of nested ''parent_tool_use_id'' = Some (JString s) \<longrightarrow>
             um_ParentToolUseID m = Some (coerceUTF8 s))
        \<and> (map_of nested ''uuid'' = Some (JString s) \<longrightarrow> um_UUID m = Some (coerceUTF8 s))
        \<and> (map_of nested ''content'' = None \<longrightarrow> userContentRaw uaux = ua_Content uaux)
        \<and> (map_of nested ''parent_tool_use_id'' = None \<longrightarrow>
             um_ParentToolUseID m = ua_ParentToolUseID uaux)
        \<and> (map_of nested ''uuid'' = None \<longrightarrow> um_UUID m = ua_UUID uaux))
    \<and> (ua_Message uaux = None \<longrightarrow>
          userContentRaw uaux = ua_Content uaux \<and>
          um_ParentToolUseID m = ua_ParentToolUseID uaux \<and> um_UUID m = ua_UUID uaux)
    \<and> (userContentRaw uaux = Some (JString s) \<longrightarrow> um_Content m = ContentString (coerceUTF8 s))
    \<and> (userContentRaw uaux = Some (JArray raws) \<longrightarrow>
          (\<exists>blocks. unmarshalBlocks raws = Inr blocks \<and> um_Content m = ContentBlocks (Some blocks)))
    \<and> (\<exists>content. userContentRaw uaux = Some content \<and>
          (content = JNull \<or> (\<exists>str. content = JString str) \<or> (\<exists>arr. content = JArray arr))))
   \<and> (UnmarshalMessage l = Inr (AssistantMsg a) \<and> decodeAssistantAux l = Some aaux \<longrightarrow>
      (aa_Message aaux = Some nested \<longrightarrow>
          (map_of nested ''content'' = Some (JArray raws) \<longrightarrow>
             unmarshalBlocks raws = Inr (am_Content a))
        \<and> (map_of nested ''model'' = Some (JString s) \<longrightarrow> am_Model a = coerceUTF8 s)
        \<and> (map_of nested ''error'' = Some (JString s) \<and> coerceUTF8 s \<noteq> [] \<longrightarrow>
             am_Error a = Some (coerceUTF8 s))
        \<and> (map_of nested ''content'' = None \<longrightarrow>
             unmarshalBlocks (case aa_Content aaux of None \<Rightarrow> [] | Some xs \<Rightarrow> xs) =
               Inr (am_Content a))
        \<and> (map_of nested ''model'' = None \<longrightarrow> am_Model a = aa_Model aaux)
        \<and> (map_of nested ''error'' = None \<longrightarrow> am_Error a = aa_Error aaux))
    \<and> (aa_Message aaux = None \<longrightarrow>
          unmarshalBlocks (case aa_Content aaux of None \<Rightarrow> [] | Some xs \<Rightarrow> xs) =
            Inr (am_Content a) \<and>
          am_Model a = aa_Model aaux \<and> am_Error a = aa_Error aaux))
   \<and> parsed (UnmarshalMessage (JObject [(''type'', JString ''user''), (''content'', c),
                                        (''parent_tool_use_id'', JString p), (''uuid'', JString u)])) =
     parsed (UnmarshalMessage (JObject [(''type'', JString ''user''),
               (''message'', JObject [(''content'', c), (''parent_tool_use_id'', JString p),
                                      (''uuid'', JString u)])]))
   \<and> parsed (UnmarshalMessage (JObject [(''type'', JString ''assistant''), (''content'', JArray raws),
                                        (''model'', JString md)])) =
     parsed (UnmarshalMessage (JObject [(''type'', JString ''assistant''),
               (''message'', JObject [(''content'', JArray raws), (''model'', JString md)])]))"
proof (intro conjI impI)
  show "parsed (UnmarshalMessage (JObject [(''type'', JString ''user''), (''content'', c),
                                        (''parent_tool_use_id'', JString p), (''uuid'', JString u)])) =
     parsed (UnmarshalMessage (JObject [(''type'', JString ''user''),
               (''message'', JObject [(''content'', c), (''parent_tool_use_id'', JString p),
                                      (''uuid'', JString u)])]))"
    by (rule user_flat_nested_same)
  show "parsed (UnmarshalMessage (JObject [(''type'', JString ''assistant''), (''content'', JArray raws),
                                        (''model'', JString md)])) =
     parsed (UnmarshalMessage (JObject [(''type'', JString ''assistant''),
               (''message'', JObject [(''content'', JArray raws), (''model'', JString md)])]))"
    by (rule assistant_flat_nested_same)
next
  assume u: "UnmarshalMessage l = Inr (UserMsg m) \<and> decodeUserAux l = Some uaux"
  then have p: "UserMessage_UnmarshalJSON l = Inr m" and d: "decodeUserAux l = Some uaux"
    by (simp_all add: user_parsed)
  note f = user_fields [OF p d]
  {
    assume n: "ua_Message uaux = Some nested"
    show "map_of nested ''content'' = Some c \<Longrightarrow> userContentRaw uaux = Some c"
      using n by (simp add: userContentRaw_def)
    show "map_of nested ''parent_tool_use_id'' = Some (JString s) \<Longrightarrow>
             um_ParentToolUseID m = Some (coerceUTF8 s)"
      using n f(2) by (simp add: nestedString_def)
    show "map_of nested ''uuid'' = Some (JString s) \<Longrightarrow> um_UUID m = Some (coerceUTF8 s)"
      using n f(3) by (simp add: nestedString_def)
    show "map_of nested ''content'' = None \<Longrightarrow> userContentRaw uaux = ua_Content uaux"
      using n by (cases "ua_Content uaux") (simp_all add: userContentRaw_def)
    show "map_of nested ''parent_tool_use_id'' = None \<Longrightarrow>
             um_ParentToolUseID m = ua_ParentToolUseID uaux"
      using n f(2) by (simp add: nestedString_def)
    show "map_of nested ''uuid'' = None \<Longrightarrow> um_UUID m = ua_UUID uaux"
      using n f(3) by (simp add: nestedString_def)
  }
  {
    assume n: "ua_Message uaux = None"
    show "userContentRaw uaux = ua_Content uaux"
      using n by (cases "ua_Content uaux") (simp_all add: userContentRaw_def)
    show "um_ParentToolUseID m = ua_ParentToolUseID uaux" using n f(2) by simp
    show "um_UUID m = ua_UUID uaux" using n f(3) by simp
  }
  show "userContentRaw uaux = Some (JString s) \<Longrightarrow> um_Content m = ContentString (coerceUTF8 s)"
    using f(4) by auto
  show "userContentRaw uaux = Some (JArray raws) \<Longrightarrow>
          \<exists>blocks. unmarshalBlocks raws = Inr blocks \<and> um_Content m = ContentBlocks (Some blocks)"
    using f(4) by auto
  from f(4) obtain content where c: "userContentRaw uaux = Some content"
    and k: "case unmarshalString content of
              Some s \<Rightarrow> um_Content m = ContentString s
            | None \<Rightarrow> (\<exists>raws blocks. content = JArray raws \<and> unmarshalBlocks raws = Inr blocks \<and>
                          um_Content m = ContentBlocks (Some blocks))"
    by blast
  have "content = JNull \<or> (\<exists>str. content = JString str) \<or> (\<exists>arr. content = JArray arr)"
    using k by (cases content) (auto simp: unmarshalString_def)
  with c show "\<exists>content. userContentRaw uaux = Some content \<and>
          (content = JNull \<or> (\<exists>str. content = JString str) \<or> (\<exists>arr. content = JArray arr))"
    by blast
next
  assume u: "UnmarshalMessage l = Inr (AssistantMsg a) \<and> decodeAssistantAux l = Some aaux"
  then have p: "AssistantMessage_UnmarshalJSON l = Inr a" and d: "decodeAssistantAux l = Some aaux"
    by (simp_all add: assistant_parsed)
  note f = assistant_fields [OF p d]
  {
    assume n: "aa_Message aaux = Some nested"
    show "map_of nested ''content'' = Some (JArray raws) \<Longrightarrow>
             unmarshalBlocks raws = Inr (am_Content a)"
      using n f(3) by (simp add: assistantContentBlocks_def)
    show "map_of nested ''model'' = Some (JString s) \<Longrightarrow> am_Model a = coerceUTF8 s"
      using n f(4) by simp
    show "map_of nested ''error'' = Some (JString s) \<and> coerceUTF8 s \<noteq> [] \<Longrightarrow>
             am_Error a = Some (coerceUTF8 s)"
      using n f(5) by simp
    show "map_of nested ''content'' = None \<Longrightarrow>
             unmarshalBlocks (case aa_Content aaux of None \<Rightarrow> [] | Some xs \<Rightarrow> xs) =
               Inr (am_Content a)"
      using n f(3) by (cases "aa_Content aaux") (simp_all add: assistantContentBlocks_def)
    show "map_of nested ''model'' = None \<Longrightarrow> am_Model a = aa_Model aaux"
      using n f(4) by simp
    show "map_of nested ''error'' = None \<Longrightarrow> am_Error a = aa_Error aaux"
      using n f(5) by simp
  }
  {
    assume n: "aa_Message aaux = None"
    show "unmarshalBlocks (case aa_Content aaux of None \<Rightarrow> [] | Some xs \<Rightarrow> xs) =
            Inr (am_Content a)"
      using n f(3) by (cases "aa_Content aaux") (simp_all add: assistantContentBlocks_def)
    show "am_Model a = aa_Model aaux" using n f(4) by simp
    show "am_Error a = aa_Error aaux" using n f(5) by simp
  }
qed

subsection \<open>Missing content\<close>

lemma user_missing_content:
  assumes ty: "decodeTypeCheck l = Some ''user''"
    and ms: "objectMembers l = Some members"
    and flat: "fieldValues ''content'' members = []"
    and nested: "\<forall>nested. decodeField storeRawMap None (fieldValues ''message'' members) = Some (Some nested)
                   \<longrightarrow> map_of nested ''content'' = None"
  shows "UnmarshalMessage l =
           Inl (CLIJSONDecodeErrorWithCause ''failed to unmarshal user message'' l
                  (if decodeUserAux l = None then JSONError else Errorf ''missing content field''))"
proof (cases "decodeUserAux l")
  case None
  with ty show ?thesis
    by (simp add: UnmarshalMessage_def UserMessage_UnmarshalJSON_def)
next
  case (Some aux)
  then have c: "ua_Content aux = None"
    using ms flat by (auto simp: decodeUserAux_def split: Option.bind_splits)
  have m: "ua_Message aux = Some nn \<Longrightarrow> map_of nn ''content'' = None" for nn
    using Some ms nested by (auto simp: decodeUserAux_def split: Option.bind_splits)
  have "userContentRaw aux = None"
    using c m by (cases "ua_Message aux") (simp_all add: userContentRaw_def)
  with ty Some show ?thesis
    by (simp add: UnmarshalMessage_def UserMessage_UnmarshalJSON_def Let_def)
qed

lemma assistant_missing_content:
  assumes ty: "decodeTypeCheck l = Some ''assistant''"
    and ms: "objectMembers l = Some members"
    and flat: "fieldValues ''content'' members = []"
    and nested: "\<forall>nested. decodeField storeRawMap None (fieldValues ''message'' members) = Some (Some nested)
                   \<longrightarrow> map_of nested ''content'' = None"
    and aux: "decodeAssistantAux l = Some aux"
  shows "\<exists>a. UnmarshalMessage l = Inr (AssistantMsg a) \<and> am_Content a = []"
proof -
  have c: "aa_Content aux = None"
    using aux ms flat by (auto simp: decodeAssistantAux_def split: Option.bind_splits)
  have m: "aa_Message aux = Some nn \<Longrightarrow> map_of nn ''content'' = None" for nn
    using aux ms nested by (auto simp: decodeAssistantAux_def split: Option.bind_splits)
  have "assistantContentBlocks aux = None"
    using c m by (cases "aa_Message aux") (simp_all add: assistantContentBlocks_def)
  with ty aux show ?thesis
    by (simp add: UnmarshalMessage_def AssistantMessage_UnmarshalJSON_def Let_def)
qed


text \<open>
  C2.  Where both forms supply a field, the nested value is to win.  On a line that gives
  \<^verbatim>\<open>parent_tool_use_id\<close> as \<^verbatim>\<open>A\<close> at top level and as \<^verbatim>\<open>B\<close> in the nested message, the
  user decoder returns the nested \<^verbatim>\<open>B\<close>, while the assistant decoder, which reads only
  \<^verbatim>\<open>content\<close>, \<^verbatim>\<open>model\<close> and \<^verbatim>\<open>error\<close> from the nested message, returns the flat \<^verbatim>\<open>A\<close>.
\<close>

theorem assistant_nested_parent_ignored:
  "UnmarshalMessage assistantTwoParents =
     Inr (AssistantMsg \<lparr>am_Type = ''assistant'', am_Content = [], am_Model = ''m'',
                        am_ParentToolUseID = Some ''A'', am_Error = None\<rparr>)
   \<and> UnmarshalMessage userTwoParents =
     Inr (UserMsg \<lparr>um_Type = ''user'', um_Content = ContentBlocks (Some []),
                   um_ParentToolUseID = Some ''B'', um_UUID = None\<rparr>)"
  by code_simp

text \<open>
  C10.  A user line without a \<^verbatim>\<open>content\<close> member, whose nested message (if any) has no
  \<^verbatim>\<open>content\<close> either, fails with the decode error \<^verbatim>\<open>failed to unmarshal user message\<close>,
  caused by \<^verbatim>\<open>missing content field\<close> unless a member is ill-typed.  An assistant line of
  that kind whose members are well-typed parses, to a message with an empty list of blocks.
\<close>

theorem missing_content_user_fails_assistant_empty:
  "(decodeTypeCheck l = Some ''user'' \<and> objectMembers l = Some members \<and>
    fieldValues ''content'' members = [] \<and>
    (\<forall>nested. decodeField storeRawMap None (fieldValues ''message'' members) = Some (Some nested)
        \<longrightarrow> map_of nested ''content'' = None) \<longrightarrow>
      UnmarshalMessage l =
        Inl (CLIJSONDecodeErrorWithCause ''failed to unmarshal user message'' l
               (if decodeUserAux l = None then JSONError else Errorf ''missing content field'')))
   \<and> (decodeTypeCheck l = Some ''assistant'' \<and> objectMembers l = Some members \<and>
      fieldValues ''content'' members = [] \<and>
      (\<forall>nested. decodeField storeRawMap None (fieldValues ''message'' members) = Some (Some nested)
          \<longrightarrow> map_of nested ''content'' = None) \<and>
      decodeAssistantAux l = Some aux \<longrightarrow>
      (\<exists>a. UnmarshalMessage l = Inr (AssistantMsg a) \<and> am_Content a = []))"
  using user_missing_content [of l members] assistant_missing_content [of l members aux]
  by blast

lemma no_content_facts:
  "decodeTypeCheck userNoContent = Some ''user''"
  "objectMembers userNoContent =
     Some [(''type'', JString ''user''), (''message'', JObject [(''role'', JString ''user'')])]"
  "fieldValues ''content''
     [(''type'', JString ''user''), (''message'', JObject [(''role'', JString ''user'')])] = []"
  "decodeField storeRawMap None (fieldValues ''message''
     [(''type'', JString ''user''), (''message'', JObject [(''role'', JString ''user'')])]) =
     Some (Some [(''role'', JString ''user'')])"
  "decodeUserAux userNoContent \<noteq> None"
  "decodeTypeCheck assistantNoContent = Some ''assistant''"
  "objectMembers assistantNoContent =
     Some [(''type'', JString ''assistant''), (''message'', JObject [(''model'', JString ''m'')])]"
  "fieldValues ''content''
     [(''type'', JString ''assistant''), (''message'', JObject [(''model'', JString ''m'')])] = []"
  "decodeField storeRawMap None (fieldValues ''message''
     [(''type'', JString ''assistant''), (''message'', JObject [(''model'', JString ''m'')])]) =
     Some (Some [(''model'', JString ''m'')])"
  "decodeAssistantAux assistantNoContent =
     Some \<lparr>aa_Content = None, aa_Message = Some [(''model'', JString ''m'')],
           aa_Type = ''assistant'', aa_Model = [], aa_ParentToolUseID = None, aa_Error = None\<rparr>"
  by code_simp+

theorem missing_content_user_fails_assistant_empty_witness:
  "UnmarshalMessage userNoContent =
     Inl (CLIJSONDecodeErrorWithCause ''failed to unmarshal user message'' userNoContent
            (Errorf ''missing content field''))
   \<and> (\<exists>a. UnmarshalMessage assistantNoContent = Inr (AssistantMsg a) \<and> am_Content a = [])"
  using missing_content_user_fails_assistant_empty
          [where l = userNoContent
             and members = "[(''type'', JString ''user''),
                             (''message'', JObject [(''role'', JString ''user'')])]"]
        missing_content_user_fails_assistant_empty
          [where l = assistantNoContent
             and members = "[(''type'', JString ''assistant''),
                             (''message'', JObject [(''model'', JString ''m'')])]"
             and aux = "\<lparr>aa_Content = None, aa_Message = Some [(''model'', JString ''m'')],
                        aa_Type = ''assistant'', aa_Model = [], aa_ParentToolUseID = None,
                        aa_Error = None\<rparr>"]
  by (simp add: no_content_facts)


subsection \<open>The generic codec\<close>

lemma map_store_append:
  "\<forall>k' \<in> set (map fst m). k' < k \<Longrightarrow> map_store k v m = m @ [(k, v)]"
  by (induction m) (auto simp: not_less_iff_gr_or_eq)

lemma foldl_map_store_sorted:
  "sorted_wrt (<) (map fst (acc @ kvs)) \<Longrightarrow>
   foldl (\<lambda>m (k, v). map_store k v m) acc kvs = acc @ kvs"
proof (induction kvs arbitrary: acc)
  case Nil
  then show ?case by simp
next
  case (Cons kv kvs)
  obtain k v where kv: "kv = (k, v)" by (cases kv)
  from Cons.prems have lt: "\<forall>k' \<in> set (map fst acc). k' < k"
    by (auto simp: kv sorted_wrt_append)
  have "sorted_wrt (<) (map fst ((acc @ [(k, v)]) @ kvs))"
    using Cons.prems by (simp add: kv)
  from Cons.IH [OF this] show ?case
    by (simp add: kv map_store_append [OF lt])
qed

lemma map_of_members_sorted:
  "sorted_wrt (<) (map fst kvs) \<Longrightarrow> map_of_members kvs = kvs"
  using foldl_map_store_sorted [of "[]" kvs] by (simp add: map_of_members_def)

lemma sort_key_sorted:
  "sorted_wrt (<) (map fst kvs) \<Longrightarrow> sort_key fst kvs = (kvs :: (string \<times> 'a) list)"
proof -
  assume "sorted_wrt (<) (map fst kvs)"
  then have "sorted (map fst kvs)"
    by (rule sorted_wrt_mono_rel [rotated]) auto
  then show ?thesis by (rule sort_key_id_if_sorted)
qed

lemma coerce_keys_id:
  "list_all wellFormed (map fst ms) \<Longrightarrow> map (\<lambda>(k, j). (coerceUTF8 k, j)) ms = ms"
  by (induction ms) (auto simp: wellFormed_def)

lemma marshalKeys_id:
  "sorted_wrt (<) (map fst ms) \<Longrightarrow> list_all wellFormed (map fst ms) \<Longrightarrow> marshalKeys ms = ms"
  by (simp add: marshalKeys_def sort_key_sorted coerce_keys_id)

lemma marshal_members_keys: "map fst (marshal_members kvs) = map fst kvs"
  by (induction kvs) auto

lemma decoded_members_keys: "decoded_members kvs \<Longrightarrow> list_all wellFormed (map fst kvs)"
  by (induction kvs) auto

lemma marshal_float64_decode: "decode_any (marshal_float64 f) = GFloat64 f"
  by (simp add: marshal_float64_def)

lemma decode_marshal:
  "decoded_value v \<Longrightarrow> decode_any (marshal v) = v"
  "decoded_values xs \<Longrightarrow> decode_any_list (marshal_list xs) = xs"
  "decoded_members kvs \<Longrightarrow> decode_any_members (marshal_members kvs) = kvs"
proof (induction v and xs and kvs rule: marshal_marshal_list_marshal_members.induct)
  case (5 s)
  then show ?case by (simp add: marshalString_def wellFormed_def)
next
  case (7 kvs)
  then have s: "sorted_wrt (<) (map fst kvs)" and m: "decoded_members kvs" by simp_all
  have "marshalKeys (marshal_members kvs) = marshal_members kvs"
    by (rule marshalKeys_id) (simp_all add: marshal_members_keys s decoded_members_keys [OF m])
  then show ?case
    using 7 m s by (simp add: map_of_members_sorted)
next
  case (13 k x kvs)
  then show ?case by (simp add: wellFormed_def)
qed (simp_all add: marshal_float64_decode)


lemma map_store_set: "set (map_store k v m) \<subseteq> insert (k, v) (set m)"
  by (induction m) (auto split: if_splits)

lemma map_store_keys: "fst ` set (map_store k v m) = insert k (fst ` set m)"
proof (induction m)
  case Nil
  then show ?case by simp
next
  case (Cons kv m)
  obtain k' v' where kv: "kv = (k', v')" by (cases kv)
  show ?case using Cons.IH by (simp add: kv insert_commute)
qed

lemma map_store_sorted:
  "sorted_wrt (<) (map fst m) \<Longrightarrow> sorted_wrt (<) (map fst (map_store k v m))"
proof (induction m)
  case Nil
  then show ?case by simp
next
  case (Cons kv m)
  obtain k' v' where kv: "kv = (k', v')" by (cases kv)
  show ?case
  proof (cases "k < k'")
    case True
    with Cons.prems show ?thesis by (auto simp: kv)
  next
    case False
    show ?thesis
    proof (cases "k = k'")
      case True
      with Cons.prems show ?thesis by (simp add: kv)
    next
      case ne: False
      with False have gt: "k' < k" by auto
      from Cons.prems have s: "sorted_wrt (<) (map fst m)" and a: "\<forall>x \<in> fst ` set m. k' < x"
        by (auto simp: kv)
      from a gt have "\<forall>x \<in> fst ` set (map_store k v m). k' < x"
        by (simp add: map_store_keys)
      with Cons.IH [OF s] False ne show ?thesis by (simp add: kv)
    qed
  qed
qed

lemma decoded_members_iff:
  "decoded_members kvs \<longleftrightarrow> (\<forall>kv \<in> set kvs. wellFormed (fst kv) \<and> decoded_value (snd kv))"
  by (induction kvs) auto

lemma map_store_decoded:
  "wellFormed k \<Longrightarrow> decoded_value v \<Longrightarrow> decoded_members m \<Longrightarrow> decoded_members (map_store k v m)"
  using map_store_set [of k v m] by (fastforce simp: decoded_members_iff)

lemma foldl_map_store_decoded:
  "sorted_wrt (<) (map fst acc) \<Longrightarrow> decoded_members acc \<Longrightarrow> decoded_members kvs \<Longrightarrow>
   sorted_wrt (<) (map fst (foldl (\<lambda>m (k, v). map_store k v m) acc kvs)) \<and>
   decoded_members (foldl (\<lambda>m (k, v). map_store k v m) acc kvs)"
proof (induction kvs arbitrary: acc)
  case Nil
  then show ?case by simp
next
  case (Cons kv kvs)
  obtain k v where kv: "kv = (k, v)" by (cases kv)
  from Cons.prems have "sorted_wrt (<) (map fst (map_store k v acc))"
    and "decoded_members (map_store k v acc)" and "decoded_members kvs"
    by (simp_all add: kv map_store_sorted map_store_decoded)
  from Cons.IH [OF this] show ?case by (simp add: kv)
qed

lemma decode_any_decoded:
  "decoded_value (decode_any j)"
  "decoded_values (decode_any_list js)"
  "decoded_members (decode_any_members ms)"
proof (induction j and js and ms rule: decode_any_decode_any_list_decode_any_members.induct)
  case (7 kvs)
  then show ?case
    using foldl_map_store_decoded [of "[]" "decode_any_members kvs"]
    by (simp add: map_of_members_def)
qed simp_all

lemma empty_decoded [simp]: "decoded_map None" "decoded_map (Some [])"
  by (simp_all add: decoded_map_def)

lemma storeAnyMap_decoded:
  "decoded_map old \<Longrightarrow> storeAnyMap j old = Some new \<Longrightarrow> decoded_map new"
proof (cases j)
  case (JObject kvs)
  assume o: "decoded_map old" and s: "storeAnyMap j old = Some new"
  have "sorted_wrt (<) (map fst (case old of None \<Rightarrow> [] | Some m \<Rightarrow> m))"
    and "decoded_members (case old of None \<Rightarrow> [] | Some m \<Rightarrow> m)"
    using o by (auto simp: decoded_map_def split: option.splits)
  from foldl_map_store_decoded [OF this decode_any_decoded(3) [of kvs]] s JObject
  show ?thesis by (auto simp: decoded_map_def)
qed (auto simp: decoded_map_def)

lemma decodeField_invariant:
  assumes "P zero" and "\<And>v old new. P old \<Longrightarrow> store v old = Some new \<Longrightarrow> P new"
    and "decodeField store zero vals = Some r"
  shows "P r"
proof -
  have "\<And>acc r. P acc \<Longrightarrow>
          foldl (\<lambda>acc v. case acc of None \<Rightarrow> None | Some old \<Rightarrow> store v old) (Some acc) vals = Some r \<Longrightarrow> P r"
  proof (induction vals)
    case Nil
    then show ?case by simp
  next
    case (Cons v vals)
    show ?case
    proof (cases "store v acc")
      case None
      have "foldl (\<lambda>acc v. case acc of None \<Rightarrow> None | Some old \<Rightarrow> store v old) None vals = None"
        by (induction vals) simp_all
      with Cons.prems None show ?thesis by simp
    next
      case (Some new)
      with Cons.prems assms(2) have "P new" by blast
      from Cons.IH [OF this] Cons.prems(2) Some show ?thesis by simp
    qed
  qed
  with assms(1,3) show ?thesis by (simp add: decodeField_def)
qed

lemma decodeField_AnyMap_decoded:
  "decodeField storeAnyMap None vals = Some r \<Longrightarrow> decoded_map r"
  by (rule decodeField_invariant [where P = decoded_map and store = storeAnyMap and zero = None])
     (auto intro: storeAnyMap_decoded)

lemma decodeField_Any_decoded:
  "decodeField storeAny GNil vals = Some r \<Longrightarrow> decoded_value r"
  by (rule decodeField_invariant [where P = decoded_value and store = storeAny and zero = GNil])
     (auto simp: decode_any_decoded)

lemma decodeField_Int_range:
  "decodeField storeInt 0 vals = Some r \<Longrightarrow> int64_value r"
proof (rule decodeField_invariant [where P = int64_value and store = storeInt and zero = 0])
  show "int64_value 0" by (simp add: int64_value_def)
  show "int64_value new" if "int64_value old" "storeInt v old = Some new" for v old new
    using that by (cases v) (auto simp: int64_value_def split: if_splits)
qed

lemma decodeField_String_wellFormed:
  "decodeField storeString [] vals = Some r \<Longrightarrow> wellFormed r"
proof (rule decodeField_invariant [where P = wellFormed and store = storeString and zero = "[]"])
  show "wellFormed []" by (simp add: wellFormed_def)
  show "wellFormed new" if "wellFormed old" "storeString v old = Some new" for v old new
    using that by (cases v) auto
qed

lemma decodeField_StringPtr_wellFormed:
  "decodeField storeStringPtr None vals = Some r \<Longrightarrow> wellFormedPtr r"
proof (rule decodeField_invariant [where P = wellFormedPtr and store = storeStringPtr and zero = None])
  show "wellFormedPtr None" by (simp add: wellFormedPtr_def)
  show "wellFormedPtr new" if "wellFormedPtr old" "storeStringPtr v old = Some new" for v old new
    using that by (cases v) (auto simp: wellFormedPtr_def)
qed

subsection \<open>Round trip of blocks and messages\<close>

lemma foldName_keys:
  "foldName ''text'' = ''TEXT''"
  "foldName ''thinking'' = ''THINKING''"
  "foldName ''signature'' = ''SIGNATURE''"
  "foldName ''id'' = ''ID''"
  "foldName ''name'' = ''NAME''"
  "foldName ''input'' = ''INPUT''"
  "foldName ''tool_use_id'' = ''TOOL_USE_ID''"
  "foldName ''is_error'' = ''IS_ERROR''"
  "foldName ''duration_ms'' = ''DURATION_MS''"
  "foldName ''duration_api_ms'' = ''DURATION_API_MS''"
  "foldName ''num_turns'' = ''NUM_TURNS''"
  "foldName ''session_id'' = ''SESSION_ID''"
  "foldName ''total_cost_usd'' = ''TOTAL_COST_USD''"
  "foldName ''usage'' = ''USAGE''"
  "foldName ''result'' = ''RESULT''"
  "foldName ''structured_output'' = ''STRUCTURED_OUTPUT''"
  "foldName ''event'' = ''EVENT''"
  by code_simp+

lemma coerce_keys:
  "coerceUTF8 ''type'' = ''type''"
  "coerceUTF8 ''subtype'' = ''subtype''"
  "coerceUTF8 ''data'' = ''data''"
  "coerceUTF8 ''response'' = ''response''"
  "coerceUTF8 ''request'' = ''request''"
  "coerceUTF8 ''request_id'' = ''request_id''"
  "coerceUTF8 ''content'' = ''content''"
  "coerceUTF8 ''message'' = ''message''"
  "coerceUTF8 ''uuid'' = ''uuid''"
  "coerceUTF8 ''parent_tool_use_id'' = ''parent_tool_use_id''"
  "coerceUTF8 ''model'' = ''model''"
  "coerceUTF8 ''error'' = ''error''"
  "coerceUTF8 ''text'' = ''text''"
  "coerceUTF8 ''thinking'' = ''thinking''"
  "coerceUTF8 ''signature'' = ''signature''"
  "coerceUTF8 ''id'' = ''id''"
  "coerceUTF8 ''name'' = ''name''"
  "coerceUTF8 ''input'' = ''input''"
  "coerceUTF8 ''tool_use_id'' = ''tool_use_id''"
  "coerceUTF8 ''is_error'' = ''is_error''"
  "coerceUTF8 ''duration_ms'' = ''duration_ms''"
  "coerceUTF8 ''duration_api_ms'' = ''duration_api_ms''"
  "coerceUTF8 ''num_turns'' = ''num_turns''"
  "coerceUTF8 ''session_id'' = ''session_id''"
  "coerceUTF8 ''total_cost_usd'' = ''total_cost_usd''"
  "coerceUTF8 ''usage'' = ''usage''"
  "coerceUTF8 ''result'' = ''result''"
  "coerceUTF8 ''structured_output'' = ''structured_output''"
  "coerceUTF8 ''event'' = ''event''"
  "coerceUTF8 ''tool_use'' = ''tool_use''"
  "coerceUTF8 ''tool_result'' = ''tool_result''"
  "coerceUTF8 ''user'' = ''user''"
  "coerceUTF8 ''assistant'' = ''assistant''"
  "coerceUTF8 ''system'' = ''system''"
  "coerceUTF8 ''control_request'' = ''control_request''"
  "coerceUTF8 ''control_response'' = ''control_response''"
  "coerceUTF8 ''stream_event'' = ''stream_event''"
  by (simp_all add: coerceUTF8_ascii)

lemmas foldName_all = foldName_fields foldName_fields2 foldName_keys

lemma storeString_marshalString:
  "wellFormed s \<Longrightarrow> storeString (marshalString s) old = Some s"
  by (simp add: marshalString_def wellFormed_def)

lemma storeStringPtr_marshalString:
  "wellFormed s \<Longrightarrow> storeStringPtr (marshalString s) old = Some (Some s)"
  by (simp add: marshalString_def wellFormed_def)

lemma storeString_name:
  "coerceUTF8 s = s \<Longrightarrow> storeString (marshalString s) old = Some s"
  by (simp add: marshalString_def)

lemma storeAnyMap_marshal:
  "decoded_value (GMap m) \<Longrightarrow> storeAnyMap (marshal (GMap m)) None = Some (Some m)"
proof -
  assume d: "decoded_value (GMap m)"
  from decode_marshal(1) [OF d]
  have "map_of_members (decode_any_members (marshalKeys (marshal_members m))) = m" by simp
  then show ?thesis by (simp add: map_of_members_def)
qed

lemma decodeField_single [simp]: "decodeField store zero [v] = store v zero"
  by (simp add: decodeField_def)

lemma fieldValues_append: "fieldValues field (xs @ ys) = fieldValues field xs @ fieldValues field ys"
  by (simp add: fieldValues_def)

lemma fieldValues_Cons:
  "fieldValues field ((k, v) # xs) =
     (if foldName (coerceUTF8 k) = foldName field then v # fieldValues field xs
      else fieldValues field xs)"
  by (simp add: fieldValues_def)

lemma block_round_trip:
  "block_value b \<Longrightarrow> UnmarshalContentBlock (marshalContentBlock b) = Inr b"
proof (cases b)
  case (TextBlock ty tx)
  assume "block_value b"
  with TextBlock show ?thesis
    by (simp add: UnmarshalContentBlock_def decodeTypeCheck_def decodeTextBlock_def fieldValues_Cons
          foldName_all coerce_keys storeString_marshalString storeString_name
          del: storeString.simps)
next
  case (ThinkingBlock ty thinking signature)
  assume "block_value b"
  with ThinkingBlock show ?thesis
    by (simp add: UnmarshalContentBlock_def decodeTypeCheck_def decodeThinkingBlock_def
          fieldValues_Cons foldName_all coerce_keys storeString_marshalString storeString_name
          del: storeString.simps)
next
  case (ToolUseBlock ty ident nm input)
  assume "block_value b"
  with ToolUseBlock show ?thesis
    by (cases input)
       (simp_all add: UnmarshalContentBlock_def decodeTypeCheck_def decodeToolUseBlock_def
          fieldValues_Cons foldName_all coerce_keys storeString_marshalString storeString_name
          storeAnyMap_marshal decoded_map_def
          del: marshal.simps decoded_value.simps storeString.simps)
next
  case (ToolResultBlock ty toolUseID content isError)
  assume "block_value b"
  with ToolResultBlock show ?thesis
    by (cases isError)
       (simp_all add: UnmarshalContentBlock_def decodeTypeCheck_def decodeToolResultBlock_def
          fieldValues_Cons foldName_all coerce_keys storeString_marshalString storeString_name
          decode_marshal del: storeString.simps)
qed

lemma blocks_round_trip:
  "list_all block_value blocks \<Longrightarrow> unmarshalBlocks (map marshalContentBlock blocks) = Inr blocks"
  by (induction blocks) (simp_all add: block_round_trip)

lemma decoded_block_value:
  assumes "UnmarshalContentBlock j = Inr b"
  shows "block_value b"
proof -
  from assms obtain ty where ty: "decodeTypeCheck j = Some ty"
    by (auto simp: UnmarshalContentBlock_def split: option.splits)
  then obtain members where ms: "objectMembers j = Some members"
    and t: "decodeField storeString [] (fieldValues ''type'' members) = Some ty"
    by (auto simp: decodeTypeCheck_def split: option.splits)
  from assms ty consider
      (is_text) "ty = ''text''" "decodeTextBlock j = Some b"
    | (is_thinking) "ty = ''thinking''" "decodeThinkingBlock j = Some b"
    | (is_tool_use) "ty = ''tool_use''" "decodeToolUseBlock j = Some b"
    | (is_tool_result) "ty = ''tool_result''" "decodeToolResultBlock j = Some b"
    by (auto simp: UnmarshalContentBlock_def split: option.splits if_splits)
  then show ?thesis
  proof cases
    case is_text
    with ms t show ?thesis
      by (auto simp: decodeTextBlock_def split: Option.bind_splits
               dest: decodeField_String_wellFormed)
  next
    case is_thinking
    with ms t show ?thesis
      by (auto simp: decodeThinkingBlock_def split: Option.bind_splits
               dest: decodeField_String_wellFormed)
  next
    case is_tool_use
    with ms t show ?thesis
      by (auto simp: decodeToolUseBlock_def split: Option.bind_splits
               dest: decodeField_AnyMap_decoded decodeField_String_wellFormed)
  next
    case is_tool_result
    with ms t show ?thesis
      by (auto simp: decodeToolResultBlock_def split: Option.bind_splits
               dest: decodeField_Any_decoded decodeField_String_wellFormed)
  qed
qed

lemma decoded_blocks_value:
  "unmarshalBlocks raws = Inr blocks \<Longrightarrow> list_all block_value blocks"
  by (induction raws arbitrary: blocks) (auto split: sum.splits dest: decoded_block_value)

lemma omitempty_other:
  "foldName (coerceUTF8 key) \<noteq> foldName field \<Longrightarrow> fieldValues field (omitemptyStringPtr key p) = []"
  "foldName (coerceUTF8 key) \<noteq> foldName field \<Longrightarrow> fieldValues field (omitemptyString key s) = []"
  "foldName (coerceUTF8 key) \<noteq> foldName field \<Longrightarrow> fieldValues field (omitemptyMap key m) = []"
  by (simp_all add: omitemptyStringPtr_def omitemptyString_def omitemptyMap_def fieldValues_def
               split: option.splits)

lemma decodeField_omitemptyStringPtr:
  "coerceUTF8 key = key \<Longrightarrow> wellFormedPtr p \<Longrightarrow>
   decodeField storeStringPtr None (fieldValues key (omitemptyStringPtr key p)) = Some p"
  by (cases p)
     (simp_all add: omitemptyStringPtr_def fieldValues_def wellFormedPtr_def
        storeStringPtr_marshalString)

lemma decodeField_omitemptyString:
  "coerceUTF8 key = key \<Longrightarrow> wellFormed s \<Longrightarrow>
   decodeField storeString [] (fieldValues key (omitemptyString key s)) = Some s"
  by (simp add: omitemptyString_def fieldValues_def storeString_marshalString)

lemma decodeField_omitemptyMap:
  "coerceUTF8 key = key \<Longrightarrow> decoded_map m \<Longrightarrow>
   decodeField storeAnyMap None (fieldValues key (omitemptyMap key m)) = Some (dropEmptyMap m)"
  by (cases m) (auto simp: omitemptyMap_def fieldValues_def dropEmptyMap_def storeAnyMap_marshal
                      decoded_map_def simp del: marshal.simps decoded_value.simps)

lemmas member_simps = fieldValues_append fieldValues_Cons omitempty_other foldName_all coerce_keys
  decodeField_omitemptyStringPtr decodeField_omitemptyString storeString_marshalString
  storeString_name

lemma user_round_trip:
  assumes "message_value (UserMsg m)"
  shows "UnmarshalMessage (marshalUserMessage m) = Inr (readBack (UserMsg m))"
proof -
  from assms have ty: "um_Type m = ''user''"
    and wf: "wellFormedPtr (um_ParentToolUseID m)" "wellFormedPtr (um_UUID m)"
    by simp_all
  have aux: "decodeUserAux (marshalUserMessage m) =
     Some \<lparr>ua_Content = Some (case um_Content m of
                                 ContentString s \<Rightarrow> marshalString s
                               | ContentBlocks None \<Rightarrow> JNull
                               | ContentBlocks (Some blocks) \<Rightarrow> JArray (map marshalContentBlock blocks)),
           ua_Message = None, ua_UUID = um_UUID m, ua_Type = um_Type m,
           ua_ParentToolUseID = um_ParentToolUseID m\<rparr>"
    using ty wf
    by (simp add: decodeUserAux_def marshalUserMessage_def member_simps del: storeString.simps)
  have tc: "decodeTypeCheck (marshalUserMessage m) = Some ''user''"
    using ty
    by (simp add: decodeTypeCheck_def marshalUserMessage_def member_simps del: storeString.simps)
  have "UserMessage_UnmarshalJSON (marshalUserMessage m) =
          Inr (if um_Content m = ContentBlocks None then m\<lparr>um_Content := ContentString []\<rparr> else m)"
  proof (cases "um_Content m")
    case (ContentString s)
    with assms have "wellFormed s" by simp
    with ContentString show ?thesis
      by (simp add: UserMessage_UnmarshalJSON_def aux userContentRaw_def Let_def
            unmarshalString_def storeString_marshalString del: storeString.simps)
  next
    case (ContentBlocks slice)
    show ?thesis
    proof (cases slice)
      case None
      with ContentBlocks show ?thesis
        by (simp add: UserMessage_UnmarshalJSON_def aux userContentRaw_def Let_def)
    next
      case (Some blocks)
      with ContentBlocks assms have "list_all block_value blocks" by simp
      from blocks_round_trip [OF this] ContentBlocks Some show ?thesis
        by (simp add: UserMessage_UnmarshalJSON_def aux userContentRaw_def Let_def)
    qed
  qed
  with tc show ?thesis by (simp add: UnmarshalMessage_def)
qed

lemma assistant_round_trip:
  assumes "message_value (AssistantMsg a)"
  shows "UnmarshalMessage (AssistantMessage_MarshalJSON a) = Inr (AssistantMsg a)"
proof -
  from assms have ty: "am_Type a = ''assistant''" and bs: "list_all block_value (am_Content a)"
    and wf: "wellFormed (am_Model a)" "wellFormedPtr (am_ParentToolUseID a)"
            "wellFormedPtr (am_Error a)"
    by simp_all
  have aux: "decodeAssistantAux (AssistantMessage_MarshalJSON a) =
     Some \<lparr>aa_Content = Some (map marshalContentBlock (am_Content a)), aa_Message = None,
           aa_Type = am_Type a, aa_Model = am_Model a,
           aa_ParentToolUseID = am_ParentToolUseID a, aa_Error = am_Error a\<rparr>"
    using ty wf
    by (simp add: decodeAssistantAux_def AssistantMessage_MarshalJSON_def member_simps
          del: storeString.simps)
  have tc: "decodeTypeCheck (AssistantMessage_MarshalJSON a) = Some ''assistant''"
    using ty
    by (simp add: decodeTypeCheck_def AssistantMessage_MarshalJSON_def member_simps
          del: storeString.simps)
  have "AssistantMessage_UnmarshalJSON (AssistantMessage_MarshalJSON a) = Inr a"
    using blocks_round_trip [OF bs]
    by (simp add: AssistantMessage_UnmarshalJSON_def aux assistantContentBlocks_def Let_def)
  with tc show ?thesis by (simp add: UnmarshalMessage_def)
qed

lemma system_round_trip:
  assumes "message_value (SystemMsg m)"
  shows "UnmarshalMessage (marshalSystemMessage m) = Inr (readBack (SystemMsg m))"
proof -
  from assms have ty: "sm_Type m = ''system'' \<or> sm_Type m = ''control_request'' \<or>
      sm_Type m = ''control_response''"
    and d: "decoded_map (sm_Data m)" "decoded_map (sm_Response m)" "decoded_map (sm_Request m)"
    and wf: "wellFormed (sm_Subtype m)" "wellFormed (sm_RequestID m)"
    by simp_all
  from ty have ct: "coerceUTF8 (sm_Type m) = sm_Type m"
    by (auto simp: coerce_keys)
  have dec: "decodeSystemMessage (marshalSystemMessage m) =
     Some (m\<lparr>sm_Data := dropEmptyMap (sm_Data m), sm_Response := dropEmptyMap (sm_Response m),
               sm_Request := dropEmptyMap (sm_Request m)\<rparr>)"
    using d wf ct
    by (simp add: decodeSystemMessage_def marshalSystemMessage_def member_simps
          decodeField_omitemptyMap del: marshal.simps storeString.simps)
  have tc: "decodeTypeCheck (marshalSystemMessage m) = Some (sm_Type m)"
    using ct
    by (simp add: decodeTypeCheck_def marshalSystemMessage_def member_simps
          del: storeString.simps)
  from ty tc dec show ?thesis by (auto simp: UnmarshalMessage_def)
qed


lemma storeFloat64Ptr_marshal: "storeFloat64Ptr (marshal_float64 f) old = Some (Some f)"
  by (simp add: marshal_float64_def)

lemma storeInt_value: "int64_value n \<Longrightarrow> storeInt (JInt n) old = Some n"
  by (simp add: int64_value_def)

lemma result_round_trip:
  assumes "message_value (ResultMsg m)"
  shows "UnmarshalMessage (marshalResultMessage m) = Inr (readBack (ResultMsg m))"
proof -
  from assms have ty: "rm_Type m = ''result''"
    and i: "int64_value (rm_DurationMs m)" "int64_value (rm_DurationAPIMs m)"
           "int64_value (rm_NumTurns m)"
    and u: "decoded_map (rm_Usage m)" and so: "decoded_value (rm_StructuredOutput m)"
    and wf: "wellFormed (rm_Subtype m)" "wellFormed (rm_SessionID m)" "wellFormedPtr (rm_Result m)"
    by simp_all
  have cost: "decodeField storeFloat64Ptr None
                (fieldValues ''total_cost_usd''
                   (case rm_TotalCostUSD m of None \<Rightarrow> []
                    | Some f \<Rightarrow> [(''total_cost_usd'', marshal_float64 f)])) = Some (rm_TotalCostUSD m)"
    by (cases "rm_TotalCostUSD m")
       (simp_all add: fieldValues_Cons storeFloat64Ptr_marshal coerce_keys)
  have cost_other: "foldName ''total_cost_usd'' \<noteq> foldName field \<Longrightarrow>
        fieldValues field (case rm_TotalCostUSD m of None \<Rightarrow> []
                           | Some f \<Rightarrow> [(''total_cost_usd'', marshal_float64 f)]) = []" for field
    by (cases "rm_TotalCostUSD m") (simp_all add: fieldValues_Cons coerce_keys)
  have out: "decodeField storeAny GNil
               (fieldValues ''structured_output''
                  (if rm_StructuredOutput m = GNil then []
                   else [(''structured_output'', marshal (rm_StructuredOutput m))])) =
             Some (rm_StructuredOutput m)"
    using decode_marshal(1) [OF so] by (simp add: fieldValues_Cons coerce_keys)
  have out_other: "foldName ''structured_output'' \<noteq> foldName field \<Longrightarrow>
        fieldValues field (if rm_StructuredOutput m = GNil then []
                           else [(''structured_output'', marshal (rm_StructuredOutput m))]) = []"
    for field
    by (simp add: fieldValues_Cons coerce_keys)
  have dec: "decodeResultMessage (marshalResultMessage m) =
               Some (m\<lparr>rm_Usage := dropEmptyMap (rm_Usage m)\<rparr>)"
    using i u wf ty
    by (simp add: decodeResultMessage_def marshalResultMessage_def member_simps
          decodeField_omitemptyMap cost cost_other out out_other storeInt_value
          del: marshal.simps storeInt.simps storeString.simps)
  have tc: "decodeTypeCheck (marshalResultMessage m) = Some ''result''"
    using ty
    by (simp add: decodeTypeCheck_def marshalResultMessage_def member_simps cost_other out_other
          del: marshal.simps storeString.simps)
  from tc dec show ?thesis by (simp add: UnmarshalMessage_def)
qed

lemma stream_round_trip:
  assumes "message_value (StreamMsg m)"
  shows "UnmarshalMessage (marshalStreamEvent m) = Inr (StreamMsg m)"
proof -
  from assms have ty: "se_Type m = ''stream_event''" and e: "decoded_map (se_Event m)"
    and wf: "wellFormed (se_UUID m)" "wellFormed (se_SessionID m)"
            "wellFormedPtr (se_ParentToolUseID m)"
    by simp_all
  have ev: "storeAnyMap (case se_Event m of None \<Rightarrow> JNull | Some kvs \<Rightarrow> marshal (GMap kvs)) None =
              Some (se_Event m)"
    using e
    by (cases "se_Event m")
       (simp_all add: storeAnyMap_marshal decoded_map_def del: marshal.simps decoded_value.simps)
  have dec: "decodeStreamEvent (marshalStreamEvent m) = Some m"
    using wf ty
    by (simp add: decodeStreamEvent_def marshalStreamEvent_def member_simps ev
          del: marshal.simps storeString.simps)
  have tc: "decodeTypeCheck (marshalStreamEvent m) = Some ''stream_event''"
    using ty
    by (simp add: decodeTypeCheck_def marshalStreamEvent_def member_simps
          del: marshal.simps storeString.simps)
  from tc dec show ?thesis by (simp add: UnmarshalMessage_def)
qed

lemma omitemptyMap_drop: "omitemptyMap key (dropEmptyMap m) = omitemptyMap key m"
  by (simp add: omitemptyMap_def dropEmptyMap_def)

lemma encode_decode:
  "message_value m \<Longrightarrow> UnmarshalMessage (MarshalMessage m) = Inr (readBack m)"
proof (cases m)
  case (UserMsg um)
  assume "message_value m"
  with UserMsg user_round_trip [of um] show ?thesis by simp
next
  case (AssistantMsg a)
  assume "message_value m"
  with AssistantMsg assistant_round_trip [of a] show ?thesis by simp
next
  case (SystemMsg sm)
  assume "message_value m"
  with SystemMsg system_round_trip [of sm] show ?thesis by simp
next
  case (ResultMsg rm)
  assume "message_value m"
  with ResultMsg result_round_trip [of rm] show ?thesis by simp
next
  case (StreamMsg se)
  assume "message_value m"
  with StreamMsg stream_round_trip [of se] show ?thesis by simp
qed

lemma unmarshalString_wellFormed: "unmarshalString raw = Some s \<Longrightarrow> wellFormed s"
  by (cases raw) (auto simp: unmarshalString_def wellFormed_def coerceUTF8_idem)

lemma nestedString_wellFormed:
  "wellFormedPtr old \<Longrightarrow> wellFormedPtr (nestedString nested key old)"
  by (auto simp: nestedString_def wellFormedPtr_def split: option.splits
           dest: unmarshalString_wellFormed)

lemma decoded_user_value:
  assumes p: "UserMessage_UnmarshalJSON l = Inr um" and aux: "decodeUserAux l = Some aux"
    and ms: "objectMembers l = Some members"
  shows "wellFormedPtr (um_ParentToolUseID um)" and "wellFormedPtr (um_UUID um)"
    and "case um_Content um of
           ContentString s \<Rightarrow> wellFormed s
         | ContentBlocks None \<Rightarrow> False
         | ContentBlocks (Some blocks) \<Rightarrow> list_all block_value blocks"
proof -
  from aux ms have a: "wellFormedPtr (ua_ParentToolUseID aux)" "wellFormedPtr (ua_UUID aux)"
    by (auto simp: decodeUserAux_def split: Option.bind_splits
             dest: decodeField_StringPtr_wellFormed)
  from user_fields(2) [OF p aux] a(1) show "wellFormedPtr (um_ParentToolUseID um)"
    by (cases "ua_Message aux") (simp_all add: nestedString_wellFormed)
  from user_fields(3) [OF p aux] a(2) show "wellFormedPtr (um_UUID um)"
    by (cases "ua_Message aux") (simp_all add: nestedString_wellFormed)
  from user_fields(4) [OF p aux]
  show "case um_Content um of
           ContentString s \<Rightarrow> wellFormed s
         | ContentBlocks None \<Rightarrow> False
         | ContentBlocks (Some blocks) \<Rightarrow> list_all block_value blocks"
    by (auto split: option.splits user_content.splits
             dest: decoded_blocks_value unmarshalString_wellFormed)
qed

lemma decoded_assistant_value:
  assumes p: "AssistantMessage_UnmarshalJSON l = Inr a" and aux: "decodeAssistantAux l = Some aux"
    and ms: "objectMembers l = Some members"
  shows "wellFormed (am_Model a)" and "wellFormedPtr (am_ParentToolUseID a)"
    and "wellFormedPtr (am_Error a)" and "list_all block_value (am_Content a)"
proof -
  from aux ms have a: "wellFormed (aa_Model aux)" "wellFormedPtr (aa_ParentToolUseID aux)"
      "wellFormedPtr (aa_Error aux)"
    by (auto simp: decodeAssistantAux_def split: Option.bind_splits
             dest: decodeField_StringPtr_wellFormed decodeField_String_wellFormed)
  from assistant_fields(4) [OF p aux] a(1) show "wellFormed (am_Model a)"
    by (auto split: option.splits dest: unmarshalString_wellFormed)
  from assistant_fields(2) [OF p aux] a(2) show "wellFormedPtr (am_ParentToolUseID a)"
    by simp
  from assistant_fields(5) [OF p aux] a(3) show "wellFormedPtr (am_Error a)"
    by (auto simp: wellFormedPtr_def split: option.splits if_splits
             dest: unmarshalString_wellFormed)
  from assistant_fields(3) [OF p aux] show "list_all block_value (am_Content a)"
    by (rule decoded_blocks_value)
qed

lemma decoded_message_value:
  assumes "UnmarshalMessage l = Inr m"
  shows "message_value m"
proof -
  from assms obtain ty where ty: "decodeTypeCheck l = Some ty"
    by (auto simp: UnmarshalMessage_def split: option.splits)
  then obtain members where ms: "objectMembers l = Some members"
    and t: "decodeField storeString [] (fieldValues ''type'' members) = Some ty"
    by (auto simp: decodeTypeCheck_def split: option.splits)
  show ?thesis
  proof (cases m)
    case (UserMsg um)
    with assms ty have u: "ty = ''user''" and p: "UserMessage_UnmarshalJSON l = Inr um"
      by (auto simp: UnmarshalMessage_def split: if_splits sum.splits option.splits)
    then obtain aux where aux: "decodeUserAux l = Some aux"
      by (auto simp: UserMessage_UnmarshalJSON_def split: option.splits)
    with ms t have "ua_Type aux = ty"
      by (auto simp: decodeUserAux_def split: Option.bind_splits)
    with user_fields(1) [OF p aux] u have 1: "um_Type um = ''user''" by simp
    from decoded_user_value [OF p aux ms] 1 UserMsg show ?thesis
      by (auto split: user_content.splits option.splits)
  next
    case (AssistantMsg a)
    with assms ty have u: "ty = ''assistant''" and p: "AssistantMessage_UnmarshalJSON l = Inr a"
      by (auto simp: UnmarshalMessage_def split: if_splits sum.splits option.splits)
    then obtain aux where aux: "decodeAssistantAux l = Some aux"
      by (auto simp: AssistantMessage_UnmarshalJSON_def split: option.splits)
    with ms t have "aa_Type aux = ty"
      by (auto simp: decodeAssistantAux_def split: Option.bind_splits)
    with assistant_fields(1) [OF p aux] u have 1: "am_Type a = ''assistant''" by simp
    from decoded_assistant_value [OF p aux ms] 1 AssistantMsg show ?thesis by simp
  next
    case (SystemMsg sm)
    with assms ty have u: "ty = ''system'' \<or> ty = ''control_request'' \<or> ty = ''control_response''"
      and p: "decodeSystemMessage l = Some sm"
      by (auto simp: UnmarshalMessage_def split: if_splits sum.splits option.splits)
    from p ms t have "sm_Type sm = ty" "decoded_map (sm_Data sm)" "decoded_map (sm_Response sm)"
      "decoded_map (sm_Request sm)" "wellFormed (sm_Subtype sm)" "wellFormed (sm_RequestID sm)"
      by (auto simp: decodeSystemMessage_def split: Option.bind_splits
               dest: decodeField_AnyMap_decoded decodeField_String_wellFormed)
    with u SystemMsg show ?thesis by auto
  next
    case (ResultMsg rm)
    with assms ty have u: "ty = ''result''" and p: "decodeResultMessage l = Some rm"
      by (auto simp: UnmarshalMessage_def split: if_splits sum.splits option.splits)
    from p ms t have "rm_Type rm = ty" "int64_value (rm_DurationMs rm)"
      "int64_value (rm_DurationAPIMs rm)" "int64_value (rm_NumTurns rm)"
      "decoded_map (rm_Usage rm)" "decoded_value (rm_StructuredOutput rm)"
      "wellFormed (rm_Subtype rm)" "wellFormed (rm_SessionID rm)" "wellFormedPtr (rm_Result rm)"
      by (auto simp: decodeResultMessage_def split: Option.bind_splits
               dest: decodeField_AnyMap_decoded decodeField_Any_decoded decodeField_Int_range
                     decodeField_String_wellFormed decodeField_StringPtr_wellFormed)
    with u ResultMsg show ?thesis by simp
  next
    case (StreamMsg se)
    with assms ty have u: "ty = ''stream_event''" and p: "decodeStreamEvent l = Some se"
      by (auto simp: UnmarshalMessage_def split: if_splits sum.splits option.splits)
    from p ms t have "se_Type se = ty" "decoded_map (se_Event se)"
      "wellFormed (se_UUID se)" "wellFormed (se_SessionID se)"
      "wellFormedPtr (se_ParentToolUseID se)"
      by (auto simp: decodeStreamEvent_def split: Option.bind_splits
               dest: decodeField_AnyMap_decoded decodeField_String_wellFormed
                     decodeField_StringPtr_wellFormed)
    with u StreamMsg show ?thesis by simp
  qed
qed

lemma decoded_user_content:
  "UnmarshalMessage l = Inr (UserMsg um) \<Longrightarrow> um_Content um \<noteq> ContentBlocks None"
proof -
  assume a: "UnmarshalMessage l = Inr (UserMsg um)"
  then have p: "UserMessage_UnmarshalJSON l = Inr um" by (rule user_parsed)
  then obtain aux where aux: "decodeUserAux l = Some aux"
    by (auto simp: UserMessage_UnmarshalJSON_def split: option.splits)
  from user_fields(4) [OF p aux] show ?thesis
    by (auto split: option.splits)
qed

lemma MarshalMessage_readBack:
  "UnmarshalMessage l = Inr m \<Longrightarrow> MarshalMessage (readBack m) = MarshalMessage m"
  by (cases m)
     (auto simp: marshalSystemMessage_def marshalResultMessage_def omitemptyMap_drop
        dest: decoded_user_content simp del: marshal.simps)

text \<open>
  C6, as amended.  Every line that the decoder accepts decodes to a message value of the
  data model, whose strings are well-formed UTF-8 and whose generic values are those of
  JSON decoding.  For every such value \<open>m\<close>, decoding the encoding of \<open>m\<close> gives \<open>m\<close>
  back, with two exceptions: an empty map in a field tagged
  \<^verbatim>\<open>omitempty\<close> (\<^verbatim>\<open>data\<close>, \<^verbatim>\<open>response\<close> and \<^verbatim>\<open>request\<close> of a system message, \<^verbatim>\<open>usage\<close> of a
  result message) is not written and is read back as the \<^verbatim>\<open>nil\<close> map, and the \<^verbatim>\<open>nil\<close>
  list of blocks of a user message is written as \<^verbatim>\<open>null\<close> and read back as the empty
  string.  A message that has neither is read back unchanged, and so is, up to its empty
  maps, every message that was decoded from a line.  The encoder writes the flat form,
  whichever form the line had.
\<close>

theorem round_trip:
  "(message_value m \<longrightarrow> UnmarshalMessage (MarshalMessage m) = Inr (readBack m))
   \<and> (message_value m \<and> readBack m = m \<longrightarrow> UnmarshalMessage (MarshalMessage m) = Inr m)
   \<and> (UnmarshalMessage l = Inr m \<longrightarrow>
        message_value m \<and>
        UnmarshalMessage (MarshalMessage m) = Inr (readBack m) \<and>
        MarshalMessage (readBack m) = MarshalMessage m \<and>
        UnmarshalMessage (MarshalMessage (readBack m)) = Inr (readBack m))"
  using encode_decode [of m] decoded_message_value [of l m] MarshalMessage_readBack [of l m]
  by auto

lemma both_forms_parse:
  "UnmarshalMessage userBothForms =
     Inr (UserMsg \<lparr>um_Type = ''user'', um_Content = ContentBlocks (Some [TextBlock ''text'' ''x'']),
                   um_ParentToolUseID = Some ''nested-p'', um_UUID = Some ''nested-u''\<rparr>)"
  by code_simp

theorem round_trip_witness:
  "UnmarshalMessage (MarshalMessage
     (UserMsg \<lparr>um_Type = ''user'', um_Content = ContentBlocks (Some [TextBlock ''text'' ''x'']),
               um_ParentToolUseID = Some ''nested-p'', um_UUID = Some ''nested-u''\<rparr>)) =
   Inr (UserMsg \<lparr>um_Type = ''user'', um_Content = ContentBlocks (Some [TextBlock ''text'' ''x'']),
                 um_ParentToolUseID = Some ''nested-p'', um_UUID = Some ''nested-u''\<rparr>)
   \<and> MarshalMessage
     (UserMsg \<lparr>um_Type = ''user'', um_Content = ContentBlocks (Some [TextBlock ''text'' ''x'']),
               um_ParentToolUseID = Some ''nested-p'', um_UUID = Some ''nested-u''\<rparr>) =
     JObject [(''type'', JString ''user''),
              (''content'', JArray [JObject [(''type'', JString ''text''), (''text'', JString ''x'')]]),
              (''parent_tool_use_id'', JString ''nested-p''), (''uuid'', JString ''nested-u'')]"
  using round_trip [where l = userBothForms
          and m = "UserMsg \<lparr>um_Type = ''user'',
                            um_Content = ContentBlocks (Some [TextBlock ''text'' ''x'']),
                            um_ParentToolUseID = Some ''nested-p'', um_UUID = Some ''nested-u''\<rparr>"]
  by (simp add: both_forms_parse marshalUserMessage_def omitemptyStringPtr_def marshalString_def
        coerceUTF8_ascii)

theorem encode_decode_counterexample:
  "UnmarshalMessage resultEmptyUsage =
     Inr (ResultMsg \<lparr>rm_Type = ''result'', rm_Subtype = ''success'', rm_DurationMs = 0,
                     rm_DurationAPIMs = 0, rm_IsError = False, rm_NumTurns = 0, rm_SessionID = [],
                     rm_TotalCostUSD = None, rm_Usage = Some [], rm_Result = None,
                     rm_StructuredOutput = GNil\<rparr>)
   \<and> UnmarshalMessage (MarshalMessage
     (ResultMsg \<lparr>rm_Type = ''result'', rm_Subtype = ''success'', rm_DurationMs = 0,
                 rm_DurationAPIMs = 0, rm_IsError = False, rm_NumTurns = 0, rm_SessionID = [],
                 rm_TotalCostUSD = None, rm_Usage = Some [], rm_Result = None,
                 rm_StructuredOutput = GNil\<rparr>)) =
     Inr (ResultMsg \<lparr>rm_Type = ''result'', rm_Subtype = ''success'', rm_DurationMs = 0,
                     rm_DurationAPIMs = 0, rm_IsError = False, rm_NumTurns = 0, rm_SessionID = [],
                     rm_TotalCostUSD = None, rm_Usage = None, rm_Result = None,
                     rm_StructuredOutput = GNil\<rparr>)
   \<and> UnmarshalMessage (MarshalMessage userNilContent) =
     Inr (UserMsg \<lparr>um_Type = ''user'', um_Content = ContentString [],
                   um_ParentToolUseID = None, um_UUID = None\<rparr>)
   \<and> UnmarshalMessage (MarshalMessage userInvalidText) =
     Inr (UserMsg \<lparr>um_Type = ''user'', um_Content = ContentString [CHR 0xEF, CHR 0xBF, CHR 0xBD],
                   um_ParentToolUseID = None, um_UUID = None\<rparr>)
   \<and> UnmarshalMessage (MarshalMessage resultIntOutput) =
     Inr (ResultMsg \<lparr>rm_Type = ''result'', rm_Subtype = ''success'', rm_DurationMs = 0,
                     rm_DurationAPIMs = 0, rm_IsError = False, rm_NumTurns = 0, rm_SessionID = [],
                     rm_TotalCostUSD = None, rm_Usage = None, rm_Result = None,
                     rm_StructuredOutput = GFloat64 1\<rparr>)"
  by code_simp

end
